theory Spec2Isabelle
  imports Main "HOL-Library.Sublist" "HOL-Library.Word"
begin

section \<open>The configuration document\<close>

text \<open>
  The loader reads its document through a JSON library (\<^verbatim>\<open>nlohmann::json\<close>).
  A parsed document is a tree of typed nodes.  An object is kept as the list of its
  members in the order the library iterates them (by key); a parsed object has no two
  members with the same key.  Floating-point numbers do not occur in the document
  schema and are left out.
\<close>

datatype json =
    JNull
  | JBool bool
  | JInt int
  | JStr string
  | JArr "json list"
  | JObj "(string \<times> json) list"

text \<open>
  Every failure of the loader is fatal and propagates to the caller.  The loader itself
  raises only one error (the configuration file cannot be opened); the others come from
  the JSON library.  \<open>UnknownReference\<close> and \<open>UnsupportedStorageType\<close> are the
  remaining names of the error taxonomy; no path of \<^verbatim>\<open>json_platform_loader.cpp\<close>
  raises them.
\<close>

datatype error =
    ConfigNotFound string
  | MalformedDocument
  | MissingField string
  | TypeMismatch
  | UnknownReference
  | UnsupportedStorageType

definition bindE :: "error + 'a \<Rightarrow> ('a \<Rightarrow> error + 'b) \<Rightarrow> error + 'b" where
  "bindE m f = (case m of Inl e \<Rightarrow> Inl e | Inr x \<Rightarrow> f x)"

text \<open>A range-based \<^verbatim>\<open>for\<close> whose body may fail: the first failure ends the loop.\<close>

fun foldE :: "('a \<Rightarrow> 's \<Rightarrow> error + 's) \<Rightarrow> 'a list \<Rightarrow> 's \<Rightarrow> error + 's" where
  "foldE f [] s = Inr s"
| "foldE f (x # xs) s = bindE (f x s) (foldE f xs)"

text \<open>
  \<^verbatim>\<open>j[key]\<close> on a \<^verbatim>\<open>const json&\<close>: the member when \<open>j\<close> is an object that has
  it.  On an object without the key the library's behaviour is undefined and guarded by
  a run-time assertion: the model reports the fatal \<open>MissingField\<close>.  On anything
  but an object the library throws \<^verbatim>\<open>type_error\<close>.
\<close>

fun json_at :: "json \<Rightarrow> string \<Rightarrow> error + json" where
  "json_at (JObj kvs) k =
     (case map_of kvs k of None \<Rightarrow> Inl (MissingField k) | Some v \<Rightarrow> Inr v)"
| "json_at _ k = Inl TypeMismatch"

text \<open>
  \<^verbatim>\<open>j[key]\<close> on a non-const \<^verbatim>\<open>json\<close>: a missing member is inserted as
  \<^verbatim>\<open>null\<close>, and a \<^verbatim>\<open>null\<close> document becomes an object first.  The result is
  the member and the document as the access leaves it.
\<close>

fun json_index :: "json \<Rightarrow> string \<Rightarrow> error + (json \<times> json)" where
  "json_index (JObj kvs) k =
     (case map_of kvs k of
        None \<Rightarrow> Inr (JNull, JObj (kvs @ [(k, JNull)]))
      | Some v \<Rightarrow> Inr (v, JObj kvs))"
| "json_index JNull k = Inr (JNull, JObj [(k, JNull)])"
| "json_index _ k = Inl TypeMismatch"

text \<open>\<^verbatim>\<open>j.contains(key)\<close>: false on anything but an object.\<close>

fun json_contains :: "json \<Rightarrow> string \<Rightarrow> bool" where
  "json_contains (JObj kvs) k = (map_of kvs k \<noteq> None)"
| "json_contains _ k = False"

text \<open>
  The range-based \<^verbatim>\<open>for\<close> over a node: the elements of an array, the member values
  of an object, nothing for \<^verbatim>\<open>null\<close>, and the node itself once for a scalar.
\<close>

fun json_items :: "json \<Rightarrow> json list" where
  "json_items (JArr xs) = xs"
| "json_items (JObj kvs) = map snd kvs"
| "json_items JNull = []"
| "json_items j = [j]"

text \<open>The conversion to \<^verbatim>\<open>std::string\<close>: only a string node converts.\<close>

fun get_string :: "json \<Rightarrow> error + string" where
  "get_string (JStr s) = Inr s"
| "get_string _ = Inl TypeMismatch"

text \<open>
  The conversion to \<^verbatim>\<open>int\<close>: a number is cast to the 32-bit signed \<^verbatim>\<open>int\<close>
  (\<^verbatim>\<open>static_cast\<close>, which wraps), a boolean becomes 0 or 1.
\<close>

definition to_int :: "int \<Rightarrow> int" where
  "to_int n = sint (word_of_int n :: 32 word)"

fun get_int :: "json \<Rightarrow> error + int" where
  "get_int (JInt n) = Inr (to_int n)"
| "get_int (JBool b) = Inr (if b then 1 else 0)"
| "get_int _ = Inl TypeMismatch"

text \<open>\<^verbatim>\<open>const std::string x = cfg["key"];\<close> and \<^verbatim>\<open>int x = cfg["key"];\<close>\<close>

definition field_string :: "json \<Rightarrow> string \<Rightarrow> error + string" where
  "field_string cfg k = bindE (json_at cfg k) get_string"

definition field_int :: "json \<Rightarrow> string \<Rightarrow> error + int" where
  "field_int cfg k = bindE (json_at cfg k) get_int"

text \<open>\<^verbatim>\<open>std::to_string(i)\<close> for the non-negative loop counters of the loader.\<close>

definition digit_char :: "nat \<Rightarrow> char" where
  "digit_char d = ''0123456789'' ! d"

fun to_string :: "nat \<Rightarrow> string" where
  "to_string n = (if n < 10 then [digit_char n] else to_string (n div 10) @ [digit_char (n mod 10)])"

declare to_string.simps [simp del]

section \<open>The simulation engine and the storage library, at their interface\<close>

text \<open>
  The engine owns zones, hosts, disks, links, routers and routes; the loader holds
  pointers to them.  A handle is the position of the object in the engine's list of
  objects of its kind, in creation order; a null pointer is \<open>None\<close>.  The engine's
  root zone (\<^verbatim>\<open>e.get_netzone_root()\<close>) is the parent \<open>None\<close>.
\<close>

type_synonym handle = nat

datatype routing = FullZone | FloydZone | StarZone | EmptyZone

record netzone =
  nz_name :: string
  nz_routing :: routing
  nz_parent :: "handle option"
  nz_gateway :: "handle option"
  nz_sealed :: bool

record host =
  h_name :: string
  h_zone :: handle
  h_speed :: string
  h_cores :: int

record disk =
  d_name :: string
  d_host :: handle
  d_read_bw :: string
  d_write_bw :: string

datatype sharing_policy = SHARED | FATPIPE

record link =
  l_name :: string
  l_zone :: handle
  l_bandwidth :: string
  l_latency :: string
  l_policy :: sharing_policy

record router =
  rt_name :: string
  rt_zone :: handle

text \<open>
  A route end is a host pointer or a zone pointer, according to the overload of
  \<^verbatim>\<open>add_route\<close> that the call selects; inside a zone a null host stands for the
  zone's gateway.  The links of a route are pointers too, and may be null.
\<close>

datatype endpoint = HostEnd "handle option" | ZoneEnd "handle option"

record route =
  r_zone :: handle
  r_src :: endpoint
  r_dst :: endpoint
  r_links :: "handle option list"
  r_symmetrical :: bool

datatype storage_kind = OneDisk | JBOD

record storage =
  st_name :: string
  st_kind :: storage_kind
  st_disks :: "handle list"

record partition =
  p_mount_point :: string
  p_storage :: "storage option"
  p_size :: string

record filesystem =
  fs_name :: string
  fs_max_open_files :: int
  fs_partitions :: "partition list"

text \<open>
  The state of the process: the engine's objects, the file systems created so far with
  the calls of \<^verbatim>\<open>register_file_system\<close> in order, and the loader's three file-scope
  maps.  \<^verbatim>\<open>std::map::operator[]\<close> inserts a default (null) value under a key it does
  not find, so a key can be present with a null pointer: \<open>Some None\<close>.
\<close>

record state =
  zones :: "netzone list"
  hosts :: "host list"
  disks :: "disk list"
  links :: "link list"
  routers :: "router list"
  routes :: "route list"
  filesystems :: "filesystem list"
  registered :: "(handle option \<times> handle) list"
  storage_map :: "string \<rightharpoonup> storage option"
  zone_map :: "string \<rightharpoonup> handle option"
  link_map :: "string \<rightharpoonup> handle option"

definition add_netzone :: "routing \<Rightarrow> handle option \<Rightarrow> string \<Rightarrow> state \<Rightarrow> handle \<times> state" where
  "add_netzone kind parent name s =
     (length (zones s),
      s\<lparr>zones := zones s @
           [\<lparr>nz_name = name, nz_routing = kind, nz_parent = parent,
             nz_gateway = None, nz_sealed = False\<rparr>]\<rparr>)"

definition seal :: "handle \<Rightarrow> state \<Rightarrow> state" where
  "seal z s = s\<lparr>zones := (zones s)[z := (zones s ! z)\<lparr>nz_sealed := True\<rparr>]\<rparr>"

definition add_host :: "handle \<Rightarrow> string \<Rightarrow> string \<Rightarrow> state \<Rightarrow> handle \<times> state" where
  "add_host z name speed s =
     (length (hosts s),
      s\<lparr>hosts := hosts s @ [\<lparr>h_name = name, h_zone = z, h_speed = speed, h_cores = 1\<rparr>]\<rparr>)"

definition set_core_count :: "handle \<Rightarrow> int \<Rightarrow> state \<Rightarrow> state" where
  "set_core_count h n s = s\<lparr>hosts := (hosts s)[h := (hosts s ! h)\<lparr>h_cores := n\<rparr>]\<rparr>"

definition add_disk :: "handle \<Rightarrow> string \<Rightarrow> string \<Rightarrow> string \<Rightarrow> state \<Rightarrow> handle \<times> state" where
  "add_disk h name read_bw write_bw s =
     (length (disks s),
      s\<lparr>disks := disks s @
           [\<lparr>d_name = name, d_host = h, d_read_bw = read_bw, d_write_bw = write_bw\<rparr>]\<rparr>)"

definition add_link :: "handle \<Rightarrow> string \<Rightarrow> string \<Rightarrow> state \<Rightarrow> handle \<times> state" where
  "add_link z name bandwidth s =
     (length (links s),
      s\<lparr>links := links s @
           [\<lparr>l_name = name, l_zone = z, l_bandwidth = bandwidth, l_latency = ''0'',
             l_policy = SHARED\<rparr>]\<rparr>)"

definition set_latency :: "handle \<Rightarrow> string \<Rightarrow> state \<Rightarrow> state" where
  "set_latency l lat s = s\<lparr>links := (links s)[l := (links s ! l)\<lparr>l_latency := lat\<rparr>]\<rparr>"

definition set_sharing_policy :: "handle \<Rightarrow> sharing_policy \<Rightarrow> state \<Rightarrow> state" where
  "set_sharing_policy l p s = s\<lparr>links := (links s)[l := (links s ! l)\<lparr>l_policy := p\<rparr>]\<rparr>"

definition add_route :: "handle \<Rightarrow> endpoint \<Rightarrow> endpoint \<Rightarrow> handle option list \<Rightarrow> bool \<Rightarrow> state \<Rightarrow> state" where
  "add_route z src dst ls symmetrical s =
     s\<lparr>routes := routes s @
          [\<lparr>r_zone = z, r_src = src, r_dst = dst, r_links = ls, r_symmetrical = symmetrical\<rparr>]\<rparr>"

definition add_router :: "handle \<Rightarrow> string \<Rightarrow> state \<Rightarrow> handle \<times> state" where
  "add_router z name s =
     (length (routers s), s\<lparr>routers := routers s @ [\<lparr>rt_name = name, rt_zone = z\<rparr>]\<rparr>)"

definition set_gateway :: "handle \<Rightarrow> handle \<Rightarrow> state \<Rightarrow> state" where
  "set_gateway z r s = s\<lparr>zones := (zones s)[z := (zones s ! z)\<lparr>nz_gateway := Some r\<rparr>]\<rparr>"

text \<open>\<^verbatim>\<open>OneDiskStorage::create\<close> and \<^verbatim>\<open>JBODStorage::create\<close>.\<close>

definition OneDiskStorage_create :: "string \<Rightarrow> handle \<Rightarrow> storage" where
  "OneDiskStorage_create name d = \<lparr>st_name = name, st_kind = OneDisk, st_disks = [d]\<rparr>"

definition JBODStorage_create :: "string \<Rightarrow> handle list \<Rightarrow> storage" where
  "JBODStorage_create name ds = \<lparr>st_name = name, st_kind = JBOD, st_disks = ds\<rparr>"

text \<open>
  Reading \<^verbatim>\<open>m[key]\<close> from one of the loader's maps: the value, and the map with the
  key inserted under a null pointer when it was absent.
\<close>

definition map_index :: "('k \<rightharpoonup> 'v option) \<Rightarrow> 'k \<Rightarrow> 'v option \<times> ('k \<rightharpoonup> 'v option)" where
  "map_index m k = (case m k of None \<Rightarrow> (None, m(k \<mapsto> None)) | Some v \<Rightarrow> (v, m))"


text \<open>The storage library's file systems (\<^verbatim>\<open>sgfs::FileSystem\<close>).\<close>

definition FileSystem_create :: "string \<Rightarrow> int \<Rightarrow> state \<Rightarrow> handle \<times> state" where
  "FileSystem_create name max_open_files s =
     (length (filesystems s),
      s\<lparr>filesystems := filesystems s @
           [\<lparr>fs_name = name, fs_max_open_files = max_open_files, fs_partitions = []\<rparr>]\<rparr>)"

definition mount_partition :: "handle \<Rightarrow> string \<Rightarrow> storage option \<Rightarrow> string \<Rightarrow> state \<Rightarrow> state" where
  "mount_partition fs mount_point st sz s =
     s\<lparr>filesystems := (filesystems s)
          [fs := (filesystems s ! fs)
             \<lparr>fs_partitions := fs_partitions (filesystems s ! fs) @
                [\<lparr>p_mount_point = mount_point, p_storage = st, p_size = sz\<rparr>]\<rparr>]\<rparr>"

definition register_file_system :: "handle option \<Rightarrow> handle \<Rightarrow> state \<Rightarrow> state" where
  "register_file_system zone fs s = s\<lparr>registered := registered s @ [(zone, fs)]\<rparr>"

section \<open>The loader\<close>

subsection \<open>\<^verbatim>\<open>create_storage_system_zone\<close>\<close>

text \<open>The disks of a JBOD: the loop \<^verbatim>\<open>for (int i = 0; i < disk_count; i++)\<close>.\<close>

definition jbod_disk :: "handle \<Rightarrow> string \<Rightarrow> int \<Rightarrow> string \<Rightarrow> string \<Rightarrow> nat \<Rightarrow>
    handle list \<times> state \<Rightarrow> handle list \<times> state" where
  "jbod_disk server disk_name_base disk_count read_bw write_bw i acc =
     (let disk_name = (if disk_count = 1 then disk_name_base else disk_name_base @ to_string i);
          (d, s') = add_disk server disk_name read_bw write_bw (snd acc)
      in (fst acc @ [d], s'))"

definition create_storage_system_zone :: "handle \<Rightarrow> json \<Rightarrow> state \<Rightarrow> error + state" where
  "create_storage_system_zone parent storage_config s =
     bindE (field_string storage_config ''name'') (\<lambda>name.
       let (zone, s1) = add_netzone EmptyZone (Some parent) name s;
           s2 = s1\<lparr>zone_map := (zone_map s1)(name \<mapsto> Some zone)\<rparr>;
           server_name = name @ ''_server'';
           storage_name = name @ ''_storage'';
           disk_name_base = name @ ''_disk''
       in
       bindE (field_string storage_config ''server_speed'') (\<lambda>server_speed.
         let (server, s3) = add_host zone server_name server_speed s2 in
         bindE (field_string storage_config ''type'') (\<lambda>storage_type.
         bindE (field_int storage_config ''disk_count'') (\<lambda>disk_count.
         bindE (field_string storage_config ''read_bandwidth'') (\<lambda>read_bw.
         bindE (field_string storage_config ''write_bandwidth'') (\<lambda>write_bw.
           let s4 =
             (if storage_type = ''JBOD'' then
                (let (ds, t) = fold (jbod_disk server disk_name_base disk_count read_bw write_bw)
                                 [0..<nat disk_count] ([], s3)
                 in t\<lparr>storage_map := (storage_map t)
                        (storage_name \<mapsto> Some (JBODStorage_create storage_name ds))\<rparr>)
              else if storage_type = ''OneDisk'' then
                (let (d, t) = add_disk server disk_name_base read_bw write_bw s3
                 in t\<lparr>storage_map := (storage_map t)
                        (storage_name \<mapsto> Some (OneDiskStorage_create storage_name d))\<rparr>)
              else s3)
           in Inr (seal zone s4)))))))"

subsection \<open>\<^verbatim>\<open>create_cluster_zone\<close>\<close>

text \<open>The local variables of \<^verbatim>\<open>create_cluster_zone\<close> that the node loop reads.\<close>

record cluster_locals =
  cl_prefix :: string
  cl_suffix :: string
  cl_host_speed :: string
  cl_host_cores :: int
  cl_link_bw :: string
  cl_link_lat :: string
  cl_loopback_bw :: string
  cl_loopback_lat :: string
  cl_has_storage :: bool
  cl_storage_base_name :: string
  cl_storage_type :: string
  cl_storage_read_bw :: string
  cl_storage_write_bw :: string

text \<open>
  One pass of the node loop.  The last \<^verbatim>\<open>add_route\<close> passes no flag: the overloads it
  can select install the route in both directions.
\<close>

definition cluster_node :: "handle \<Rightarrow> handle \<Rightarrow> cluster_locals \<Rightarrow> nat \<Rightarrow> state \<Rightarrow> state" where
  "cluster_node cluster backbone v i s0 =
     (let hostname = cl_prefix v @ to_string i @ cl_suffix v;
          (host, s1) = add_host cluster hostname (cl_host_speed v) s0;
          s2 = set_core_count host (cl_host_cores v) s1;
          s3 =
            (if cl_has_storage v then
               (let storage_name = hostname @ ''_'' @ cl_storage_base_name v;
                    disk_name = storage_name @ ''_disk'';
                    (d, t) = add_disk host disk_name (cl_storage_read_bw v) (cl_storage_write_bw v) s2
                in if cl_storage_type v = ''OneDisk'' then
                     t\<lparr>storage_map := (storage_map t)
                         (storage_name \<mapsto> Some (OneDiskStorage_create storage_name d))\<rparr>
                   else if cl_storage_type v = ''JBOD'' then
                     t\<lparr>storage_map := (storage_map t)
                         (storage_name \<mapsto> Some (JBODStorage_create storage_name [d]))\<rparr>
                   else t)
             else s2);
          (link_up, s4) = add_link cluster (hostname @ ''_LinkUP'') (cl_link_bw v) s3;
          s5 = set_latency link_up (cl_link_lat v) s4;
          (link_down, s6) = add_link cluster (hostname @ ''_LinkDOWN'') (cl_link_bw v) s5;
          s7 = set_latency link_down (cl_link_lat v) s6;
          (loopback, s8) = add_link cluster (hostname @ ''_loopback'') (cl_loopback_bw v) s7;
          s9 = set_latency loopback (cl_loopback_lat v) s8;
          s10 = set_sharing_policy loopback FATPIPE s9;
          s11 = add_route cluster (HostEnd (Some host)) (HostEnd None)
                  [Some link_up, Some backbone] False s10;
          s12 = add_route cluster (HostEnd None) (HostEnd (Some host))
                  [Some backbone, Some link_down] False s11
      in add_route cluster (HostEnd (Some host)) (HostEnd (Some host)) [Some loopback] True s12)"

text \<open>The optional storage template of the node configuration.\<close>

definition node_storage :: "json \<Rightarrow> error + (bool \<times> string \<times> string \<times> string \<times> string)" where
  "node_storage node_cfg =
     (if json_contains node_cfg ''storage'' then
        bindE (json_at node_cfg ''storage'') (\<lambda>storage_cfg.
        bindE (field_string storage_cfg ''name'') (\<lambda>storage_base_name.
        bindE (field_string storage_cfg ''type'') (\<lambda>storage_type.
        bindE (field_string storage_cfg ''read_bandwidth'') (\<lambda>storage_read_bw.
        bindE (field_string storage_cfg ''write_bandwidth'') (\<lambda>storage_write_bw.
          Inr (True, storage_base_name, storage_type, storage_read_bw, storage_write_bw))))))
      else Inr (False, [], [], [], []))"

definition create_cluster_zone :: "handle \<Rightarrow> json \<Rightarrow> state \<Rightarrow> error + state" where
  "create_cluster_zone parent cluster_config s =
     bindE (field_string cluster_config ''name'') (\<lambda>name.
     bindE (field_string cluster_config ''prefix'') (\<lambda>prefix.
     bindE (field_string cluster_config ''suffix'') (\<lambda>suffix.
     bindE (field_int cluster_config ''count'') (\<lambda>count.
       let (cluster, s1) = add_netzone StarZone (Some parent) name s;
           s2 = s1\<lparr>zone_map := (zone_map s1)(name \<mapsto> Some cluster)\<rparr>
       in
       bindE (json_at cluster_config ''backbone'') (\<lambda>backbone_cfg.
       bindE (field_string backbone_cfg ''bandwidth'') (\<lambda>backbone_bw.
       bindE (field_string backbone_cfg ''latency'') (\<lambda>backbone_lat.
         let backbone_name = name @ ''_backbone'';
             (backbone, s3) = add_link cluster backbone_name backbone_bw s2;
             s4 = set_latency backbone backbone_lat s3
         in
         bindE (json_at cluster_config ''node'') (\<lambda>node_cfg.
         bindE (field_string node_cfg ''speed'') (\<lambda>host_speed.
         bindE (field_int node_cfg ''cores'') (\<lambda>host_cores.
         bindE (json_at node_cfg ''private_link'') (\<lambda>private_link_cfg.
         bindE (field_string private_link_cfg ''bandwidth'') (\<lambda>link_bw.
         bindE (field_string private_link_cfg ''latency'') (\<lambda>link_lat.
         bindE (json_at node_cfg ''loopback'') (\<lambda>loopback_cfg.
         bindE (field_string loopback_cfg ''bandwidth'') (\<lambda>loopback_bw.
         bindE (field_string loopback_cfg ''latency'') (\<lambda>loopback_lat.
         bindE (node_storage node_cfg)
           (\<lambda>(has_storage, storage_base_name, storage_type, storage_read_bw, storage_write_bw).
           let v = \<lparr>cl_prefix = prefix, cl_suffix = suffix, cl_host_speed = host_speed,
                     cl_host_cores = host_cores, cl_link_bw = link_bw, cl_link_lat = link_lat,
                     cl_loopback_bw = loopback_bw, cl_loopback_lat = loopback_lat,
                     cl_has_storage = has_storage, cl_storage_base_name = storage_base_name,
                     cl_storage_type = storage_type, cl_storage_read_bw = storage_read_bw,
                     cl_storage_write_bw = storage_write_bw\<rparr>;
               s5 = fold (cluster_node cluster backbone v) [0..<nat count] s4;
               router_name = name @ ''_router'';
               (r, s6) = add_router cluster router_name s5;
               s7 = set_gateway cluster r s6
           in Inr (seal cluster s7))))))))))))))))))"


subsection \<open>\<^verbatim>\<open>create_inter_zone_links\<close> and \<^verbatim>\<open>create_routes\<close>\<close>

definition inter_zone_link :: "handle \<Rightarrow> json \<Rightarrow> state \<Rightarrow> error + state" where
  "inter_zone_link datacenter link_cfg s =
     bindE (field_string link_cfg ''name'') (\<lambda>link_name.
     bindE (field_string link_cfg ''bandwidth'') (\<lambda>bandwidth.
     bindE (field_string link_cfg ''latency'') (\<lambda>latency.
       let (l, s1) = add_link datacenter link_name bandwidth s;
           s2 = set_latency l latency s1
       in Inr (s2\<lparr>link_map := (link_map s2)(link_name \<mapsto> Some l)\<rparr>))))"

definition create_inter_zone_links :: "handle \<Rightarrow> json \<Rightarrow> state \<Rightarrow> error + state" where
  "create_inter_zone_links datacenter links_config s =
     foldE (inter_zone_link datacenter) (json_items links_config) s"

text \<open>
  The inner loop of \<^verbatim>\<open>create_routes\<close>: each link name is looked up with
  \<^verbatim>\<open>link_map[...]\<close>, and the pointer found (null for an absent name) is appended to
  \<^verbatim>\<open>route_links\<close>.
\<close>

definition route_link :: "json \<Rightarrow> handle option list \<times> state \<Rightarrow> error + (handle option list \<times> state)" where
  "route_link link_name acc =
     bindE (get_string link_name) (\<lambda>n.
       let (l, lm) = map_index (link_map (snd acc)) n
       in Inr (fst acc @ [l], (snd acc)\<lparr>link_map := lm\<rparr>))"

definition create_route :: "handle \<Rightarrow> json \<Rightarrow> state \<Rightarrow> error + state" where
  "create_route datacenter route_cfg s =
     bindE (field_string route_cfg ''src'') (\<lambda>src_name.
     bindE (field_string route_cfg ''dst'') (\<lambda>dst_name.
       let (src_zone, zm1) = map_index (zone_map s) src_name;
           s1 = s\<lparr>zone_map := zm1\<rparr>;
           (dst_zone, zm2) = map_index (zone_map s1) dst_name;
           s2 = s1\<lparr>zone_map := zm2\<rparr>
       in
       bindE (json_at route_cfg ''links'') (\<lambda>names.
       bindE (foldE route_link (json_items names) ([], s2)) (\<lambda>(route_links, s3).
         Inr (add_route datacenter (ZoneEnd src_zone) (ZoneEnd dst_zone) route_links True s3)))))"

definition create_routes :: "handle \<Rightarrow> json \<Rightarrow> state \<Rightarrow> error + state" where
  "create_routes datacenter routes_config s =
     foldE (create_route datacenter) (json_items routes_config) s"

subsection \<open>\<^verbatim>\<open>create_filesystems\<close>\<close>

text \<open>\<^verbatim>\<open>s.find(pat)\<close>: the lowest position at which \<open>pat\<close> occurs in \<open>s\<close>.\<close>

fun find_str :: "string \<Rightarrow> string \<Rightarrow> nat option" where
  "find_str [] pat = (if pat = [] then Some 0 else None)"
| "find_str (c # cs) pat =
     (if prefix pat (c # cs) then Some 0 else map_option Suc (find_str cs pat))"

text \<open>
  The substitution loop
  \<^verbatim>\<open>while ((pos = mount_point.find("{hostname}")) != npos) mount_point.replace(pos, 10, hostname);\<close>
  Nothing bounds the number of its passes, so the result is optional: \<open>None\<close> is a
  loop that never ends.
\<close>

partial_function (option) replace_hostname :: "string \<Rightarrow> string \<Rightarrow> string option" where
  "replace_hostname mount_point hostname =
     (case find_str mount_point ''{hostname}'' of
        None \<Rightarrow> Some mount_point
      | Some pos \<Rightarrow>
          replace_hostname (take pos mount_point @ hostname @ drop (pos + 10) mount_point) hostname)"

declare replace_hostname.simps [code]

text \<open>
  What the search for the cluster's configuration leaves in the local variables
  \<^verbatim>\<open>prefix\<close>, \<^verbatim>\<open>suffix\<close>, \<^verbatim>\<open>storage_base_name\<close> and \<^verbatim>\<open>count\<close>.
\<close>

record cluster_info =
  ci_prefix :: string
  ci_suffix :: string
  ci_storage_base_name :: string
  ci_count :: int

text \<open>The inner search loop, which stops (\<^verbatim>\<open>break\<close>) at the first cluster of the name.\<close>

fun find_in_clusters :: "string \<Rightarrow> json list \<Rightarrow> cluster_info \<Rightarrow> error + cluster_info" where
  "find_in_clusters cluster_name [] v = Inr v"
| "find_in_clusters cluster_name (cluster # rest) v =
     (case json_at cluster ''name'' of
        Inl e \<Rightarrow> Inl e
      | Inr n \<Rightarrow>
          if n = JStr cluster_name then
            bindE (field_string cluster ''prefix'') (\<lambda>prefix.
            bindE (field_string cluster ''suffix'') (\<lambda>suffix.
            bindE (field_int cluster ''count'') (\<lambda>count.
            bindE (json_at cluster ''node'') (\<lambda>node.
              let v' = v\<lparr>ci_prefix := prefix, ci_suffix := suffix, ci_count := count\<rparr> in
              if json_contains node ''storage'' then
                bindE (json_at node ''storage'') (\<lambda>storage_cfg.
                bindE (field_string storage_cfg ''name'') (\<lambda>storage_base_name.
                  Inr (v'\<lparr>ci_storage_base_name := storage_base_name\<rparr>)))
              else Inr v'))))
          else find_in_clusters cluster_name rest v)"

text \<open>The outer search loop runs over every facility: a later match overwrites an earlier one.\<close>

definition find_in_facility :: "string \<Rightarrow> json \<Rightarrow> cluster_info \<Rightarrow> error + cluster_info" where
  "find_in_facility cluster_name dc v =
     (if json_contains dc ''clusters'' then
        bindE (json_at dc ''clusters'') (\<lambda>clusters. find_in_clusters cluster_name (json_items clusters) v)
      else Inr v)"

definition find_cluster :: "string \<Rightarrow> json \<Rightarrow> error + cluster_info" where
  "find_cluster cluster_name platform_config =
     bindE (json_at platform_config ''facilities'') (\<lambda>facilities.
       foldE (find_in_facility cluster_name) (json_items facilities)
         \<lparr>ci_prefix = [], ci_suffix = [], ci_storage_base_name = [], ci_count = 0\<rparr>)"

text \<open>
  The per-node loop of the cluster mode, over the node indices in increasing order.
  A substitution that never ends leaves the whole loop without a result.
\<close>

fun mount_nodes :: "handle \<Rightarrow> string \<Rightarrow> string \<Rightarrow> cluster_info \<Rightarrow> nat list \<Rightarrow> state \<Rightarrow> state option" where
  "mount_nodes fs mount_point_pattern sz v [] s = Some s"
| "mount_nodes fs mount_point_pattern sz v (i # rest) s =
     (let hostname = ci_prefix v @ to_string i @ ci_suffix v;
          storage_name = hostname @ ''_'' @ ci_storage_base_name v
      in case replace_hostname mount_point_pattern hostname of
           None \<Rightarrow> None
         | Some mount_point \<Rightarrow>
             (let (st, sm) = map_index (storage_map s) storage_name;
                  s1 = s\<lparr>storage_map := sm\<rparr>
              in mount_nodes fs mount_point_pattern sz v rest
                   (mount_partition fs mount_point st sz s1)))"

text \<open>
  A computation that may fail and may not return: \<open>None\<close> when it never returns,
  \<open>Some (Inl e)\<close> when it fails with \<open>e\<close>.
\<close>

definition bindR :: "(error + 'a) option \<Rightarrow> ('a \<Rightarrow> (error + 'b) option) \<Rightarrow> (error + 'b) option" where
  "bindR m f = (case m of None \<Rightarrow> None | Some (Inl e) \<Rightarrow> Some (Inl e) | Some (Inr x) \<Rightarrow> f x)"

fun foldR :: "('a \<Rightarrow> 's \<Rightarrow> (error + 's) option) \<Rightarrow> 'a list \<Rightarrow> 's \<Rightarrow> (error + 's) option" where
  "foldR f [] s = Some (Inr s)"
| "foldR f (x # xs) s = bindR (f x s) (foldR f xs)"

definition max_open_files :: int where
  "max_open_files = 100000000"

definition create_filesystem :: "json \<Rightarrow> json \<Rightarrow> state \<Rightarrow> (error + state) option" where
  "create_filesystem platform_config fs_cfg s =
     bindR (Some (field_string fs_cfg ''name'')) (\<lambda>fs_name.
     bindR (Some (field_string fs_cfg ''mount_point'')) (\<lambda>mount_point_pattern.
     bindR (Some (field_string fs_cfg ''size'')) (\<lambda>sz.
       let (fs, s1) = FileSystem_create fs_name max_open_files s in
       if json_contains fs_cfg ''storage_system'' then
         bindR (Some (field_string fs_cfg ''storage_system'')) (\<lambda>storage_system_name.
           let storage_name = storage_system_name @ ''_storage'';
               (zone, zm) = map_index (zone_map s1) storage_system_name;
               s2 = s1\<lparr>zone_map := zm\<rparr>;
               (st, sm) = map_index (storage_map s2) storage_name;
               s3 = s2\<lparr>storage_map := sm\<rparr>;
               s4 = mount_partition fs mount_point_pattern st sz s3
           in Some (Inr (register_file_system zone fs s4)))
       else if json_contains fs_cfg ''cluster'' then
         bindR (Some (field_string fs_cfg ''cluster'')) (\<lambda>cluster_name.
         bindR (Some (find_cluster cluster_name platform_config)) (\<lambda>v.
           case mount_nodes fs mount_point_pattern sz v [0..<nat (ci_count v)] s1 of
             None \<Rightarrow> None
           | Some s2 \<Rightarrow>
               (let (zone, zm) = map_index (zone_map s2) cluster_name;
                    s3 = s2\<lparr>zone_map := zm\<rparr>
                in Some (Inr (register_file_system zone fs s3)))))
       else Some (Inr s1))))"

definition create_filesystems :: "json \<Rightarrow> json \<Rightarrow> state \<Rightarrow> (error + state) option" where
  "create_filesystems filesystems_config platform_config s =
     foldR (create_filesystem platform_config) (json_items filesystems_config) s"

subsection \<open>\<^verbatim>\<open>load_platform\<close>\<close>

text \<open>One pass of the facility loop.\<close>

definition create_facility :: "json \<Rightarrow> state \<Rightarrow> error + state" where
  "create_facility dc_config s =
     bindE (field_string dc_config ''name'') (\<lambda>dc_name.
     bindE (field_string dc_config ''routing'') (\<lambda>dc_routing.
       let (datacenter, s1) =
             (if dc_routing = ''full'' then add_netzone FullZone None dc_name s
              else if dc_routing = ''floyd'' then add_netzone FloydZone None dc_name s
              else add_netzone FullZone None dc_name s);
           s2 = s1\<lparr>zone_map := (zone_map s1)(dc_name \<mapsto> Some datacenter)\<rparr>
       in
       bindE (if json_contains dc_config ''storage_systems'' then
                bindE (json_at dc_config ''storage_systems'') (\<lambda>cfgs.
                  foldE (create_storage_system_zone datacenter) (json_items cfgs) s2)
              else Inr s2) (\<lambda>s3.
       bindE (if json_contains dc_config ''clusters'' then
                bindE (json_at dc_config ''clusters'') (\<lambda>cfgs.
                  foldE (create_cluster_zone datacenter) (json_items cfgs) s3)
              else Inr s3) (\<lambda>s4.
       bindE (if json_contains dc_config ''links'' then
                bindE (json_at dc_config ''links'') (\<lambda>cfg. create_inter_zone_links datacenter cfg s4)
              else Inr s4) (\<lambda>s5.
       bindE (if json_contains dc_config ''routes'' then
                bindE (json_at dc_config ''routes'') (\<lambda>cfg. create_routes datacenter cfg s5)
              else Inr s5) (\<lambda>s6.
         Inr (seal datacenter s6)))))))"

text \<open>
  What \<^verbatim>\<open>load_platform\<close> does with the parsed document.  \<^verbatim>\<open>config\<close> is not
  \<^verbatim>\<open>const\<close> there, so \<^verbatim>\<open>config["facilities"]\<close> inserts the member when it is
  missing; the filesystem pass reads the document as that access left it.
\<close>

definition build_platform :: "json \<Rightarrow> state \<Rightarrow> (error + state) option" where
  "build_platform config s =
     bindR (Some (json_index config ''facilities'')) (\<lambda>(facilities, config1).
     bindR (Some (foldE create_facility (json_items facilities) s)) (\<lambda>s1.
       if json_contains config1 ''filesystems'' then
         bindR (Some (json_index config1 ''filesystems'')) (\<lambda>(filesystems_config, config2).
           create_filesystems filesystems_config config2 s1)
       else Some (Inr s1)))"

text \<open>
  What the loader sees of its surroundings: the variable \<^verbatim>\<open>PLATFORM_CONFIG\<close>, the
  path \<^verbatim>\<open>platform_config.json\<close> beside the shared object when \<^verbatim>\<open>dladdr\<close> names
  it, the text of each file that opens for reading, and the JSON parser (\<open>None\<close> when
  the text is not a well-formed document).
\<close>

record environment =
  env_PLATFORM_CONFIG :: "string option"
  env_beside_module :: "string option"
  env_open :: "string \<Rightarrow> string option"
  env_parse :: "string \<Rightarrow> json option"

definition get_config_path :: "environment \<Rightarrow> string" where
  "get_config_path env =
     (case env_PLATFORM_CONFIG env of
        Some env_path \<Rightarrow> env_path
      | None \<Rightarrow>
          (case env_beside_module env of
             Some p \<Rightarrow> p
           | None \<Rightarrow> ''platform_config.json''))"

definition load_platform :: "environment \<Rightarrow> state \<Rightarrow> (error + state) option" where
  "load_platform env s =
     (let config_path = get_config_path env in
      case env_open env config_path of
        None \<Rightarrow> Some (Inl (ConfigNotFound (''Cannot open config file: '' @ config_path)))
      | Some txt \<Rightarrow>
          (case env_parse env txt of
             None \<Rightarrow> Some (Inl MalformedDocument)
           | Some config \<Rightarrow> build_platform config s))"

text \<open>The process as it starts: an engine with nothing in it, and three empty maps.\<close>

definition initial_state :: state where
  "initial_state =
     \<lparr>zones = [], hosts = [], disks = [], links = [], routers = [], routes = [],
      filesystems = [], registered = [],
      storage_map = Map.empty, zone_map = Map.empty, link_map = Map.empty\<rparr>"

section \<open>Closed forms and examples\<close>

subsection \<open>What one cluster adds to the engine\<close>

text \<open>
  The objects that pass \<open>i\<close> of the node loop creates, and the state after \<open>n\<close> passes.
\<close>

definition node_hostname :: "cluster_locals \<Rightarrow> nat \<Rightarrow> string" where
  "node_hostname v i = cl_prefix v @ to_string i @ cl_suffix v"

definition node_host :: "handle \<Rightarrow> cluster_locals \<Rightarrow> nat \<Rightarrow> host" where
  "node_host c v i =
     \<lparr>h_name = node_hostname v i, h_zone = c, h_speed = cl_host_speed v, h_cores = cl_host_cores v\<rparr>"

definition node_links :: "handle \<Rightarrow> cluster_locals \<Rightarrow> nat \<Rightarrow> link list" where
  "node_links c v i =
     [\<lparr>l_name = node_hostname v i @ ''_LinkUP'', l_zone = c, l_bandwidth = cl_link_bw v,
       l_latency = cl_link_lat v, l_policy = SHARED\<rparr>,
      \<lparr>l_name = node_hostname v i @ ''_LinkDOWN'', l_zone = c, l_bandwidth = cl_link_bw v,
       l_latency = cl_link_lat v, l_policy = SHARED\<rparr>,
      \<lparr>l_name = node_hostname v i @ ''_loopback'', l_zone = c, l_bandwidth = cl_loopback_bw v,
       l_latency = cl_loopback_lat v, l_policy = FATPIPE\<rparr>]"

definition node_routes :: "handle \<Rightarrow> handle \<Rightarrow> handle \<Rightarrow> handle \<Rightarrow> route list" where
  "node_routes c b h l =
     [\<lparr>r_zone = c, r_src = HostEnd (Some h), r_dst = HostEnd None,
       r_links = [Some l, Some b], r_symmetrical = False\<rparr>,
      \<lparr>r_zone = c, r_src = HostEnd None, r_dst = HostEnd (Some h),
       r_links = [Some b, Some (l + 1)], r_symmetrical = False\<rparr>,
      \<lparr>r_zone = c, r_src = HostEnd (Some h), r_dst = HostEnd (Some h),
       r_links = [Some (l + 2)], r_symmetrical = True\<rparr>]"

definition node_disks :: "cluster_locals \<Rightarrow> nat \<Rightarrow> handle \<Rightarrow> disk list" where
  "node_disks v i h =
     (if cl_has_storage v then
        [\<lparr>d_name = node_hostname v i @ ''_'' @ cl_storage_base_name v @ ''_disk'', d_host = h,
          d_read_bw = cl_storage_read_bw v, d_write_bw = cl_storage_write_bw v\<rparr>]
      else [])"

definition node_storage_entry :: "cluster_locals \<Rightarrow> nat \<Rightarrow> handle \<Rightarrow>
    (string \<rightharpoonup> storage option) \<Rightarrow> (string \<rightharpoonup> storage option)" where
  "node_storage_entry v i d m =
     (let storage_name = node_hostname v i @ ''_'' @ cl_storage_base_name v in
      if cl_has_storage v \<and> cl_storage_type v = ''OneDisk'' then
        m(storage_name \<mapsto> Some (OneDiskStorage_create storage_name d))
      else if cl_has_storage v \<and> cl_storage_type v = ''JBOD'' then
        m(storage_name \<mapsto> Some (JBODStorage_create storage_name [d]))
      else m)"

text \<open>The names of the three links of a host.\<close>

definition link_names :: "string \<Rightarrow> string list" where
  "link_names hostname = [hostname @ ''_LinkUP'', hostname @ ''_LinkDOWN'', hostname @ ''_loopback'']"

definition cluster_nodes :: "handle \<Rightarrow> handle \<Rightarrow> cluster_locals \<Rightarrow> nat \<Rightarrow> state \<Rightarrow> state" where
  "cluster_nodes c b v n s =
     s\<lparr>hosts := hosts s @ map (node_host c v) [0..<n],
       disks := disks s @ concat (map (\<lambda>i. node_disks v i (length (hosts s) + i)) [0..<n]),
       links := links s @ concat (map (node_links c v) [0..<n]),
       routes := routes s @
         concat (map (\<lambda>i. node_routes c b (length (hosts s) + i) (length (links s) + 3 * i)) [0..<n]),
       storage_map := fold (\<lambda>i. node_storage_entry v i (length (disks s) + (if cl_has_storage v then i else 0)))
         [0..<n] (storage_map s)\<rparr>"

record cluster_params =
  cp_name :: string
  cp_count :: int
  cp_backbone_bw :: string
  cp_backbone_lat :: string
  cp_locals :: cluster_locals

definition read_cluster_config :: "json \<Rightarrow> error + cluster_params" where
  "read_cluster_config cluster_config =
     bindE (field_string cluster_config ''name'') (\<lambda>name.
     bindE (field_string cluster_config ''prefix'') (\<lambda>prefix.
     bindE (field_string cluster_config ''suffix'') (\<lambda>suffix.
     bindE (field_int cluster_config ''count'') (\<lambda>count.
     bindE (json_at cluster_config ''backbone'') (\<lambda>backbone_cfg.
     bindE (field_string backbone_cfg ''bandwidth'') (\<lambda>backbone_bw.
     bindE (field_string backbone_cfg ''latency'') (\<lambda>backbone_lat.
     bindE (json_at cluster_config ''node'') (\<lambda>node_cfg.
     bindE (field_string node_cfg ''speed'') (\<lambda>host_speed.
     bindE (field_int node_cfg ''cores'') (\<lambda>host_cores.
     bindE (json_at node_cfg ''private_link'') (\<lambda>private_link_cfg.
     bindE (field_string private_link_cfg ''bandwidth'') (\<lambda>link_bw.
     bindE (field_string private_link_cfg ''latency'') (\<lambda>link_lat.
     bindE (json_at node_cfg ''loopback'') (\<lambda>loopback_cfg.
     bindE (field_string loopback_cfg ''bandwidth'') (\<lambda>loopback_bw.
     bindE (field_string loopback_cfg ''latency'') (\<lambda>loopback_lat.
     bindE (node_storage node_cfg)
       (\<lambda>(has_storage, storage_base_name, storage_type, storage_read_bw, storage_write_bw).
       Inr \<lparr>cp_name = name, cp_count = count, cp_backbone_bw = backbone_bw,
            cp_backbone_lat = backbone_lat,
            cp_locals =
              \<lparr>cl_prefix = prefix, cl_suffix = suffix, cl_host_speed = host_speed,
               cl_host_cores = host_cores, cl_link_bw = link_bw, cl_link_lat = link_lat,
               cl_loopback_bw = loopback_bw, cl_loopback_lat = loopback_lat,
               cl_has_storage = has_storage, cl_storage_base_name = storage_base_name,
               cl_storage_type = storage_type, cl_storage_read_bw = storage_read_bw,
               cl_storage_write_bw = storage_write_bw\<rparr>\<rparr>)))))))))))))))))"

definition build_cluster :: "handle \<Rightarrow> cluster_params \<Rightarrow> state \<Rightarrow> state" where
  "build_cluster parent p s =
     (cluster_nodes (length (zones s)) (length (links s)) (cp_locals p) (nat (cp_count p))
        (s\<lparr>zones := zones s @
              [\<lparr>nz_name = cp_name p, nz_routing = StarZone, nz_parent = Some parent,
                nz_gateway = Some (length (routers s)), nz_sealed = True\<rparr>],
           links := links s @
              [\<lparr>l_name = cp_name p @ ''_backbone'', l_zone = length (zones s),
                l_bandwidth = cp_backbone_bw p, l_latency = cp_backbone_lat p, l_policy = SHARED\<rparr>],
           routers := routers s @ [\<lparr>rt_name = cp_name p @ ''_router'', rt_zone = length (zones s)\<rparr>],
           zone_map := (zone_map s)(cp_name p \<mapsto> Some (length (zones s)))\<rparr>))"

subsection \<open>An example document\<close>

text \<open>
  One facility \<open>dc\<close> with one cluster \<open>c0\<close> of three nodes \<open>n0\<close>, \<open>n1\<close>, \<open>n2\<close>, each
  with a local disk, and one file system mounted across the cluster.
\<close>

definition example_cluster :: json where
  "example_cluster =
     JObj [(''backbone'', JObj [(''bandwidth'', JStr ''10Gbps''), (''latency'', JStr ''1ms'')]),
           (''count'', JInt 3),
           (''name'', JStr ''c0''),
           (''node'', JObj [(''cores'', JInt 96),
                           (''loopback'', JObj [(''bandwidth'', JStr ''1Gbps''), (''latency'', JStr ''1.75ms'')]),
                           (''private_link'', JObj [(''bandwidth'', JStr ''1Gbps''), (''latency'', JStr ''2ms'')]),
                           (''speed'', JStr ''11Gf''),
                           (''storage'', JObj [(''name'', JStr ''nvme''),
                                              (''read_bandwidth'', JStr ''560MBps''),
                                              (''type'', JStr ''OneDisk''),
                                              (''write_bandwidth'', JStr ''510MBps'')])]),
           (''prefix'', JStr ''n''),
           (''suffix'', JStr [])]"

definition example_filesystem :: json where
  "example_filesystem =
     JObj [(''cluster'', JStr ''c0''),
           (''mount_point'', JStr ''/{hostname}/scratch/''),
           (''name'', JStr ''local_fs''),
           (''size'', JStr ''1TB'')]"

definition example_facility :: json where
  "example_facility =
     JObj [(''clusters'', JArr [example_cluster]),
           (''name'', JStr ''dc''),
           (''routing'', JStr ''full'')]"

definition example_document :: json where
  "example_document =
     JObj [(''facilities'', JArr [example_facility]),
           (''filesystems'', JArr [example_filesystem])]"

text \<open>The node template of the example's cluster.\<close>

definition example_node :: json where
  "example_node =
     JObj [(''cores'', JInt 96),
           (''loopback'', JObj [(''bandwidth'', JStr ''1Gbps''), (''latency'', JStr ''1.75ms'')]),
           (''private_link'', JObj [(''bandwidth'', JStr ''1Gbps''), (''latency'', JStr ''2ms'')]),
           (''speed'', JStr ''11Gf''),
           (''storage'', JObj [(''name'', JStr ''nvme''),
                              (''read_bandwidth'', JStr ''560MBps''),
                              (''type'', JStr ''OneDisk''),
                              (''write_bandwidth'', JStr ''510MBps'')])]"

text \<open>The same document without its file system.\<close>

definition example_topology :: json where
  "example_topology = JObj [(''facilities'', JArr [example_facility])]"

definition example_cluster_params :: cluster_params where
  "example_cluster_params =
     \<lparr>cp_name = ''c0'', cp_count = 3, cp_backbone_bw = ''10Gbps'', cp_backbone_lat = ''1ms'',
      cp_locals =
        \<lparr>cl_prefix = ''n'', cl_suffix = [], cl_host_speed = ''11Gf'', cl_host_cores = 96,
         cl_link_bw = ''1Gbps'', cl_link_lat = ''2ms'', cl_loopback_bw = ''1Gbps'',
         cl_loopback_lat = ''1.75ms'', cl_has_storage = True, cl_storage_base_name = ''nvme'',
         cl_storage_type = ''OneDisk'', cl_storage_read_bw = ''560MBps'',
         cl_storage_write_bw = ''510MBps''\<rparr>\<rparr>"

text \<open>The example's process when the facility loop reaches the cluster.\<close>

definition example_facility_state :: state where
  "example_facility_state =
     initial_state
       \<lparr>zones := [\<lparr>nz_name = ''dc'', nz_routing = FullZone, nz_parent = None,
                   nz_gateway = None, nz_sealed = False\<rparr>],
        zone_map := [''dc'' \<mapsto> Some 0]\<rparr>"

text \<open>
  The example's cluster with the count \<open>2^32 + 3\<close>, which the conversion to \<^verbatim>\<open>int\<close>
  takes to 3, and the process after the builder ran over the example's cluster.
\<close>

definition example_wrapped_cluster :: json where
  "example_wrapped_cluster =
     JObj [(''backbone'', JObj [(''bandwidth'', JStr ''10Gbps''), (''latency'', JStr ''1ms'')]),
           (''count'', JInt 4294967299),
           (''name'', JStr ''c0''),
           (''node'', example_node),
           (''prefix'', JStr ''n''),
           (''suffix'', JStr [])]"

definition example_cluster_built :: state where
  "example_cluster_built = build_cluster 0 example_cluster_params example_facility_state"

text \<open>
  A cluster with the count \<open>-1\<close> and no node storage, and the process after the
  builder ran over it in the example's facility.
\<close>

definition example_negative_cluster :: json where
  "example_negative_cluster =
     JObj [(''backbone'', JObj [(''bandwidth'', JStr ''10Gbps''), (''latency'', JStr ''1ms'')]),
           (''count'', JInt (- 1)),
           (''name'', JStr ''c0''),
           (''node'', JObj [(''cores'', JInt 96),
                           (''loopback'', JObj [(''bandwidth'', JStr ''1Gbps''), (''latency'', JStr ''1.75ms'')]),
                           (''private_link'', JObj [(''bandwidth'', JStr ''1Gbps''), (''latency'', JStr ''2ms'')]),
                           (''speed'', JStr ''11Gf'')]),
           (''prefix'', JStr ''n''),
           (''suffix'', JStr [])]"

definition example_negative_built :: state where
  "example_negative_built =
     \<lparr>zones = [\<lparr>nz_name = ''dc'', nz_routing = FullZone, nz_parent = None,
                 nz_gateway = None, nz_sealed = False\<rparr>,
                \<lparr>nz_name = ''c0'', nz_routing = StarZone, nz_parent = Some 0,
                 nz_gateway = Some 0, nz_sealed = True\<rparr>],
      hosts = [], disks = [],
      links = [\<lparr>l_name = ''c0_backbone'', l_zone = 1, l_bandwidth = ''10Gbps'',
                 l_latency = ''1ms'', l_policy = SHARED\<rparr>],
      routers = [\<lparr>rt_name = ''c0_router'', rt_zone = 1\<rparr>],
      routes = [], filesystems = [], registered = [],
      storage_map = Map.empty,
      zone_map = [''dc'' \<mapsto> Some 0, ''c0'' \<mapsto> Some 1],
      link_map = Map.empty\<rparr>"

subsection \<open>Reading the loader's maps\<close>

text \<open>
  What \<^verbatim>\<open>m[key]\<close> returns, and what it leaves in the map: an absent key reads as the
  null pointer and is present, with the null pointer, afterwards.
\<close>

definition registry_lookup :: "('k \<rightharpoonup> 'v option) \<Rightarrow> 'k \<Rightarrow> 'v option" where
  "registry_lookup m k = fst (map_index m k)"

definition registry_touch :: "'k \<Rightarrow> ('k \<rightharpoonup> 'v option) \<Rightarrow> ('k \<rightharpoonup> 'v option)" where
  "registry_touch k m = snd (map_index m k)"

subsection \<open>More examples\<close>

text \<open>A storage system of a type the loader does not know.\<close>

definition example_raid_storage :: json where
  "example_raid_storage =
     JObj [(''disk_count'', JInt 4),
           (''name'', JStr ''pfs''),
           (''read_bandwidth'', JStr ''180MBps''),
           (''server_speed'', JStr ''1Gf''),
           (''type'', JStr ''RAID5''),
           (''write_bandwidth'', JStr ''160MBps'')]"

text \<open>A route between two zones and over a link that no registry knows.\<close>

definition example_dangling_route :: json where
  "example_dangling_route =
     JObj [(''dst'', JStr ''b''), (''links'', JArr [JStr ''l'']), (''src'', JStr ''a'')]"

definition example_dangling_routes :: json where
  "example_dangling_routes = JArr [example_dangling_route]"

text \<open>The process after \<^verbatim>\<open>create_routes\<close> ran over it from the initial state.\<close>

definition example_dangling_state :: state where
  "example_dangling_state =
     initial_state
       \<lparr>routes := [\<lparr>r_zone = 0, r_src = ZoneEnd None, r_dst = ZoneEnd None,
                    r_links = [None], r_symmetrical = True\<rparr>],
        zone_map := [''a'' \<mapsto> None, ''b'' \<mapsto> None],
        link_map := [''l'' \<mapsto> None]\<rparr>"

subsection \<open>The placeholder substitution, as the spec words it\<close>

definition placeholder :: string where
  "placeholder = ''{hostname}''"

text \<open>
  The mount-point template with every occurrence of the placeholder replaced by the
  hostname: one pass over the template from left to right, in which the text put in
  for an occurrence is not read again.
\<close>

fun substitute_hostname :: "string \<Rightarrow> string \<Rightarrow> string" where
  "substitute_hostname hostname [] = []"
| "substitute_hostname hostname (c # cs) =
     (if prefix ''{hostname}'' (c # cs) then hostname @ substitute_hostname hostname (drop 9 cs)
      else c # substitute_hostname hostname cs)"

text \<open>
  A hostname on which the substitution loop of the loader never ends although the
  placeholder does not occur in it, and a template that starts it.
\<close>

definition looping_hostname :: string where
  "looping_hostname = ''name}name}0{host{host''"

definition looping_template :: string where
  "looping_template = ''{host{hostname}''"

text \<open>The strings through which the loop passes on that hostname.\<close>

definition looping :: "string \<Rightarrow> bool" where
  "looping t \<longleftrightarrow>
     (\<exists>X Y. CHR ''{'' \<notin> set X \<and>
        (t = X @ ''{host{hostname}'' @ Y \<or> t = X @ ''{hostname}name}'' @ Y))"

text \<open>
  The example document with another hostname prefix: the cluster's only node is named
  \<open>{hostname}0\<close>.
\<close>

definition example_braces_cluster :: json where
  "example_braces_cluster =
     JObj [(''backbone'', JObj [(''bandwidth'', JStr ''10Gbps''), (''latency'', JStr ''1ms'')]),
           (''count'', JInt 1),
           (''name'', JStr ''c0''),
           (''node'', JObj [(''cores'', JInt 96),
                           (''loopback'', JObj [(''bandwidth'', JStr ''1Gbps''), (''latency'', JStr ''1.75ms'')]),
                           (''private_link'', JObj [(''bandwidth'', JStr ''1Gbps''), (''latency'', JStr ''2ms'')]),
                           (''speed'', JStr ''11Gf'')]),
           (''prefix'', JStr ''{hostname}''),
           (''suffix'', JStr [])]"

definition example_braces_facility :: json where
  "example_braces_facility =
     JObj [(''clusters'', JArr [example_braces_cluster]),
           (''name'', JStr ''dc''),
           (''routing'', JStr ''full'')]"

definition example_braces_document :: json where
  "example_braces_document =
     JObj [(''facilities'', JArr [example_braces_facility]),
           (''filesystems'', JArr [example_filesystem])]"

text \<open>The process when the facility of that document is built.\<close>

definition example_braces_built :: state where
  "example_braces_built =
     \<lparr>zones = [\<lparr>nz_name = ''dc'', nz_routing = FullZone, nz_parent = None,
                 nz_gateway = None, nz_sealed = True\<rparr>,
                \<lparr>nz_name = ''c0'', nz_routing = StarZone, nz_parent = Some 0,
                 nz_gateway = Some 0, nz_sealed = True\<rparr>],
      hosts = [\<lparr>h_name = ''{hostname}0'', h_zone = 1, h_speed = ''11Gf'', h_cores = 96\<rparr>],
      disks = [],
      links = [\<lparr>l_name = ''c0_backbone'', l_zone = 1, l_bandwidth = ''10Gbps'',
                 l_latency = ''1ms'', l_policy = SHARED\<rparr>,
               \<lparr>l_name = ''{hostname}0_LinkUP'', l_zone = 1, l_bandwidth = ''1Gbps'',
                 l_latency = ''2ms'', l_policy = SHARED\<rparr>,
               \<lparr>l_name = ''{hostname}0_LinkDOWN'', l_zone = 1, l_bandwidth = ''1Gbps'',
                 l_latency = ''2ms'', l_policy = SHARED\<rparr>,
               \<lparr>l_name = ''{hostname}0_loopback'', l_zone = 1, l_bandwidth = ''1Gbps'',
                 l_latency = ''1.75ms'', l_policy = FATPIPE\<rparr>],
      routers = [\<lparr>rt_name = ''c0_router'', rt_zone = 1\<rparr>],
      routes = [\<lparr>r_zone = 1, r_src = HostEnd (Some 0), r_dst = HostEnd None,
                  r_links = [Some 1, Some 0], r_symmetrical = False\<rparr>,
                \<lparr>r_zone = 1, r_src = HostEnd None, r_dst = HostEnd (Some 0),
                  r_links = [Some 0, Some 2], r_symmetrical = False\<rparr>,
                \<lparr>r_zone = 1, r_src = HostEnd (Some 0), r_dst = HostEnd (Some 0),
                  r_links = [Some 3], r_symmetrical = True\<rparr>],
      filesystems = [], registered = [],
      storage_map = Map.empty,
      zone_map = [''dc'' \<mapsto> Some 0, ''c0'' \<mapsto> Some 1],
      link_map = Map.empty\<rparr>"

text \<open>The example's process when the facility loop has ended.\<close>

definition example_built :: state where
  "example_built = seal 0 (build_cluster 0 example_cluster_params example_facility_state)"

subsection \<open>A second pass in the same process\<close>

text \<open>
  A later pass in the same process: the variable \<^verbatim>\<open>PLATFORM_CONFIG\<close> names another
  file, whose document has one facility \<open>dc2\<close> and in it a route between the zones
  \<open>c0\<close> and \<open>dc\<close>, which that document does not declare.
\<close>

definition example_later_facility :: json where
  "example_later_facility =
     JObj [(''name'', JStr ''dc2''),
           (''routes'', JArr [JObj [(''dst'', JStr ''dc''), (''links'', JArr []),
                                   (''src'', JStr ''c0'')]]),
           (''routing'', JStr ''full'')]"

definition example_later_document :: json where
  "example_later_document = JObj [(''facilities'', JArr [example_later_facility])]"

definition example_environment :: environment where
  "example_environment =
     \<lparr>env_PLATFORM_CONFIG = Some ''topology.json'',
      env_beside_module = None,
      env_open = (\<lambda>path. if path = ''topology.json'' then Some ''topology''
                          else if path = ''later.json'' then Some ''later'' else None),
      env_parse = (\<lambda>txt. if txt = ''topology'' then Some example_topology
                          else if txt = ''later'' then Some example_later_document else None)\<rparr>"

definition example_later_environment :: environment where
  "example_later_environment = example_environment\<lparr>env_PLATFORM_CONFIG := Some ''later.json''\<rparr>"

text \<open>The later document compiled in a process of its own.\<close>

definition example_later_alone :: state where
  "example_later_alone =
     initial_state
       \<lparr>zones := [\<lparr>nz_name = ''dc2'', nz_routing = FullZone, nz_parent = None,
                   nz_gateway = None, nz_sealed = True\<rparr>],
        routes := [\<lparr>r_zone = 0, r_src = ZoneEnd None, r_dst = ZoneEnd None,
                    r_links = [], r_symmetrical = True\<rparr>],
        zone_map := [''dc2'' \<mapsto> Some 0, ''c0'' \<mapsto> None, ''dc'' \<mapsto> None]\<rparr>"

definition example_later_pass :: state where
  "example_later_pass =
     example_built
       \<lparr>zones := zones example_built @
          [\<lparr>nz_name = ''dc2'', nz_routing = FullZone, nz_parent = None,
            nz_gateway = None, nz_sealed = True\<rparr>],
        routes := routes example_built @
          [\<lparr>r_zone = 2, r_src = ZoneEnd (Some 1), r_dst = ZoneEnd (Some 0),
            r_links = [], r_symmetrical = True\<rparr>],
        zone_map := (zone_map example_built)(''dc2'' \<mapsto> Some 2)\<rparr>"

subsection \<open>What a pass of the loader keeps\<close>

text \<open>
  What a zone is created with, and the relation between the process before and after
  a part of the loader ran: the zones that were there are still there, in place and
  as they were created, and no name has left a registry.
\<close>

definition zone_ident :: "netzone \<Rightarrow> string \<times> routing \<times> handle option" where
  "zone_ident z = (nz_name z, nz_routing z, nz_parent z)"

definition extends :: "state \<Rightarrow> state \<Rightarrow> bool" where
  "extends s s' \<longleftrightarrow>
     prefix (map zone_ident (zones s)) (map zone_ident (zones s')) \<and>
     dom (zone_map s) \<subseteq> dom (zone_map s') \<and>
     dom (link_map s) \<subseteq> dom (link_map s') \<and>
     dom (storage_map s) \<subseteq> dom (storage_map s')"

subsection \<open>Reading and building, apart\<close>

text \<open>
  Every builder of the loader reads its configuration and acts on the engine and on
  the maps in one sweep.  What it reads does not depend on the process, and what it
  does to the process cannot fail: the definitions below take each builder apart into
  the reading, which may fail, and the building, which is a function on the state.
\<close>

fun mapE :: "('a \<Rightarrow> error + 'b) \<Rightarrow> 'a list \<Rightarrow> error + 'b list" where
  "mapE f [] = Inr []"
| "mapE f (x # xs) = bindE (f x) (\<lambda>y. bindE (mapE f xs) (\<lambda>ys. Inr (y # ys)))"

record storage_params =
  sp_name :: string
  sp_server_speed :: string
  sp_type :: string
  sp_disk_count :: int
  sp_read_bw :: string
  sp_write_bw :: string

definition read_storage_config :: "json \<Rightarrow> error + storage_params" where
  "read_storage_config storage_config =
     bindE (field_string storage_config ''name'') (\<lambda>name.
     bindE (field_string storage_config ''server_speed'') (\<lambda>server_speed.
     bindE (field_string storage_config ''type'') (\<lambda>storage_type.
     bindE (field_int storage_config ''disk_count'') (\<lambda>disk_count.
     bindE (field_string storage_config ''read_bandwidth'') (\<lambda>read_bw.
     bindE (field_string storage_config ''write_bandwidth'') (\<lambda>write_bw.
       Inr \<lparr>sp_name = name, sp_server_speed = server_speed, sp_type = storage_type,
            sp_disk_count = disk_count, sp_read_bw = read_bw, sp_write_bw = write_bw\<rparr>))))))"

definition storage_disks :: "handle \<Rightarrow> storage_params \<Rightarrow> disk list" where
  "storage_disks server p =
     (if sp_type p = ''JBOD'' then
        map (\<lambda>i. \<lparr>d_name = (if sp_disk_count p = 1 then sp_name p @ ''_disk''
                             else (sp_name p @ ''_disk'') @ to_string i),
                   d_host = server, d_read_bw = sp_read_bw p, d_write_bw = sp_write_bw p\<rparr>)
          [0..<nat (sp_disk_count p)]
      else if sp_type p = ''OneDisk'' then
        [\<lparr>d_name = sp_name p @ ''_disk'', d_host = server,
          d_read_bw = sp_read_bw p, d_write_bw = sp_write_bw p\<rparr>]
      else [])"

definition storage_entry :: "handle \<Rightarrow> storage_params \<Rightarrow>
    (string \<rightharpoonup> storage option) \<Rightarrow> (string \<rightharpoonup> storage option)" where
  "storage_entry d0 p m =
     (if sp_type p = ''JBOD'' then
        m(sp_name p @ ''_storage'' \<mapsto>
            Some (JBODStorage_create (sp_name p @ ''_storage'')
                    (map (\<lambda>i. d0 + i) [0..<nat (sp_disk_count p)])))
      else if sp_type p = ''OneDisk'' then
        m(sp_name p @ ''_storage'' \<mapsto> Some (OneDiskStorage_create (sp_name p @ ''_storage'') d0))
      else m)"

definition build_storage_system :: "handle \<Rightarrow> storage_params \<Rightarrow> state \<Rightarrow> state" where
  "build_storage_system parent p s =
     s\<lparr>zones := zones s @
          [\<lparr>nz_name = sp_name p, nz_routing = EmptyZone, nz_parent = Some parent,
            nz_gateway = None, nz_sealed = True\<rparr>],
       hosts := hosts s @
          [\<lparr>h_name = sp_name p @ ''_server'', h_zone = length (zones s),
            h_speed = sp_server_speed p, h_cores = 1\<rparr>],
       disks := disks s @ storage_disks (length (hosts s)) p,
       storage_map := storage_entry (length (disks s)) p (storage_map s),
       zone_map := (zone_map s)(sp_name p \<mapsto> Some (length (zones s)))\<rparr>"

type_synonym link_params = "string \<times> string \<times> string"

definition read_link_config :: "json \<Rightarrow> error + link_params" where
  "read_link_config link_cfg =
     bindE (field_string link_cfg ''name'') (\<lambda>link_name.
     bindE (field_string link_cfg ''bandwidth'') (\<lambda>bandwidth.
     bindE (field_string link_cfg ''latency'') (\<lambda>latency.
       Inr (link_name, bandwidth, latency))))"

definition build_inter_zone_link :: "handle \<Rightarrow> link_params \<Rightarrow> state \<Rightarrow> state" where
  "build_inter_zone_link datacenter p s =
     (case p of (link_name, bandwidth, latency) \<Rightarrow>
        s\<lparr>links := links s @
             [\<lparr>l_name = link_name, l_zone = datacenter, l_bandwidth = bandwidth,
               l_latency = latency, l_policy = SHARED\<rparr>],
          link_map := (link_map s)(link_name \<mapsto> Some (length (links s)))\<rparr>)"

type_synonym route_params = "string \<times> string \<times> string list"

definition read_route_config :: "json \<Rightarrow> error + route_params" where
  "read_route_config route_cfg =
     bindE (field_string route_cfg ''src'') (\<lambda>src_name.
     bindE (field_string route_cfg ''dst'') (\<lambda>dst_name.
     bindE (json_at route_cfg ''links'') (\<lambda>names.
     bindE (mapE get_string (json_items names)) (\<lambda>link_names.
       Inr (src_name, dst_name, link_names)))))"

definition build_route :: "handle \<Rightarrow> route_params \<Rightarrow> state \<Rightarrow> state" where
  "build_route datacenter p s =
     (case p of (src_name, dst_name, names) \<Rightarrow>
        s\<lparr>routes := routes s @
             [\<lparr>r_zone = datacenter,
               r_src = ZoneEnd (registry_lookup (zone_map s) src_name),
               r_dst = ZoneEnd (registry_lookup (zone_map s) dst_name),
               r_links = map (registry_lookup (link_map s)) names,
               r_symmetrical = True\<rparr>],
          zone_map := registry_touch dst_name (registry_touch src_name (zone_map s)),
          link_map := fold registry_touch names (link_map s)\<rparr>)"

record facility_plan =
  fp_name :: string
  fp_routing :: routing
  fp_storage_systems :: "storage_params list"
  fp_clusters :: "cluster_params list"
  fp_links :: "link_params list"
  fp_routes :: "route_params list"

definition read_section :: "json \<Rightarrow> string \<Rightarrow> (json \<Rightarrow> error + 'a) \<Rightarrow> error + 'a list" where
  "read_section dc_config k r =
     (if json_contains dc_config k then
        bindE (json_at dc_config k) (\<lambda>cfgs. mapE r (json_items cfgs))
      else Inr [])"

definition read_facility :: "json \<Rightarrow> error + facility_plan" where
  "read_facility dc_config =
     bindE (field_string dc_config ''name'') (\<lambda>dc_name.
     bindE (field_string dc_config ''routing'') (\<lambda>dc_routing.
     bindE (read_section dc_config ''storage_systems'' read_storage_config) (\<lambda>storage_systems.
     bindE (read_section dc_config ''clusters'' read_cluster_config) (\<lambda>clusters.
     bindE (read_section dc_config ''links'' read_link_config) (\<lambda>ls.
     bindE (read_section dc_config ''routes'' read_route_config) (\<lambda>rs.
       Inr \<lparr>fp_name = dc_name,
            fp_routing = (if dc_routing = ''floyd'' then FloydZone else FullZone),
            fp_storage_systems = storage_systems, fp_clusters = clusters,
            fp_links = ls, fp_routes = rs\<rparr>))))))"

definition build_sections :: "handle \<Rightarrow> facility_plan \<Rightarrow> state \<Rightarrow> state" where
  "build_sections datacenter p s =
     fold (build_route datacenter) (fp_routes p)
       (fold (build_inter_zone_link datacenter) (fp_links p)
          (fold (build_cluster datacenter) (fp_clusters p)
             (fold (build_storage_system datacenter) (fp_storage_systems p) s)))"

definition add_facility_zone :: "facility_plan \<Rightarrow> state \<Rightarrow> state" where
  "add_facility_zone p s =
     s\<lparr>zones := zones s @
          [\<lparr>nz_name = fp_name p, nz_routing = fp_routing p, nz_parent = None,
            nz_gateway = None, nz_sealed = False\<rparr>],
       zone_map := (zone_map s)(fp_name p \<mapsto> Some (length (zones s)))\<rparr>"

definition build_facility :: "facility_plan \<Rightarrow> state \<Rightarrow> state" where
  "build_facility p s =
     seal (length (zones s)) (build_sections (length (zones s)) p (add_facility_zone p s))"

text \<open>Facility entries with an unknown routing algorithm, and with the routing \<^verbatim>\<open>null\<close>.\<close>

definition example_dijkstra_facility :: "(string \<times> json) list" where
  "example_dijkstra_facility = [(''name'', JStr ''dc''), (''routing'', JStr ''dijkstra'')]"

definition example_null_routed_facility :: json where
  "example_null_routed_facility = JObj [(''name'', JStr ''dc''), (''routing'', JNull)]"

text \<open>The filesystem pass, entry by entry.\<close>

datatype fs_mode = SingleStorage string | ClusterMode string cluster_info | NoMode

record fs_plan =
  fsp_name :: string
  fsp_mount_point :: string
  fsp_size :: string
  fsp_mode :: fs_mode

definition read_filesystem :: "json \<Rightarrow> json \<Rightarrow> error + fs_plan" where
  "read_filesystem platform_config fs_cfg =
     bindE (field_string fs_cfg ''name'') (\<lambda>fs_name.
     bindE (field_string fs_cfg ''mount_point'') (\<lambda>mount_point_pattern.
     bindE (field_string fs_cfg ''size'') (\<lambda>sz.
       if json_contains fs_cfg ''storage_system'' then
         bindE (field_string fs_cfg ''storage_system'') (\<lambda>storage_system_name.
           Inr \<lparr>fsp_name = fs_name, fsp_mount_point = mount_point_pattern, fsp_size = sz,
                fsp_mode = SingleStorage storage_system_name\<rparr>)
       else if json_contains fs_cfg ''cluster'' then
         bindE (field_string fs_cfg ''cluster'') (\<lambda>cluster_name.
         bindE (find_cluster cluster_name platform_config) (\<lambda>v.
           Inr \<lparr>fsp_name = fs_name, fsp_mount_point = mount_point_pattern, fsp_size = sz,
                fsp_mode = ClusterMode cluster_name v\<rparr>))
       else
         Inr \<lparr>fsp_name = fs_name, fsp_mount_point = mount_point_pattern, fsp_size = sz,
              fsp_mode = NoMode\<rparr>)))"

definition cluster_hostname :: "cluster_info \<Rightarrow> nat \<Rightarrow> string" where
  "cluster_hostname v i = ci_prefix v @ to_string i @ ci_suffix v"

definition cluster_storage_name :: "cluster_info \<Rightarrow> nat \<Rightarrow> string" where
  "cluster_storage_name v i = cluster_hostname v i @ ''_'' @ ci_storage_base_name v"

text \<open>Whether the substitution loop ends for every node of the cluster.\<close>

definition mounts_end :: "string \<Rightarrow> cluster_info \<Rightarrow> bool" where
  "mounts_end template v \<longleftrightarrow>
     list_all (\<lambda>i. replace_hostname template (cluster_hostname v i) \<noteq> None)
       [0..<nat (ci_count v)]"

definition fs_partitions_of :: "fs_plan \<Rightarrow> state \<Rightarrow> partition list" where
  "fs_partitions_of plan s =
     (case fsp_mode plan of
        SingleStorage n \<Rightarrow>
          [\<lparr>p_mount_point = fsp_mount_point plan,
            p_storage = registry_lookup (storage_map s) (n @ ''_storage''),
            p_size = fsp_size plan\<rparr>]
      | ClusterMode c v \<Rightarrow>
          map (\<lambda>i. \<lparr>p_mount_point =
                       the (replace_hostname (fsp_mount_point plan) (cluster_hostname v i)),
                     p_storage = registry_lookup (storage_map s) (cluster_storage_name v i),
                     p_size = fsp_size plan\<rparr>)
            [0..<nat (ci_count v)]
      | NoMode \<Rightarrow> [])"

definition build_filesystem :: "fs_plan \<Rightarrow> state \<Rightarrow> state" where
  "build_filesystem plan s =
     s\<lparr>filesystems := filesystems s @
          [\<lparr>fs_name = fsp_name plan, fs_max_open_files = 100000000,
            fs_partitions = fs_partitions_of plan s\<rparr>],
       registered := registered s @
          (case fsp_mode plan of
             SingleStorage n \<Rightarrow> [(registry_lookup (zone_map s) n, length (filesystems s))]
           | ClusterMode c v \<Rightarrow> [(registry_lookup (zone_map s) c, length (filesystems s))]
           | NoMode \<Rightarrow> []),
       storage_map :=
          (case fsp_mode plan of
             SingleStorage n \<Rightarrow> registry_touch (n @ ''_storage'') (storage_map s)
           | ClusterMode c v \<Rightarrow>
               fold registry_touch (map (cluster_storage_name v) [0..<nat (ci_count v)])
                 (storage_map s)
           | NoMode \<Rightarrow> storage_map s),
       zone_map :=
          (case fsp_mode plan of
             SingleStorage n \<Rightarrow> registry_touch n (zone_map s)
           | ClusterMode c v \<Rightarrow> registry_touch c (zone_map s)
           | NoMode \<Rightarrow> zone_map s)\<rparr>"

text \<open>
  What an entry of the filesystem pass does, whatever the process: it never returns,
  or it fails, or it changes the state.
\<close>

definition filesystem_step :: "json \<Rightarrow> json \<Rightarrow> (error + (state \<Rightarrow> state)) option" where
  "filesystem_step platform_config fs_cfg =
     (case read_filesystem platform_config fs_cfg of
        Inl e \<Rightarrow> Some (Inl e)
      | Inr plan \<Rightarrow>
          (case fsp_mode plan of
             ClusterMode c v \<Rightarrow>
               if mounts_end (fsp_mount_point plan) v then Some (Inr (build_filesystem plan))
               else None
           | _ \<Rightarrow> Some (Inr (build_filesystem plan))))"

fun steps :: "(error + ('s \<Rightarrow> 's)) option list \<Rightarrow> (error + ('s \<Rightarrow> 's)) option" where
  "steps [] = Some (Inr id)"
| "steps (m # ms) = bindR m (\<lambda>f. bindR (steps ms) (\<lambda>g. Some (Inr (g \<circ> f))))"

text \<open>The whole compile of a document, whatever the process.\<close>

definition platform_plan :: "json \<Rightarrow> (error + (state \<Rightarrow> state)) option" where
  "platform_plan config =
     bindR (Some (json_index config ''facilities'')) (\<lambda>(facilities, config1).
     bindR (Some (mapE read_facility (json_items facilities))) (\<lambda>plans.
       if json_contains config1 ''filesystems'' then
         bindR (Some (json_index config1 ''filesystems'')) (\<lambda>(filesystems_config, config2).
         bindR (steps (map (filesystem_step config2) (json_items filesystems_config))) (\<lambda>f.
           Some (Inr (f \<circ> fold build_facility plans))))
       else Some (Inr (fold build_facility plans))))"

definition run_plan :: "(error + (state \<Rightarrow> state)) option \<Rightarrow> state \<Rightarrow> (error + state) option" where
  "run_plan plan s = map_option (map_sum id (\<lambda>f. f s)) plan"

subsection \<open>The same compile in another process\<close>

text \<open>
  Two processes that compile the same document may hold different engines: whatever
  the engine holds already, the loader's objects come after it, and every handle the
  loader keeps is moved by the number of objects that were there.  \<open>graft b t\<close> is
  the process \<open>t\<close> with its objects placed after those of the engine \<open>b\<close>.
\<close>

definition shift_map :: "('v \<Rightarrow> 'v) \<Rightarrow> ('k \<rightharpoonup> 'v option) \<Rightarrow> ('k \<rightharpoonup> 'v option)" where
  "shift_map f m = (\<lambda>k. map_option (map_option f) (m k))"

definition shift_zone :: "state \<Rightarrow> netzone \<Rightarrow> netzone" where
  "shift_zone b z =
     z\<lparr>nz_parent := map_option (\<lambda>h. length (zones b) + h) (nz_parent z),
       nz_gateway := map_option (\<lambda>h. length (routers b) + h) (nz_gateway z)\<rparr>"

definition shift_host :: "state \<Rightarrow> host \<Rightarrow> host" where
  "shift_host b h = h\<lparr>h_zone := length (zones b) + h_zone h\<rparr>"

definition shift_disk :: "state \<Rightarrow> disk \<Rightarrow> disk" where
  "shift_disk b d = d\<lparr>d_host := length (hosts b) + d_host d\<rparr>"

definition shift_link :: "state \<Rightarrow> link \<Rightarrow> link" where
  "shift_link b l = l\<lparr>l_zone := length (zones b) + l_zone l\<rparr>"

definition shift_router :: "state \<Rightarrow> router \<Rightarrow> router" where
  "shift_router b r = r\<lparr>rt_zone := length (zones b) + rt_zone r\<rparr>"

fun shift_end :: "state \<Rightarrow> endpoint \<Rightarrow> endpoint" where
  "shift_end b (HostEnd h) = HostEnd (map_option (\<lambda>h. length (hosts b) + h) h)"
| "shift_end b (ZoneEnd z) = ZoneEnd (map_option (\<lambda>h. length (zones b) + h) z)"

definition shift_route :: "state \<Rightarrow> route \<Rightarrow> route" where
  "shift_route b r =
     \<lparr>r_zone = length (zones b) + r_zone r,
      r_src = shift_end b (r_src r),
      r_dst = shift_end b (r_dst r),
      r_links = map (map_option (\<lambda>h. length (links b) + h)) (r_links r),
      r_symmetrical = r_symmetrical r\<rparr>"

definition shift_storage :: "state \<Rightarrow> storage \<Rightarrow> storage" where
  "shift_storage b st = st\<lparr>st_disks := map (\<lambda>h. length (disks b) + h) (st_disks st)\<rparr>"

definition shift_partition :: "state \<Rightarrow> partition \<Rightarrow> partition" where
  "shift_partition b p = p\<lparr>p_storage := map_option (shift_storage b) (p_storage p)\<rparr>"

definition shift_filesystem :: "state \<Rightarrow> filesystem \<Rightarrow> filesystem" where
  "shift_filesystem b f = f\<lparr>fs_partitions := map (shift_partition b) (fs_partitions f)\<rparr>"

definition shift_registered :: "state \<Rightarrow> handle option \<times> handle \<Rightarrow> handle option \<times> handle" where
  "shift_registered b r =
     (map_option (\<lambda>h. length (zones b) + h) (fst r), length (filesystems b) + snd r)"

definition graft :: "state \<Rightarrow> state \<Rightarrow> state" where
  "graft b t =
     \<lparr>zones = zones b @ map (shift_zone b) (zones t),
      hosts = hosts b @ map (shift_host b) (hosts t),
      disks = disks b @ map (shift_disk b) (disks t),
      links = links b @ map (shift_link b) (links t),
      routers = routers b @ map (shift_router b) (routers t),
      routes = routes b @ map (shift_route b) (routes t),
      filesystems = filesystems b @ map (shift_filesystem b) (filesystems t),
      registered = registered b @ map (shift_registered b) (registered t),
      storage_map = shift_map (shift_storage b) (storage_map t),
      zone_map = shift_map (\<lambda>h. length (zones b) + h) (zone_map t),
      link_map = shift_map (\<lambda>h. length (links b) + h) (link_map t)\<rparr>"

text \<open>A process that has not compiled anything yet: the three maps are empty.\<close>

definition fresh :: "state \<Rightarrow> bool" where
  "fresh s \<longleftrightarrow> storage_map s = Map.empty \<and> zone_map s = Map.empty \<and> link_map s = Map.empty"

text \<open>
  What the registries say, without the pointers: under each name, the attributes of
  the object it stands for, with the names of the objects that the object points to.
  A name under a null pointer has no attributes.
\<close>

definition nth_opt :: "'a list \<Rightarrow> nat \<Rightarrow> 'a option" where
  "nth_opt xs i = (if i < length xs then Some (xs ! i) else None)"

type_synonym zone_attributes = "string \<times> routing \<times> bool \<times> string option option \<times> string option option"

definition zone_attributes_of :: "state \<Rightarrow> netzone \<Rightarrow> zone_attributes" where
  "zone_attributes_of s z =
     (nz_name z, nz_routing z, nz_sealed z,
      map_option (\<lambda>p. map_option nz_name (nth_opt (zones s) p)) (nz_parent z),
      map_option (\<lambda>r. map_option rt_name (nth_opt (routers s) r)) (nz_gateway z))"

definition zone_view :: "state \<Rightarrow> string \<rightharpoonup> zone_attributes option" where
  "zone_view s n =
     map_option (\<lambda>z. Option.bind z (\<lambda>h. map_option (zone_attributes_of s) (nth_opt (zones s) h)))
       (zone_map s n)"

type_synonym link_attributes = "string \<times> string \<times> string \<times> sharing_policy \<times> string option"

definition link_attributes_of :: "state \<Rightarrow> link \<Rightarrow> link_attributes" where
  "link_attributes_of s l =
     (l_name l, l_bandwidth l, l_latency l, l_policy l,
      map_option nz_name (nth_opt (zones s) (l_zone l)))"

definition link_view :: "state \<Rightarrow> string \<rightharpoonup> link_attributes option" where
  "link_view s n =
     map_option (\<lambda>l. Option.bind l (\<lambda>h. map_option (link_attributes_of s) (nth_opt (links s) h)))
       (link_map s n)"

type_synonym disk_attributes = "string \<times> string \<times> string \<times> string option"

definition disk_attributes_of :: "state \<Rightarrow> disk \<Rightarrow> disk_attributes" where
  "disk_attributes_of s d =
     (d_name d, d_read_bw d, d_write_bw d, map_option h_name (nth_opt (hosts s) (d_host d)))"

type_synonym storage_attributes = "string \<times> storage_kind \<times> disk_attributes option list"

definition storage_attributes_of :: "state \<Rightarrow> storage \<Rightarrow> storage_attributes" where
  "storage_attributes_of s st =
     (st_name st, st_kind st,
      map (\<lambda>d. map_option (disk_attributes_of s) (nth_opt (disks s) d)) (st_disks st))"

definition storage_view :: "state \<Rightarrow> string \<rightharpoonup> storage_attributes option" where
  "storage_view s n = map_option (map_option (storage_attributes_of s)) (storage_map s n)"

definition registry_view :: "state \<Rightarrow>
    (string \<rightharpoonup> zone_attributes option) \<times> (string \<rightharpoonup> link_attributes option) \<times>
    (string \<rightharpoonup> storage_attributes option)" where
  "registry_view s = (zone_view s, link_view s, storage_view s)"

text \<open>How a compile ends, as far as the registries show.\<close>

definition outcome :: "(error + state) option \<Rightarrow>
    (error + (string \<rightharpoonup> zone_attributes option) \<times> (string \<rightharpoonup> link_attributes option) \<times>
    (string \<rightharpoonup> storage_attributes option)) option" where
  "outcome r = map_option (map_sum id registry_view) r"

text \<open>An engine that holds a zone and a host before the loader runs.\<close>

definition example_other_engine :: state where
  "example_other_engine =
     initial_state
       \<lparr>zones := [\<lparr>nz_name = ''site'', nz_routing = FullZone, nz_parent = None,
                   nz_gateway = None, nz_sealed = True\<rparr>],
        hosts := [\<lparr>h_name = ''frontend'', h_zone = 0, h_speed = ''1Gf'', h_cores = 1\<rparr>]\<rparr>"


section \<open>Properties\<close>

subsection \<open>The engine operations\<close>

lemma to_int_id: "- (2 ^ 31) \<le> n \<Longrightarrow> n < 2 ^ 31 \<Longrightarrow> to_int n = n"
  by (simp add: to_int_def sint_sbintrunc' signed_take_bit_int_eq_self)

lemma map_update_same: "f y = f (xs ! i) \<Longrightarrow> map f (xs[i := y]) = map f xs"
  by (cases "i < length xs") (auto simp: list_eq_iff_nth_eq nth_list_update)

lemma seal_names [simp]: "map nz_name (zones (seal z s)) = map nz_name (zones s)"
  by (simp add: seal_def map_update_same)

lemma seal_fields [simp]:
  "hosts (seal z s) = hosts s" "disks (seal z s) = disks s" "links (seal z s) = links s"
  "routers (seal z s) = routers s" "routes (seal z s) = routes s"
  "filesystems (seal z s) = filesystems s" "registered (seal z s) = registered s"
  "storage_map (seal z s) = storage_map s" "zone_map (seal z s) = zone_map s"
  "link_map (seal z s) = link_map s" "length (zones (seal z s)) = length (zones s)"
  by (simp_all add: seal_def)

subsection \<open>The loader's maps\<close>

lemma map_index_eq: "map_index m k = (registry_lookup m k, registry_touch k m)"
  by (simp add: registry_lookup_def registry_touch_def)

lemma registry_lookup_touch [simp]:
  "registry_lookup (registry_touch k m) k' = registry_lookup m k'"
  by (simp add: registry_lookup_def registry_touch_def map_index_def split: option.splits)

lemma registry_lookup_absent: "m k = None \<Longrightarrow> registry_lookup m k = None"
  by (simp add: registry_lookup_def map_index_def)

lemma registry_touch_absent: "m k = None \<Longrightarrow> registry_touch k m = m(k \<mapsto> None)"
  by (simp add: registry_touch_def map_index_def)

lemma registry_touch_apply:
  "registry_touch k m k' = (if k' = k \<and> m k = None then Some None else m k')"
  by (simp add: registry_touch_def map_index_def split: option.splits)

lemma fold_registry_touch_apply:
  "fold registry_touch ks m k = (if k \<in> set ks \<and> m k = None then Some None else m k)"
  by (induction ks arbitrary: m) (auto simp: registry_touch_apply)

lemma registry_lookup_fold_touch [simp]:
  "registry_lookup (fold registry_touch ks m) k = registry_lookup m k"
  by (induction ks arbitrary: m) simp_all

subsection \<open>The cluster builder\<close>

lemma cluster_node_eq:
  "cluster_node c b v i s =
     s\<lparr>hosts := hosts s @ [node_host c v i],
       disks := disks s @ node_disks v i (length (hosts s)),
       links := links s @ node_links c v i,
       routes := routes s @ node_routes c b (length (hosts s)) (length (links s)),
       storage_map := node_storage_entry v i (length (disks s)) (storage_map s)\<rparr>"
  by (simp add: cluster_node_def add_host_def set_core_count_def add_disk_def add_link_def
      set_latency_def set_sharing_policy_def add_route_def node_host_def node_links_def
      node_routes_def node_disks_def node_storage_entry_def node_hostname_def Let_def
      nth_append)

lemma length_node_links [simp]: "length (node_links c v i) = 3"
  by (simp add: node_links_def)

lemma length_concat_node_links [simp]: "length (concat (map (node_links c v) [0..<n])) = 3 * n"
  by (induction n) simp_all

lemma length_concat_node_disks [simp]:
  "length (concat (map (\<lambda>i. node_disks v i (f i)) [0..<n])) = (if cl_has_storage v then n else 0)"
  by (induction n) (simp_all add: node_disks_def)

lemma fold_cluster_node: "fold (cluster_node c b v) [0..<n] s = cluster_nodes c b v n s"
proof (induction n)
  case 0
  show ?case by (simp add: cluster_nodes_def)
next
  case (Suc n)
  have "fold (cluster_node c b v) [0..<Suc n] s = cluster_node c b v n (cluster_nodes c b v n s)"
    using Suc by simp
  also have "\<dots> = cluster_nodes c b v (Suc n) s"
    by (simp add: cluster_node_eq cluster_nodes_def)
  finally show ?case .
qed

lemma create_cluster_zone_eq:
  "create_cluster_zone parent cfg s =
     bindE (read_cluster_config cfg) (\<lambda>p. Inr (build_cluster parent p s))"
  by (simp add: create_cluster_zone_def read_cluster_config_def build_cluster_def bindE_def
      fold_cluster_node cluster_nodes_def add_netzone_def add_link_def set_latency_def
      add_router_def set_gateway_def seal_def Let_def nth_append
      split: sum.splits prod.splits)

lemma read_cluster_config_fields:
  assumes "read_cluster_config cfg = Inr p"
  shows "field_string cfg ''name'' = Inr (cp_name p)"
    and "field_string cfg ''prefix'' = Inr (cl_prefix (cp_locals p))"
    and "field_string cfg ''suffix'' = Inr (cl_suffix (cp_locals p))"
    and "field_int cfg ''count'' = Inr (cp_count p)"
  using assms
  by (auto simp: read_cluster_config_def bindE_def split: sum.splits prod.splits)

lemma create_cluster_zone_Inr:
  assumes "create_cluster_zone parent cfg s = Inr s'"
  obtains p where "read_cluster_config cfg = Inr p" and "s' = build_cluster parent p s"
  using assms by (auto simp: create_cluster_zone_eq bindE_def split: sum.splits)

lemma map_l_name_node_links: "map l_name (node_links c v i) = link_names (node_hostname v i)"
  by (simp add: node_links_def link_names_def)

lemma length_concat_node_routes [simp]:
  "length (concat (map (\<lambda>i. node_routes c b (f i) (g i)) [0..<n])) = 3 * n"
  by (induction n) (simp_all add: node_routes_def)

lemma node_storage_typed:
  assumes "\<not> json_contains node_cfg ''storage'' \<or>
      (\<exists>storage_cfg storage_base_name storage_type storage_read_bw storage_write_bw.
         json_at node_cfg ''storage'' = Inr storage_cfg \<and>
         field_string storage_cfg ''name'' = Inr storage_base_name \<and>
         field_string storage_cfg ''type'' = Inr storage_type \<and>
         field_string storage_cfg ''read_bandwidth'' = Inr storage_read_bw \<and>
         field_string storage_cfg ''write_bandwidth'' = Inr storage_write_bw)"
  obtains st where "node_storage node_cfg = Inr st"
proof -
  have "\<exists>st. node_storage node_cfg = Inr st"
    using assms
    by (cases "json_contains node_cfg ''storage''") (auto simp: node_storage_def bindE_def)
  with that show ?thesis by blast
qed

text \<open>
  A specification whose fields have the types the builder reads them with is built:
  the builder returns, whatever the parent zone and the process.
\<close>

lemma create_cluster_zone_typed:
  assumes name: "field_string cluster_config ''name'' = Inr name"
    and prefix: "field_string cluster_config ''prefix'' = Inr pfx"
    and suffix: "field_string cluster_config ''suffix'' = Inr sfx"
    and count: "field_int cluster_config ''count'' = Inr count"
    and backbone: "json_at cluster_config ''backbone'' = Inr backbone_cfg"
      "field_string backbone_cfg ''bandwidth'' = Inr backbone_bw"
      "field_string backbone_cfg ''latency'' = Inr backbone_lat"
    and node: "json_at cluster_config ''node'' = Inr node_cfg"
      "field_string node_cfg ''speed'' = Inr host_speed"
      "field_int node_cfg ''cores'' = Inr host_cores"
    and private_link: "json_at node_cfg ''private_link'' = Inr private_link_cfg"
      "field_string private_link_cfg ''bandwidth'' = Inr link_bw"
      "field_string private_link_cfg ''latency'' = Inr link_lat"
    and loopback: "json_at node_cfg ''loopback'' = Inr loopback_cfg"
      "field_string loopback_cfg ''bandwidth'' = Inr loopback_bw"
      "field_string loopback_cfg ''latency'' = Inr loopback_lat"
    and storage: "\<not> json_contains node_cfg ''storage'' \<or>
      (\<exists>storage_cfg storage_base_name storage_type storage_read_bw storage_write_bw.
         json_at node_cfg ''storage'' = Inr storage_cfg \<and>
         field_string storage_cfg ''name'' = Inr storage_base_name \<and>
         field_string storage_cfg ''type'' = Inr storage_type \<and>
         field_string storage_cfg ''read_bandwidth'' = Inr storage_read_bw \<and>
         field_string storage_cfg ''write_bandwidth'' = Inr storage_write_bw)"
  shows "\<exists>p.
      (\<forall>parent s. create_cluster_zone parent cluster_config s = Inr (build_cluster parent p s)) \<and>
      cp_name p = name \<and> cp_count p = count \<and>
      cl_prefix (cp_locals p) = pfx \<and> cl_suffix (cp_locals p) = sfx"
proof -
  from storage obtain st where st: "node_storage node_cfg = Inr st"
    by (rule node_storage_typed)
  have "\<exists>p. read_cluster_config cluster_config = Inr p \<and> cp_name p = name \<and>
      cp_count p = count \<and> cl_prefix (cp_locals p) = pfx \<and> cl_suffix (cp_locals p) = sfx"
    by (simp add: read_cluster_config_def bindE_def name prefix suffix count backbone node
        private_link loopback st split: prod.splits)
  then obtain p where p: "read_cluster_config cluster_config = Inr p" "cp_name p = name"
    "cp_count p = count" "cl_prefix (cp_locals p) = pfx" "cl_suffix (cp_locals p) = sfx"
    by blast
  have "create_cluster_zone parent cluster_config s = Inr (build_cluster parent p s)" for parent s
    by (simp add: create_cluster_zone_eq p(1) bindE_def)
  with p(2-5) show ?thesis by blast
qed

lemma field_int_JInt:
  assumes "field_int cfg k = Inr c" and "json_at cfg k = Inr (JInt N)" and "0 \<le> N" "N < 2 ^ 31"
  shows "c = N"
  using assms by (simp add: field_int_def bindE_def to_int_id)

text \<open>
  Claim C1, as the code has it.  The count is read into a C++ \<^verbatim>\<open>int\<close> and the node
  loop runs while \<^verbatim>\<open>i < count\<close>.  Every cluster specification whose fields have the
  types the builder reads them with is built, and with \<open>n\<close> the count as that
  \<^verbatim>\<open>int\<close> holds it, none when it is negative, the builder has added a zone of the
  cluster's name and in it exactly \<open>n\<close> hosts, named prefix + index + suffix for the
  indices \<open>0..n-1\<close>; exactly \<open>3n + 1\<close> links, the shared backbone followed by the
  uplink, the downlink and the loopback of each host; and exactly \<open>3n\<close> routes.  For
  a count \<open>N\<close> with \<open>0 \<le> N < 2^31\<close> these are \<open>N\<close>, \<open>3N + 1\<close> and \<open>3N\<close>.
\<close>

theorem cluster_zone_counts:
  assumes name: "field_string cluster_config ''name'' = Inr name"
    and prefix: "field_string cluster_config ''prefix'' = Inr pfx"
    and suffix: "field_string cluster_config ''suffix'' = Inr sfx"
    and count: "field_int cluster_config ''count'' = Inr count"
    and backbone: "json_at cluster_config ''backbone'' = Inr backbone_cfg"
      "field_string backbone_cfg ''bandwidth'' = Inr backbone_bw"
      "field_string backbone_cfg ''latency'' = Inr backbone_lat"
    and node: "json_at cluster_config ''node'' = Inr node_cfg"
      "field_string node_cfg ''speed'' = Inr host_speed"
      "field_int node_cfg ''cores'' = Inr host_cores"
    and private_link: "json_at node_cfg ''private_link'' = Inr private_link_cfg"
      "field_string private_link_cfg ''bandwidth'' = Inr link_bw"
      "field_string private_link_cfg ''latency'' = Inr link_lat"
    and loopback: "json_at node_cfg ''loopback'' = Inr loopback_cfg"
      "field_string loopback_cfg ''bandwidth'' = Inr loopback_bw"
      "field_string loopback_cfg ''latency'' = Inr loopback_lat"
    and storage: "\<not> json_contains node_cfg ''storage'' \<or>
      (\<exists>storage_cfg storage_base_name storage_type storage_read_bw storage_write_bw.
         json_at node_cfg ''storage'' = Inr storage_cfg \<and>
         field_string storage_cfg ''name'' = Inr storage_base_name \<and>
         field_string storage_cfg ''type'' = Inr storage_type \<and>
         field_string storage_cfg ''read_bandwidth'' = Inr storage_read_bw \<and>
         field_string storage_cfg ''write_bandwidth'' = Inr storage_write_bw)"
  shows "\<exists>s' hs ls rs.
           create_cluster_zone parent cluster_config s = Inr s' \<and>
           map nz_name (zones s') = map nz_name (zones s) @ [name] \<and>
           hosts s' = hosts s @ hs \<and> links s' = links s @ ls \<and> routes s' = routes s @ rs \<and>
           length hs = nat count \<and> length ls = 3 * nat count + 1 \<and>
           length rs = 3 * nat count \<and>
           map h_name hs = map (\<lambda>i. pfx @ to_string i @ sfx) [0..<nat count] \<and>
           map l_name ls =
             (name @ ''_backbone'') #
             concat (map (\<lambda>i. link_names (pfx @ to_string i @ sfx)) [0..<nat count]) \<and>
           (\<forall>h \<in> set hs. h_zone h = length (zones s)) \<and>
           (\<forall>l \<in> set ls. l_zone l = length (zones s)) \<and>
           (\<forall>r \<in> set rs. r_zone r = length (zones s)) \<and>
           (\<forall>N. json_at cluster_config ''count'' = Inr (JInt N) \<and> 0 \<le> N \<and> N < 2 ^ 31 \<longrightarrow>
              int (length hs) = N \<and> int (length ls) = 3 * N + 1 \<and> int (length rs) = 3 * N)"
proof -
  from create_cluster_zone_typed
      [OF name prefix suffix count backbone node private_link loopback storage]
  obtain p where
    run: "\<And>parent s. create_cluster_zone parent cluster_config s = Inr (build_cluster parent p s)"
    and nm0: "cp_name p = name" and cnt: "cp_count p = count"
    and nm1: "cl_prefix (cp_locals p) = pfx" "cl_suffix (cp_locals p) = sfx"
    by blast
  note nm = nm0 nm1
  let ?s' = "build_cluster parent p s"
  let ?c = "length (zones s)" and ?v = "cp_locals p" and ?n = "nat count"
  let ?hs = "map (node_host ?c ?v) [0..<?n]"
  let ?ls = "\<lparr>l_name = name @ ''_backbone'', l_zone = ?c, l_bandwidth = cp_backbone_bw p,
               l_latency = cp_backbone_lat p, l_policy = SHARED\<rparr> #
             concat (map (node_links ?c ?v) [0..<?n])"
  let ?rs = "concat (map (\<lambda>i. node_routes ?c (length (links s)) (length (hosts s) + i)
                (Suc (length (links s)) + 3 * i)) [0..<?n])"
  have f0: "map nz_name (zones ?s') = map nz_name (zones s) @ [name]"
    by (simp add: build_cluster_def cluster_nodes_def nm)
  have f1: "hosts ?s' = hosts s @ ?hs" "links ?s' = links s @ ?ls" "routes ?s' = routes s @ ?rs"
    by (simp_all add: build_cluster_def cluster_nodes_def cnt nm)
  have f2: "length ?hs = nat count" "length ?ls = 3 * nat count + 1" "length ?rs = 3 * nat count"
    by simp_all
  have f3: "map h_name ?hs = map (\<lambda>i. pfx @ to_string i @ sfx) [0..<?n]"
    by (simp add: node_host_def node_hostname_def nm)
  have f4: "map l_name ?ls =
      (name @ ''_backbone'') # concat (map (\<lambda>i. link_names (pfx @ to_string i @ sfx)) [0..<?n])"
    by (simp add: map_concat comp_def map_l_name_node_links node_hostname_def nm)
  have f5: "\<forall>h \<in> set ?hs. h_zone h = ?c"
    by (auto simp: node_host_def)
  have f6: "\<forall>l \<in> set ?ls. l_zone l = ?c"
    by (auto simp: node_links_def)
  have f7: "\<forall>r \<in> set ?rs. r_zone r = ?c"
    by (auto simp: node_routes_def)
  have f8: "\<forall>N. json_at cluster_config ''count'' = Inr (JInt N) \<and> 0 \<le> N \<and> N < 2 ^ 31 \<longrightarrow>
      int (length ?hs) = N \<and> int (length ?ls) = 3 * N + 1 \<and> int (length ?rs) = 3 * N"
  proof (intro allI impI)
    fix N
    assume "json_at cluster_config ''count'' = Inr (JInt N) \<and> 0 \<le> N \<and> N < 2 ^ 31"
    with count have "count = N" "0 \<le> N" by (simp_all add: field_int_JInt)
    then show "int (length ?hs) = N \<and> int (length ?ls) = 3 * N + 1 \<and> int (length ?rs) = 3 * N"
      by simp
  qed
  show ?thesis
    using run [of parent s] f0 f1 f2 f3 f4 f5 f6 f7 f8
    by - (rule exI[of _ ?s'], rule exI[of _ ?hs], rule exI[of _ ?ls], rule exI[of _ ?rs],
        (intro conjI; assumption))
qed

lemma read_example_cluster:
  "read_cluster_config example_cluster = Inr example_cluster_params"
  by (simp add: read_cluster_config_def example_cluster_def field_string_def field_int_def
      bindE_def node_storage_def to_int_def example_cluster_params_def)

lemma to_string_digits [simp]:
  "to_string 0 = ''0''" "to_string (Suc 0) = ''1''" "to_string (Suc (Suc 0)) = ''2''"
  by (simp_all add: to_string.simps digit_char_def)

text \<open>The fields of the example's cluster, as the builder reads them.\<close>

lemma example_cluster_typed:
  "field_string example_cluster ''name'' = Inr ''c0''"
  "field_string example_cluster ''prefix'' = Inr ''n''"
  "field_string example_cluster ''suffix'' = Inr []"
  "field_int example_cluster ''count'' = Inr 3"
  "json_at example_cluster ''backbone'' =
     Inr (JObj [(''bandwidth'', JStr ''10Gbps''), (''latency'', JStr ''1ms'')])"
  "field_string (JObj [(''bandwidth'', JStr ''10Gbps''), (''latency'', JStr ''1ms'')]) ''bandwidth'' =
     Inr ''10Gbps''"
  "field_string (JObj [(''bandwidth'', JStr ''10Gbps''), (''latency'', JStr ''1ms'')]) ''latency'' =
     Inr ''1ms''"
  "json_at example_cluster ''node'' = Inr example_node"
  "field_string example_node ''speed'' = Inr ''11Gf''"
  "field_int example_node ''cores'' = Inr 96"
  "json_at example_node ''private_link'' =
     Inr (JObj [(''bandwidth'', JStr ''1Gbps''), (''latency'', JStr ''2ms'')])"
  "field_string (JObj [(''bandwidth'', JStr ''1Gbps''), (''latency'', JStr ''2ms'')]) ''bandwidth'' =
     Inr ''1Gbps''"
  "field_string (JObj [(''bandwidth'', JStr ''1Gbps''), (''latency'', JStr ''2ms'')]) ''latency'' =
     Inr ''2ms''"
  "json_at example_node ''loopback'' =
     Inr (JObj [(''bandwidth'', JStr ''1Gbps''), (''latency'', JStr ''1.75ms'')])"
  "field_string (JObj [(''bandwidth'', JStr ''1Gbps''), (''latency'', JStr ''1.75ms'')]) ''bandwidth'' =
     Inr ''1Gbps''"
  "field_string (JObj [(''bandwidth'', JStr ''1Gbps''), (''latency'', JStr ''1.75ms'')]) ''latency'' =
     Inr ''1.75ms''"
  "\<not> json_contains example_node ''storage'' \<or>
      (\<exists>storage_cfg storage_base_name storage_type storage_read_bw storage_write_bw.
         json_at example_node ''storage'' = Inr storage_cfg \<and>
         field_string storage_cfg ''name'' = Inr storage_base_name \<and>
         field_string storage_cfg ''type'' = Inr storage_type \<and>
         field_string storage_cfg ''read_bandwidth'' = Inr storage_read_bw \<and>
         field_string storage_cfg ''write_bandwidth'' = Inr storage_write_bw)"
  by (simp_all add: example_cluster_def example_node_def field_string_def field_int_def
      bindE_def to_int_def)

lemma example_cluster_run:
  "create_cluster_zone 0 example_cluster example_facility_state =
     Inr (build_cluster 0 example_cluster_params example_facility_state)"
  by (simp add: create_cluster_zone_eq read_example_cluster bindE_def)

lemma example_facility_run: "create_facility example_facility initial_state = Inr example_built"
  using example_cluster_run
  by (simp add: example_facility_def create_facility_def field_string_def bindE_def
      add_netzone_def initial_state_def example_facility_state_def example_built_def)

lemma example_topology_run:
  "build_platform example_topology initial_state = Some (Inr example_built)"
  by (simp add: build_platform_def example_topology_def bindR_def bindE_def example_facility_run)

text \<open>The example: the facility \<open>dc\<close> with the cluster \<open>c0\<close> of three nodes.\<close>

theorem cluster_zone_counts_witness:
  "\<exists>s'. build_platform example_topology initial_state = Some (Inr s') \<and>
        map nz_name (zones s') = [''dc'', ''c0''] \<and>
        map h_name (hosts s') = [''n0'', ''n1'', ''n2''] \<and>
        map h_zone (hosts s') = [1, 1, 1] \<and>
        map l_name (links s') =
          [''c0_backbone'', ''n0_LinkUP'', ''n0_LinkDOWN'', ''n0_loopback'',
           ''n1_LinkUP'', ''n1_LinkDOWN'', ''n1_loopback'',
           ''n2_LinkUP'', ''n2_LinkDOWN'', ''n2_loopback''] \<and>
        length (links s') = 10 \<and> length (routes s') = 9"
proof -
  define s_c where "s_c = build_cluster 0 example_cluster_params example_facility_state"
  have run: "create_cluster_zone 0 example_cluster example_facility_state = Inr s_c"
    by (simp add: s_c_def example_cluster_run)
  from cluster_zone_counts [OF example_cluster_typed, of 0 example_facility_state] run
  obtain hs ls rs where new: "hosts s_c = hosts example_facility_state @ hs"
      "links s_c = links example_facility_state @ ls"
      "routes s_c = routes example_facility_state @ rs"
      "length hs = nat 3" "length ls = 3 * nat 3 + 1" "length rs = 3 * nat 3"
      "map h_name hs = map (\<lambda>i. ''n'' @ to_string i @ []) [0..<nat 3]"
      "map l_name ls =
         (''c0'' @ ''_backbone'') # concat (map (\<lambda>i. link_names (''n'' @ to_string i @ [])) [0..<nat 3])"
      "\<forall>h \<in> set hs. h_zone h = length (zones example_facility_state)"
      "map nz_name (zones s_c) = map nz_name (zones example_facility_state) @ [''c0'']"
    by auto
  have zs: "map nz_name (zones s_c) = [''dc'', ''c0'']"
    using new(10) by (simp add: example_facility_state_def initial_state_def)
  have hz: "map h_zone hs = replicate (length hs) 1"
    using new(9) by (simp add: map_replicate_const [symmetric] example_facility_state_def)
  have len: "length hs = 3" "length ls = 10" "length rs = 9"
    using new(4-6) by simp_all
  have "map h_name (hosts s_c) = [''n0'', ''n1'', ''n2'']"
    using new(1,7) by (simp add: example_facility_state_def initial_state_def numeral_3_eq_3)
  moreover have "map h_zone (hosts s_c) = [1, 1, 1]"
    using new(1) hz len(1) by (simp add: example_facility_state_def initial_state_def numeral_3_eq_3)
  moreover have "map l_name (links s_c) =
      [''c0_backbone'', ''n0_LinkUP'', ''n0_LinkDOWN'', ''n0_loopback'',
       ''n1_LinkUP'', ''n1_LinkDOWN'', ''n1_loopback'',
       ''n2_LinkUP'', ''n2_LinkDOWN'', ''n2_loopback'']"
    using new(2,8)
    by (simp add: example_facility_state_def initial_state_def numeral_3_eq_3 link_names_def)
  moreover have "length (links s_c) = 10" "length (routes s_c) = 9"
    using new(2,3) len by (simp_all add: example_facility_state_def initial_state_def)
  ultimately show ?thesis
    using zs by (simp add: example_topology_run example_built_def s_c_def [symmetric])
qed

text \<open>
  The claim as stated fails for a count that is not the number of passes of the node
  loop.  With the count \<open>2^32 + 3\<close> the builder returns with the three hosts of the
  example, ten links and nine routes.  With the count \<open>-1\<close> it returns with the
  cluster zone, its backbone and its router, and no host: one link, where \<open>3N + 1\<close>
  is \<open>-2\<close>.
\<close>

theorem cluster_zone_counts_counterexample:
  "json_at example_wrapped_cluster ''count'' = Inr (JInt 4294967299) \<and>
   create_cluster_zone 0 example_wrapped_cluster example_facility_state =
     Inr example_cluster_built \<and>
   map h_name (hosts example_cluster_built) = [''n0'', ''n1'', ''n2''] \<and>
   length (links example_cluster_built) = 10 \<and>
   length (routes example_cluster_built) = 9 \<and>
   int (length (hosts example_cluster_built)) \<noteq> 4294967299 \<and>
   json_at example_negative_cluster ''count'' = Inr (JInt (- 1)) \<and>
   create_cluster_zone 0 example_negative_cluster example_facility_state =
     Inr example_negative_built \<and>
   hosts example_negative_built = [] \<and>
   map l_name (links example_negative_built) = [''c0_backbone''] \<and>
   routes example_negative_built = [] \<and>
   int (length (links example_negative_built)) \<noteq> 3 * (- 1) + 1"
proof -
  have w: "read_cluster_config example_wrapped_cluster = Inr example_cluster_params"
    by (simp add: read_cluster_config_def example_wrapped_cluster_def example_node_def
        field_string_def field_int_def bindE_def node_storage_def to_int_def
        example_cluster_params_def)
  have run: "create_cluster_zone 0 example_wrapped_cluster example_facility_state =
      Inr example_cluster_built"
    by (simp add: create_cluster_zone_eq w bindE_def example_cluster_built_def)
  have built: "map h_name (hosts example_cluster_built) = [''n0'', ''n1'', ''n2'']"
    "length (links example_cluster_built) = 10" "length (routes example_cluster_built) = 9"
    "length (hosts example_cluster_built) = 3"
    by (simp_all add: example_cluster_built_def build_cluster_def cluster_nodes_def
        example_cluster_params_def example_facility_state_def initial_state_def
        node_host_def node_hostname_def node_routes_def numeral_3_eq_3)
  have neg: "create_cluster_zone 0 example_negative_cluster example_facility_state =
      Inr example_negative_built"
    by (simp add: example_negative_cluster_def example_negative_built_def
        create_cluster_zone_def field_string_def field_int_def bindE_def to_int_def
        node_storage_def add_netzone_def add_link_def set_latency_def add_router_def
        set_gateway_def seal_def example_facility_state_def initial_state_def)
  have counts: "json_at example_wrapped_cluster ''count'' = Inr (JInt 4294967299)"
    "json_at example_negative_cluster ''count'' = Inr (JInt (- 1))"
    by (simp_all add: example_wrapped_cluster_def example_negative_cluster_def)
  have none: "hosts example_negative_built = []"
    "map l_name (links example_negative_built) = [''c0_backbone'']"
    "routes example_negative_built = []" "length (links example_negative_built) = 1"
    by (simp_all add: example_negative_built_def)
  show ?thesis
    by (simp add: run built neg counts none)
qed

lemma nth_concat_node_links:
  "i < n \<Longrightarrow> k < 3 \<Longrightarrow> concat (map (node_links c v) [0..<n]) ! (3 * i + k) = node_links c v i ! k"
proof (induction n)
  case 0
  then show ?case by simp
next
  case (Suc n)
  show ?case
  proof (cases "i < n")
    case True
    with Suc show ?thesis by (simp add: nth_append)
  next
    case False
    with Suc.prems have "i = n" by simp
    with Suc.prems show ?thesis by (simp add: nth_append)
  qed
qed

lemma concat_map_single:
  "concat (map (\<lambda>j. if j = i then [g j] else []) [0..<n]) = (if i < n then [g i] else [])"
  by (induction n) auto

lemma filter_node_routes:
  "filter (\<lambda>r. r_src r = HostEnd (Some (h0 + i)) \<and> r_dst r = HostEnd None)
     (node_routes c b (h0 + j) l) =
   (if j = i then [\<lparr>r_zone = c, r_src = HostEnd (Some (h0 + j)), r_dst = HostEnd None,
                    r_links = [Some l, Some b], r_symmetrical = False\<rparr>] else [])"
  "filter (\<lambda>r. r_src r = HostEnd None \<and> r_dst r = HostEnd (Some (h0 + i)))
     (node_routes c b (h0 + j) l) =
   (if j = i then [\<lparr>r_zone = c, r_src = HostEnd None, r_dst = HostEnd (Some (h0 + j)),
                    r_links = [Some b, Some (l + 1)], r_symmetrical = False\<rparr>] else [])"
  "filter (\<lambda>r. r_src r = HostEnd (Some (h0 + i)) \<and> r_dst r = HostEnd (Some (h0 + i)))
     (node_routes c b (h0 + j) l) =
   (if j = i then [\<lparr>r_zone = c, r_src = HostEnd (Some (h0 + j)), r_dst = HostEnd (Some (h0 + j)),
                    r_links = [Some (l + 2)], r_symmetrical = True\<rparr>] else [])"
  by (simp_all add: node_routes_def)

text \<open>
  Claim C2.  Every cluster specification whose fields have the types the builder reads
  them with is built, and for the host \<open>h\<close> that pass \<open>i\<close> of the node loop creates
  the cluster zone gets exactly one route from \<open>h\<close> to the gateway (the null end), not
  symmetrical, over the ordered links uplink of \<open>h\<close>, backbone; exactly one route from
  the gateway to \<open>h\<close>, not symmetrical, over backbone, downlink of \<open>h\<close>; and exactly one
  route from \<open>h\<close> to \<open>h\<close>, over the loopback of \<open>h\<close> alone.  The links are the
  ones named after the host, and the loopback's sharing policy is \<open>FATPIPE\<close>.  The
  passes are those of the loop \<^verbatim>\<open>for (int i = 0; i < count; i++)\<close>, whatever the
  count converts to.
\<close>

theorem cluster_host_routes:
  assumes name: "field_string cluster_config ''name'' = Inr name"
    and prefix: "field_string cluster_config ''prefix'' = Inr pfx"
    and suffix: "field_string cluster_config ''suffix'' = Inr sfx"
    and count: "field_int cluster_config ''count'' = Inr count"
    and backbone: "json_at cluster_config ''backbone'' = Inr backbone_cfg"
      "field_string backbone_cfg ''bandwidth'' = Inr backbone_bw"
      "field_string backbone_cfg ''latency'' = Inr backbone_lat"
    and node: "json_at cluster_config ''node'' = Inr node_cfg"
      "field_string node_cfg ''speed'' = Inr host_speed"
      "field_int node_cfg ''cores'' = Inr host_cores"
    and private_link: "json_at node_cfg ''private_link'' = Inr private_link_cfg"
      "field_string private_link_cfg ''bandwidth'' = Inr link_bw"
      "field_string private_link_cfg ''latency'' = Inr link_lat"
    and loopback: "json_at node_cfg ''loopback'' = Inr loopback_cfg"
      "field_string loopback_cfg ''bandwidth'' = Inr loopback_bw"
      "field_string loopback_cfg ''latency'' = Inr loopback_lat"
    and storage: "\<not> json_contains node_cfg ''storage'' \<or>
      (\<exists>storage_cfg storage_base_name storage_type storage_read_bw storage_write_bw.
         json_at node_cfg ''storage'' = Inr storage_cfg \<and>
         field_string storage_cfg ''name'' = Inr storage_base_name \<and>
         field_string storage_cfg ''type'' = Inr storage_type \<and>
         field_string storage_cfg ''read_bandwidth'' = Inr storage_read_bw \<and>
         field_string storage_cfg ''write_bandwidth'' = Inr storage_write_bw)"
    and i: "i < nat count"
  shows "\<exists>s'. create_cluster_zone parent cluster_config s = Inr s' \<and>
        (let c = length (zones s); h = length (hosts s) + i; b = length (links s);
             up = b + 1 + 3 * i; down = up + 1; loopback = up + 2;
             hostname = pfx @ to_string i @ sfx;
             new_routes = drop (length (routes s)) (routes s')
         in h_name (hosts s' ! h) = hostname \<and> h_zone (hosts s' ! h) = c \<and>
            l_name (links s' ! b) = name @ ''_backbone'' \<and>
            l_name (links s' ! up) = hostname @ ''_LinkUP'' \<and>
            l_name (links s' ! down) = hostname @ ''_LinkDOWN'' \<and>
            l_name (links s' ! loopback) = hostname @ ''_loopback'' \<and>
            l_policy (links s' ! loopback) = FATPIPE \<and>
            filter (\<lambda>r. r_src r = HostEnd (Some h) \<and> r_dst r = HostEnd None) new_routes =
              [\<lparr>r_zone = c, r_src = HostEnd (Some h), r_dst = HostEnd None,
                r_links = [Some up, Some b], r_symmetrical = False\<rparr>] \<and>
            filter (\<lambda>r. r_src r = HostEnd None \<and> r_dst r = HostEnd (Some h)) new_routes =
              [\<lparr>r_zone = c, r_src = HostEnd None, r_dst = HostEnd (Some h),
                r_links = [Some b, Some down], r_symmetrical = False\<rparr>] \<and>
            filter (\<lambda>r. r_src r = HostEnd (Some h) \<and> r_dst r = HostEnd (Some h)) new_routes =
              [\<lparr>r_zone = c, r_src = HostEnd (Some h), r_dst = HostEnd (Some h),
                r_links = [Some loopback], r_symmetrical = True\<rparr>])"
proof -
  from create_cluster_zone_typed
      [OF name prefix suffix count backbone node private_link loopback storage]
  obtain p where
    run: "\<And>parent s. create_cluster_zone parent cluster_config s = Inr (build_cluster parent p s)"
    and nm0: "cp_name p = name" and cnt: "cp_count p = count"
    and nm1: "cl_prefix (cp_locals p) = pfx" "cl_suffix (cp_locals p) = sfx"
    by blast
  note nm = nm0 nm1
  define s' where "s' = build_cluster parent p s"
  let ?c = "length (zones s)" and ?v = "cp_locals p" and ?n = "nat count"
  let ?b = "length (links s)" and ?h = "length (hosts s) + i"
  let ?hn = "pfx @ to_string i @ sfx"
  have hs: "hosts s' = hosts s @ map (node_host ?c ?v) [0..<?n]"
    and ls: "links s' = (links s @
               [\<lparr>l_name = name @ ''_backbone'', l_zone = ?c, l_bandwidth = cp_backbone_bw p,
                 l_latency = cp_backbone_lat p, l_policy = SHARED\<rparr>]) @
               concat (map (node_links ?c ?v) [0..<?n])"
    and rs: "routes s' = routes s @
               concat (map (\<lambda>j. node_routes ?c ?b (length (hosts s) + j) (?b + 1 + 3 * j)) [0..<?n])"
    by (simp_all add: s'_def build_cluster_def cluster_nodes_def cnt nm)
  have host: "hosts s' ! ?h = node_host ?c ?v i"
    using i by (simp add: hs nth_append)
  have bb: "l_name (links s' ! ?b) = name @ ''_backbone''"
    by (simp add: ls nth_append)
  have lk: "links s' ! (?b + 1 + 3 * i + k) = node_links ?c ?v i ! k" if "k < 3" for k
  proof -
    have "links s' ! (?b + 1 + 3 * i + k) = concat (map (node_links ?c ?v) [0..<?n]) ! (3 * i + k)"
      unfolding ls by (subst nth_append) (simp add: add.assoc)
    then show ?thesis using i that by (simp add: nth_concat_node_links)
  qed
  have up: "links s' ! (?b + 1 + 3 * i) = node_links ?c ?v i ! 0"
    using lk [of 0] by simp
  have down: "links s' ! (?b + 1 + 3 * i + 1) = node_links ?c ?v i ! 1"
    using lk [of 1] by simp
  have loop: "links s' ! (?b + 1 + 3 * i + 2) = node_links ?c ?v i ! 2"
    using lk [of 2] by simp
  have new: "drop (length (routes s)) (routes s') =
      concat (map (\<lambda>j. node_routes ?c ?b (length (hosts s) + j) (?b + 1 + 3 * j)) [0..<?n])"
    by (simp add: rs)
  have r1: "filter (\<lambda>r. r_src r = HostEnd (Some ?h) \<and> r_dst r = HostEnd None)
        (drop (length (routes s)) (routes s')) =
      [\<lparr>r_zone = ?c, r_src = HostEnd (Some ?h), r_dst = HostEnd None,
        r_links = [Some (?b + 1 + 3 * i), Some ?b], r_symmetrical = False\<rparr>]"
    unfolding new using i
    by (simp add: filter_concat comp_def filter_node_routes concat_map_single del: upt_Suc)
  have r2: "filter (\<lambda>r. r_src r = HostEnd None \<and> r_dst r = HostEnd (Some ?h))
        (drop (length (routes s)) (routes s')) =
      [\<lparr>r_zone = ?c, r_src = HostEnd None, r_dst = HostEnd (Some ?h),
        r_links = [Some ?b, Some (?b + 1 + 3 * i + 1)], r_symmetrical = False\<rparr>]"
    unfolding new using i
    by (simp add: filter_concat comp_def filter_node_routes concat_map_single del: upt_Suc)
  have r3: "filter (\<lambda>r. r_src r = HostEnd (Some ?h) \<and> r_dst r = HostEnd (Some ?h))
        (drop (length (routes s)) (routes s')) =
      [\<lparr>r_zone = ?c, r_src = HostEnd (Some ?h), r_dst = HostEnd (Some ?h),
        r_links = [Some (?b + 1 + 3 * i + 2)], r_symmetrical = True\<rparr>]"
    unfolding new using i
    by (simp add: filter_concat comp_def filter_node_routes concat_map_single del: upt_Suc)
  have body: "let c = length (zones s); h = length (hosts s) + i; b = length (links s);
             up = b + 1 + 3 * i; down = up + 1; loopback = up + 2;
             hostname = pfx @ to_string i @ sfx;
             new_routes = drop (length (routes s)) (routes s')
         in h_name (hosts s' ! h) = hostname \<and> h_zone (hosts s' ! h) = c \<and>
            l_name (links s' ! b) = name @ ''_backbone'' \<and>
            l_name (links s' ! up) = hostname @ ''_LinkUP'' \<and>
            l_name (links s' ! down) = hostname @ ''_LinkDOWN'' \<and>
            l_name (links s' ! loopback) = hostname @ ''_loopback'' \<and>
            l_policy (links s' ! loopback) = FATPIPE \<and>
            filter (\<lambda>r. r_src r = HostEnd (Some h) \<and> r_dst r = HostEnd None) new_routes =
              [\<lparr>r_zone = c, r_src = HostEnd (Some h), r_dst = HostEnd None,
                r_links = [Some up, Some b], r_symmetrical = False\<rparr>] \<and>
            filter (\<lambda>r. r_src r = HostEnd None \<and> r_dst r = HostEnd (Some h)) new_routes =
              [\<lparr>r_zone = c, r_src = HostEnd None, r_dst = HostEnd (Some h),
                r_links = [Some b, Some down], r_symmetrical = False\<rparr>] \<and>
            filter (\<lambda>r. r_src r = HostEnd (Some h) \<and> r_dst r = HostEnd (Some h)) new_routes =
              [\<lparr>r_zone = c, r_src = HostEnd (Some h), r_dst = HostEnd (Some h),
                r_links = [Some loopback], r_symmetrical = True\<rparr>]"
    unfolding Let_def
    by (simp only: host up down loop bb r1 r2 r3)
       (simp add: node_host_def node_links_def node_hostname_def nm)
  from run [of parent s] body show ?thesis
    unfolding s'_def by (intro exI [of _ "build_cluster parent p s"] conjI)
qed


text \<open>The host \<open>n1\<close> of the example.\<close>

theorem cluster_host_routes_witness:
  "\<exists>s'. create_cluster_zone 0 example_cluster example_facility_state = Inr s' \<and>
        h_name (hosts s' ! 1) = ''n1'' \<and> h_zone (hosts s' ! 1) = 1 \<and>
        l_name (links s' ! 0) = ''c0_backbone'' \<and>
        l_name (links s' ! 4) = ''n1_LinkUP'' \<and>
        l_name (links s' ! 5) = ''n1_LinkDOWN'' \<and>
        l_name (links s' ! 6) = ''n1_loopback'' \<and>
        l_policy (links s' ! 6) = FATPIPE \<and>
        filter (\<lambda>r. r_src r = HostEnd (Some 1) \<and> r_dst r = HostEnd None) (routes s') =
          [\<lparr>r_zone = 1, r_src = HostEnd (Some 1), r_dst = HostEnd None,
            r_links = [Some 4, Some 0], r_symmetrical = False\<rparr>] \<and>
        filter (\<lambda>r. r_src r = HostEnd None \<and> r_dst r = HostEnd (Some 1)) (routes s') =
          [\<lparr>r_zone = 1, r_src = HostEnd None, r_dst = HostEnd (Some 1),
            r_links = [Some 0, Some 5], r_symmetrical = False\<rparr>] \<and>
        filter (\<lambda>r. r_src r = HostEnd (Some 1) \<and> r_dst r = HostEnd (Some 1)) (routes s') =
          [\<lparr>r_zone = 1, r_src = HostEnd (Some 1), r_dst = HostEnd (Some 1),
            r_links = [Some 6], r_symmetrical = True\<rparr>]"
proof -
  have len: "length (zones example_facility_state) = 1" "hosts example_facility_state = []"
    "links example_facility_state = []" "routes example_facility_state = []"
    by (simp_all add: example_facility_state_def initial_state_def)
  show ?thesis
    using cluster_host_routes [OF example_cluster_typed, of 1 0 example_facility_state]
    by (simp add: Let_def len)
qed

subsection \<open>The storage-system builder\<close>

lemma fold_jbod_disk:
  "fold (jbod_disk server base dc rbw wbw) [0..<n] (ds, s) =
     (ds @ map (\<lambda>i. length (disks s) + i) [0..<n],
      s\<lparr>disks := disks s @
           map (\<lambda>i. \<lparr>d_name = (if dc = 1 then base else base @ to_string i), d_host = server,
                      d_read_bw = rbw, d_write_bw = wbw\<rparr>) [0..<n]\<rparr>)"
  by (induction n) (simp_all add: jbod_disk_def add_disk_def)

text \<open>
  Claim C6.  A storage-system specification whose type is a string other than
  \<open>OneDisk\<close> and \<open>JBOD\<close> is built without an error: the zone is created, registered
  and sealed, and the server host is created; no disk and no storage device are
  created, and the storage map is left as it was, so no entry appears under the
  storage name.
\<close>

theorem unsupported_storage_type:
  assumes name: "field_string storage_config ''name'' = Inr name"
    and speed: "field_string storage_config ''server_speed'' = Inr server_speed"
    and type: "field_string storage_config ''type'' = Inr storage_type"
    and other: "storage_type \<noteq> ''OneDisk''" "storage_type \<noteq> ''JBOD''"
    and count: "field_int storage_config ''disk_count'' = Inr disk_count"
    and rbw: "field_string storage_config ''read_bandwidth'' = Inr read_bw"
    and wbw: "field_string storage_config ''write_bandwidth'' = Inr write_bw"
  shows "\<exists>s'. create_storage_system_zone parent storage_config s = Inr s' \<and>
           storage_map s' = storage_map s \<and>
           storage_map s' (name @ ''_storage'') = storage_map s (name @ ''_storage'') \<and>
           disks s' = disks s \<and>
           zones s' = zones s @
             [\<lparr>nz_name = name, nz_routing = EmptyZone, nz_parent = Some parent,
               nz_gateway = None, nz_sealed = True\<rparr>] \<and>
           hosts s' = hosts s @
             [\<lparr>h_name = name @ ''_server'', h_zone = length (zones s),
               h_speed = server_speed, h_cores = 1\<rparr>] \<and>
           zone_map s' = (zone_map s)(name \<mapsto> Some (length (zones s)))"
  using other
  by (simp add: create_storage_system_zone_def name speed type count rbw wbw bindE_def
      add_netzone_def add_host_def seal_def Let_def)

text \<open>A storage system of type \<open>RAID5\<close> in the facility of the example.\<close>

theorem unsupported_storage_type_witness:
  "\<exists>s'. create_storage_system_zone 0 example_raid_storage example_facility_state = Inr s' \<and>
        storage_map s' ''pfs_storage'' = None \<and> disks s' = [] \<and>
        map nz_name (zones s') = [''dc'', ''pfs''] \<and> map nz_sealed (zones s') = [False, True] \<and>
        map h_name (hosts s') = [''pfs_server'']"
proof -
  have fields: "field_string example_raid_storage ''name'' = Inr ''pfs''"
    "field_string example_raid_storage ''server_speed'' = Inr ''1Gf''"
    "field_string example_raid_storage ''type'' = Inr ''RAID5''"
    "''RAID5'' \<noteq> ''OneDisk''" "''RAID5'' \<noteq> ''JBOD''"
    "field_int example_raid_storage ''disk_count'' = Inr 4"
    "field_string example_raid_storage ''read_bandwidth'' = Inr ''180MBps''"
    "field_string example_raid_storage ''write_bandwidth'' = Inr ''160MBps''"
    by (simp_all add: example_raid_storage_def field_string_def field_int_def bindE_def to_int_def)
  from unsupported_storage_type [OF fields, of 0 example_facility_state]
  show ?thesis
    by (auto simp: example_facility_state_def initial_state_def)
qed

subsection \<open>Routes between zones\<close>

lemma foldE_route_link:
  "foldE route_link (map JStr names) (acc, s) =
     Inr (acc @ map (registry_lookup (link_map s)) names,
          s\<lparr>link_map := fold registry_touch names (link_map s)\<rparr>)"
proof (induction names arbitrary: acc s)
  case Nil
  show ?case by simp
next
  case (Cons n names)
  have "route_link (JStr n) (acc, s) =
          Inr (acc @ [registry_lookup (link_map s) n], s\<lparr>link_map := registry_touch n (link_map s)\<rparr>)"
    by (simp add: route_link_def bindE_def map_index_eq)
  then show ?case
    by (simp add: bindE_def Cons.IH)
qed

text \<open>
  Claim C5, as the code has it.  \<^verbatim>\<open>create_routes\<close> checks no name.  For a route entry
  whose source and destination are strings and whose links are a list of strings, it
  returns without an error and installs the route, whether or not the names are in
  the registries: every name is read with \<^verbatim>\<open>operator[]\<close>, so an absent name
  contributes a null pointer to the route and is left in its registry, under a null
  pointer.
\<close>

theorem route_without_reference_check:
  assumes src: "field_string route_cfg ''src'' = Inr src_name"
    and dst: "field_string route_cfg ''dst'' = Inr dst_name"
    and links: "json_at route_cfg ''links'' = Inr names_cfg"
    and names: "json_items names_cfg = map JStr names"
  shows "\<exists>s'. create_route datacenter route_cfg s = Inr s' \<and>
           routes s' = routes s @
             [\<lparr>r_zone = datacenter,
               r_src = ZoneEnd (registry_lookup (zone_map s) src_name),
               r_dst = ZoneEnd (registry_lookup (zone_map s) dst_name),
               r_links = map (registry_lookup (link_map s)) names,
               r_symmetrical = True\<rparr>] \<and>
           zone_map s' = registry_touch dst_name (registry_touch src_name (zone_map s)) \<and>
           link_map s' = fold registry_touch names (link_map s) \<and>
           (zone_map s src_name = None \<longrightarrow>
              registry_lookup (zone_map s) src_name = None \<and> zone_map s' src_name = Some None) \<and>
           (zone_map s dst_name = None \<longrightarrow>
              registry_lookup (zone_map s) dst_name = None \<and> zone_map s' dst_name = Some None) \<and>
           (\<forall>n \<in> set names. link_map s n = None \<longrightarrow>
              registry_lookup (link_map s) n = None \<and> link_map s' n = Some None)"
proof -
  have "create_route datacenter route_cfg s =
      Inr (add_route datacenter (ZoneEnd (registry_lookup (zone_map s) src_name))
             (ZoneEnd (registry_lookup (zone_map s) dst_name))
             (map (registry_lookup (link_map s)) names) True
             (s\<lparr>zone_map := registry_touch dst_name (registry_touch src_name (zone_map s)),
                link_map := fold registry_touch names (link_map s)\<rparr>))"
    by (simp add: create_route_def src dst links names bindE_def foldE_route_link map_index_eq)
  then show ?thesis
    by (simp add: add_route_def registry_lookup_absent registry_touch_apply
        fold_registry_touch_apply)
qed


text \<open>A route whose three names are all unknown, in the process as it starts.\<close>

theorem route_without_reference_check_witness:
  "\<exists>s'. create_route 0 example_dangling_route initial_state = Inr s' \<and>
        routes s' = [\<lparr>r_zone = 0, r_src = ZoneEnd None, r_dst = ZoneEnd None,
                      r_links = [None], r_symmetrical = True\<rparr>] \<and>
        zone_map s' ''a'' = Some None \<and> zone_map s' ''b'' = Some None \<and>
        link_map s' ''l'' = Some None"
proof -
  have fields: "field_string example_dangling_route ''src'' = Inr ''a''"
    "field_string example_dangling_route ''dst'' = Inr ''b''"
    "json_at example_dangling_route ''links'' = Inr (JArr [JStr ''l''])"
    "json_items (JArr [JStr ''l'']) = map JStr [''l'']"
    by (simp_all add: example_dangling_route_def field_string_def bindE_def)
  from route_without_reference_check [OF fields, of 0 initial_state]
  show ?thesis
    by (auto simp: initial_state_def registry_lookup_absent)
qed

text \<open>
  The claim as the spec states it fails there: no name is registered, and
  \<^verbatim>\<open>create_routes\<close> returns with the route installed between null ends.
\<close>

theorem unknown_reference_counterexample:
  "zone_map initial_state ''a'' = None \<and> zone_map initial_state ''b'' = None \<and>
   link_map initial_state ''l'' = None \<and>
   create_routes 0 example_dangling_routes initial_state = Inr example_dangling_state \<and>
   routes example_dangling_state =
     [\<lparr>r_zone = 0, r_src = ZoneEnd None, r_dst = ZoneEnd None,
       r_links = [None], r_symmetrical = True\<rparr>] \<and>
   zone_map example_dangling_state ''a'' = Some None \<and>
   zone_map example_dangling_state ''b'' = Some None \<and>
   link_map example_dangling_state ''l'' = Some None \<and>
   create_routes 0 example_dangling_routes initial_state \<noteq> Inl UnknownReference"
  by (simp add: create_routes_def example_dangling_routes_def example_dangling_route_def
      create_route_def route_link_def field_string_def bindE_def map_index_def add_route_def
      initial_state_def example_dangling_state_def)

subsection \<open>Every builder reads, then builds\<close>

lemma foldE_factor:
  assumes "\<And>x s. g x s = bindE (r x) (\<lambda>p. Inr (b p s))"
  shows "foldE g xs s = bindE (mapE r xs) (\<lambda>ps. Inr (fold b ps s))"
proof (induction xs arbitrary: s)
  case Nil
  show ?case by (simp add: bindE_def)
next
  case (Cons x xs)
  show ?case
    by (simp add: assms [of x s] Cons.IH bindE_def split: sum.splits)
qed

lemma create_storage_system_zone_eq:
  "create_storage_system_zone parent cfg s =
     bindE (read_storage_config cfg) (\<lambda>p. Inr (build_storage_system parent p s))"
  by (auto simp: create_storage_system_zone_def read_storage_config_def build_storage_system_def
      storage_disks_def storage_entry_def bindE_def add_netzone_def add_host_def add_disk_def
      fold_jbod_disk seal_def OneDiskStorage_create_def JBODStorage_create_def Let_def nth_append
      split: sum.splits)

lemma inter_zone_link_eq:
  "inter_zone_link datacenter cfg s =
     bindE (read_link_config cfg) (\<lambda>p. Inr (build_inter_zone_link datacenter p s))"
  by (auto simp: inter_zone_link_def read_link_config_def build_inter_zone_link_def bindE_def
      add_link_def set_latency_def split: sum.splits)

lemma fold_route_link_step:
  "fold (\<lambda>n acc. (fst acc @ [registry_lookup (link_map (snd acc)) n],
                   (snd acc)\<lparr>link_map := registry_touch n (link_map (snd acc))\<rparr>)) names (acc, s) =
     (acc @ map (registry_lookup (link_map s)) names,
      s\<lparr>link_map := fold registry_touch names (link_map s)\<rparr>)"
  by (induction names arbitrary: acc s) simp_all

lemma foldE_route_link_eq:
  "foldE route_link items (acc, s) =
     bindE (mapE get_string items) (\<lambda>names.
       Inr (acc @ map (registry_lookup (link_map s)) names,
            s\<lparr>link_map := fold registry_touch names (link_map s)\<rparr>))"
proof -
  have "foldE route_link items (acc, s) =
      bindE (mapE get_string items) (\<lambda>names.
        Inr (fold (\<lambda>n acc. (fst acc @ [registry_lookup (link_map (snd acc)) n],
                   (snd acc)\<lparr>link_map := registry_touch n (link_map (snd acc))\<rparr>)) names (acc, s)))"
    by (rule foldE_factor) (simp add: route_link_def map_index_eq)
  then show ?thesis by (simp add: fold_route_link_step)
qed

lemma create_route_eq:
  "create_route datacenter cfg s =
     bindE (read_route_config cfg) (\<lambda>p. Inr (build_route datacenter p s))"
  by (auto simp: create_route_def read_route_config_def build_route_def bindE_def map_index_eq
      foldE_route_link_eq add_route_def split: sum.splits)

lemma create_facility_eq:
  "create_facility dc s = bindE (read_facility dc) (\<lambda>p. Inr (build_facility p s))"
proof -
  have sec: "(if json_contains dc k then bindE (json_at dc k) (\<lambda>cfgs. foldE g (json_items cfgs) t)
              else Inr t) =
             bindE (read_section dc k r) (\<lambda>ps. Inr (fold b ps t))"
    if "\<And>x s. g x s = bindE (r x) (\<lambda>p. Inr (b p s))" for k t
      and g :: "json \<Rightarrow> state \<Rightarrow> error + state" and r :: "json \<Rightarrow> error + 'p" and b
    by (simp add: read_section_def foldE_factor [OF that] bindE_def split: sum.splits)
  show ?thesis
    unfolding create_facility_def create_inter_zone_links_def create_routes_def
    by (simp add: sec [OF create_storage_system_zone_eq] sec [OF create_cluster_zone_eq]
        sec [OF inter_zone_link_eq] sec [OF create_route_eq]
        read_facility_def build_facility_def build_sections_def add_facility_zone_def bindE_def
        add_netzone_def Let_def
        split: sum.splits)
qed

subsection \<open>The placeholder substitution\<close>

lemma prefix_nth_iff:
  "prefix p xs \<longleftrightarrow> length p \<le> length xs \<and> (\<forall>k<length p. xs ! k = p ! k)"
proof
  assume "prefix p xs"
  then obtain zs where "xs = p @ zs" by (auto simp: prefix_def)
  then show "length p \<le> length xs \<and> (\<forall>k<length p. xs ! k = p ! k)"
    by (simp add: nth_append)
next
  assume a: "length p \<le> length xs \<and> (\<forall>k<length p. xs ! k = p ! k)"
  then have "take (length p) xs = p"
    by (simp add: list_eq_iff_nth_eq)
  then show "prefix p xs"
    by (metis take_is_prefix)
qed

lemma prefix_drop_iff:
  "p \<noteq> [] \<Longrightarrow>
   prefix p (drop j s) \<longleftrightarrow> j + length p \<le> length s \<and> (\<forall>k<length p. s ! (j + k) = p ! k)"
proof -
  assume "p \<noteq> []"
  then have "length p \<le> length s - j \<longleftrightarrow> j + length p \<le> length s"
    by (cases p) auto
  then show ?thesis
    by (auto simp: prefix_nth_iff)
qed

lemma find_str_Some:
  "find_str s p = Some n \<Longrightarrow> prefix p (drop n s) \<and> n \<le> length s \<and> (\<forall>j<n. \<not> prefix p (drop j s))"
proof (induction s arbitrary: n)
  case Nil
  then show ?case by (simp split: if_splits)
next
  case (Cons c cs)
  show ?case
  proof (cases "prefix p (c # cs)")
    case True
    with Cons.prems show ?thesis by simp
  next
    case False
    with Cons.prems obtain m where m: "find_str cs p = Some m" "n = Suc m" by auto
    from Cons.IH [OF m(1)] False show ?thesis
      by (auto simp: m(2) less_Suc_eq_0_disj)
  qed
qed

lemma find_str_None:
  "find_str s p = None \<Longrightarrow> j \<le> length s \<Longrightarrow> \<not> prefix p (drop j s)"
proof (induction s arbitrary: j)
  case Nil
  then show ?case by (simp split: if_splits)
next
  case (Cons c cs)
  then show ?case by (cases j) (auto split: if_splits)
qed

lemma find_str_first:
  "prefix p (drop n s) \<Longrightarrow> n \<le> length s \<Longrightarrow> (\<forall>j<n. \<not> prefix p (drop j s)) \<Longrightarrow> find_str s p = Some n"
proof (induction s arbitrary: n)
  case Nil
  then show ?case by simp
next
  case (Cons c cs)
  show ?case
  proof (cases n)
    case 0
    with Cons.prems show ?thesis by simp
  next
    case (Suc m)
    from Cons.prems have "\<not> prefix p (c # cs)" using Suc by (metis drop0 zero_less_Suc)
    moreover have "find_str cs p = Some m"
      using Cons.prems Suc by (intro Cons.IH) auto
    ultimately show ?thesis using Suc by simp
  qed
qed


lemma placeholder_chars:
  "set placeholder = {CHR ''{'', CHR ''h'', CHR ''o'', CHR ''s'', CHR ''t'', CHR ''n'', CHR ''a'', CHR ''m'', CHR ''e'', CHR ''}''}"
  by (auto simp: placeholder_def)

lemma replace_hostname_unfold:
  "replace_hostname t h =
     (case find_str t placeholder of
        None \<Rightarrow> Some t
      | Some pos \<Rightarrow> replace_hostname (take pos t @ h @ drop (pos + 10) t) h)"
  by (subst replace_hostname.simps) (simp add: placeholder_def)

lemma find_str_split:
  assumes "find_str t placeholder = Some pos"
  shows "t = take pos t @ placeholder @ drop (pos + 10) t"
proof -
  from find_str_Some [OF assms] obtain zs where "drop pos t = placeholder @ zs"
    by (auto simp: prefix_def)
  moreover have "length placeholder = 10" by (simp add: placeholder_def)
  ultimately have "drop (pos + 10) t = zs"
    by (metis add.commute append_eq_conv_conj drop_drop)
  with \<open>drop pos t = placeholder @ zs\<close> show ?thesis
    by (metis append_take_drop_id)
qed

text \<open>The loop ends when the hostname lacks one of the two braces.\<close>

lemma replace_hostname_terminates_aux:
  assumes c: "c = CHR ''{'' \<or> c = CHR ''}''" and h: "c \<notin> set h"
  shows "\<exists>r. replace_hostname t h = Some r \<and> find_str r placeholder = None"
proof (induction "count_list t c" arbitrary: t rule: less_induct)
  case less
  show ?case
  proof (cases "find_str t placeholder")
    case None
    then show ?thesis by (subst replace_hostname_unfold) simp
  next
    case (Some pos)
    let ?t' = "take pos t @ h @ drop (pos + 10) t"
    have "count_list t c = count_list (take pos t) c + count_list placeholder c + count_list (drop (pos + 10) t) c"
      by (subst find_str_split [OF Some]) simp
    moreover have "count_list placeholder c = 1"
      using c by (auto simp: placeholder_def)
    moreover have "count_list h c = 0"
      using h by (simp add: count_list_0_iff)
    ultimately have "count_list ?t' c < count_list t c"
      by simp
    from less [OF this] obtain r where "replace_hostname ?t' h = Some r" "find_str r placeholder = None"
      by auto
    then show ?thesis
      by (subst replace_hostname_unfold) (simp add: Some)
  qed
qed



lemma occurrence_survives:
  assumes h: "find_str h placeholder \<noteq> None"
  shows "find_str (a @ h @ b) placeholder \<noteq> None"
proof -
  from h obtain n where n: "find_str h placeholder = Some n" by auto
  from find_str_Some [OF n] have "prefix placeholder (drop n h)" "n \<le> length h" by auto
  then have "prefix placeholder (drop (length a + n) (a @ h @ b))"
    by (simp add: prefix_def) (metis append.assoc)
  moreover have "length a + n \<le> length (a @ h @ b)"
    using \<open>n \<le> length h\<close> by simp
  ultimately show ?thesis
    using find_str_None by blast
qed

lemma replace_hostname_diverges:
  assumes t: "find_str t placeholder \<noteq> None" and h: "find_str h placeholder \<noteq> None"
  shows "replace_hostname t h = None"
proof (rule ccontr)
  assume "replace_hostname t h \<noteq> None"
  then obtain r where r: "replace_hostname t h = Some r" by auto
  have "find_str h placeholder \<noteq> None \<longrightarrow> find_str t placeholder = None"
    using r
  proof (induction t h r rule: replace_hostname.raw_induct [rotated, consumes 1])
    case (1 f t h r)
    show ?case
    proof
      assume hh: "find_str h placeholder \<noteq> None"
      show "find_str t placeholder = None"
      proof (rule ccontr)
        assume "find_str t placeholder \<noteq> None"
        then obtain pos where pos: "find_str t placeholder = Some pos" by auto
        with 1(2) have "f (take pos t @ h @ drop (pos + 10) t) h = Some r"
          by (simp add: placeholder_def)
        from 1(1) [OF this] hh have "find_str (take pos t @ h @ drop (pos + 10) t) placeholder = None"
          by simp
        with occurrence_survives [OF hh] show False by blast
      qed
    qed
  qed
  with t h show False by simp
qed


lemma find_str_after_braceless:
  assumes "CHR ''{'' \<notin> set X"
  shows "find_str (X @ ''{hostname}'' @ Y) placeholder = Some (length X)"
    and "find_str (X @ ''{host{hostname}'' @ Y) placeholder = Some (length X + 5)"
  using assms by (induction X) (simp_all add: placeholder_def)

lemma looping_step:
  assumes "looping t"
  shows "\<exists>pos. find_str t placeholder = Some pos \<and>
           looping (take pos t @ looping_hostname @ drop (pos + 10) t)"
proof -
  from assms obtain X Y where X: "CHR ''{'' \<notin> set X"
    and t: "t = X @ ''{host{hostname}'' @ Y \<or> t = X @ ''{hostname}name}'' @ Y"
    by (auto simp: looping_def)
  from t show ?thesis
  proof
    assume t: "t = X @ ''{host{hostname}'' @ Y"
    have "find_str t placeholder = Some (length X + 5)"
      unfolding t by (rule find_str_after_braceless(2) [OF X])
    moreover have "take (length X + 5) t @ looping_hostname @ drop (length X + 5 + 10) t =
        X @ ''{hostname}name}'' @ (''0{host{host'' @ Y)"
      by (simp add: t looping_hostname_def)
    ultimately show ?thesis
      using X unfolding looping_def by blast
  next
    assume t: "t = X @ ''{hostname}name}'' @ Y"
    have "find_str t placeholder = Some (length X)"
      unfolding t using find_str_after_braceless(1) [OF X, of "''name}'' @ Y"] by simp
    moreover have "take (length X) t @ looping_hostname @ drop (length X + 10) t =
        (X @ ''name}name}0'') @ ''{host{hostname}'' @ Y"
      by (simp add: t looping_hostname_def)
    moreover have "CHR ''{'' \<notin> set (X @ ''name}name}0'')"
      using X by simp
    ultimately show ?thesis
      unfolding looping_def by blast
  qed
qed

lemma looping_diverges:
  assumes "looping t"
  shows "replace_hostname t looping_hostname = None"
proof (rule ccontr)
  assume "replace_hostname t looping_hostname \<noteq> None"
  then obtain r where r: "replace_hostname t looping_hostname = Some r" by auto
  define h where "h = looping_hostname"
  from r have "replace_hostname t h = Some r" by (simp add: h_def)
  then have "h = looping_hostname \<longrightarrow> \<not> looping t"
  proof (induction t h r rule: replace_hostname.raw_induct [rotated, consumes 1])
    case (1 f t h r)
    show ?case
    proof (intro impI notI)
      assume h: "h = looping_hostname" and "looping t"
      from looping_step [OF this(2)] obtain pos where pos: "find_str t placeholder = Some pos"
        and next_loop: "looping (take pos t @ looping_hostname @ drop (pos + 10) t)"
        by blast
      from 1(2) pos have "f (take pos t @ h @ drop (pos + 10) t) h = Some r"
        by (simp add: placeholder_def)
      from 1(1) [OF this] h next_loop show False by simp
    qed
  qed
  with assms show False by (simp add: h_def)
qed

lemma looping_example:
  "find_str looping_hostname placeholder = None"
  "replace_hostname looping_template looping_hostname = None"
proof -
  show "find_str looping_hostname placeholder = None"
    by (simp add: looping_hostname_def placeholder_def)
  have "looping looping_template"
    unfolding looping_def looping_template_def
    by (rule exI [of _ "[]"], rule exI [of _ "[]"]) simp
  then show "replace_hostname looping_template looping_hostname = None"
    by (rule looping_diverges)
qed

text \<open>
  On a hostname without braces that has a character foreign to the placeholder (a
  digit of the node index), the loop computes the substitution of the spec.
\<close>

lemma placeholder_facts:
  "placeholder \<noteq> []" "length placeholder = 10"
  "placeholder ! 0 = CHR ''{''" "placeholder ! 9 = CHR ''}''"
  by (simp_all add: placeholder_def)

lemma no_new_occurrence:
  assumes clean: "\<forall>j<length Q. \<not> prefix placeholder (drop j (Q @ placeholder @ B))"
    and nb: "CHR ''{'' \<notin> set h" "CHR ''}'' \<notin> set h"
    and out: "\<not> set h \<subseteq> set placeholder"
  shows "\<forall>j<length Q + length h. \<not> prefix placeholder (drop j ((Q @ h) @ B))"
proof (intro allI impI notI)
  fix j
  assume j: "j < length Q + length h"
    and "prefix placeholder (drop j ((Q @ h) @ B))"
  then have "j + length placeholder \<le> length ((Q @ h) @ B) \<and>
      (\<forall>k<length placeholder. ((Q @ h) @ B) ! (j + k) = placeholder ! k)"
    using prefix_drop_iff [OF placeholder_facts(1), of j "(Q @ h) @ B"] by blast
  then have len: "j + 10 \<le> length Q + length h + length B"
    and occ: "\<And>k. k < 10 \<Longrightarrow> (Q @ h @ B) ! (j + k) = placeholder ! k"
    by (simp_all add: placeholder_facts(2))
  show False
  proof (cases "j < length Q")
    case False
    with j have a: "j - length Q < length h" by arith
    with False have "(Q @ h @ B) ! j = h ! (j - length Q)"
      by (simp add: nth_append)
    with occ [of 0] have "h ! (j - length Q) = CHR ''{''"
      by (simp add: placeholder_facts)
    with a have "CHR ''{'' \<in> set h"
      by (metis nth_mem)
    with nb show False by simp
  next
    case inQ: True
    show False
    proof (cases "j + 10 \<le> length Q")
      case True
      have "(Q @ placeholder @ B) ! (j + k) = placeholder ! k" if "k < 10" for k
        using occ [OF that] True that by (simp add: nth_append)
      then have "prefix placeholder (drop j (Q @ placeholder @ B))"
        using True by (subst prefix_drop_iff [OF placeholder_facts(1)]) (simp add: placeholder_facts(2))
      with clean inQ show False by blast
    next
      case False
      show False
      proof (cases "j + 10 \<le> length Q + length h")
        case True
        with False have a: "j + 9 - length Q < length h" "\<not> j + 9 < length Q" by arith+
        then have "(Q @ h @ B) ! (j + 9) = h ! (j + 9 - length Q)"
          by (simp add: nth_append)
        with occ [of 9] have "h ! (j + 9 - length Q) = CHR ''}''"
          by (simp add: placeholder_facts)
        with a have "CHR ''}'' \<in> set h"
          by (metis nth_mem)
        with nb show False by simp
      next
        case past: False
        have "h ! i \<in> set placeholder" if "i < length h" for i
        proof -
          have k: "length Q + i - j < 10" using past that inQ by simp
          have "(Q @ h @ B) ! (j + (length Q + i - j)) = h ! i"
            using inQ that by (simp add: nth_append)
          with occ [OF k] have "h ! i = placeholder ! (length Q + i - j)" by simp
          with k show ?thesis by (simp add: placeholder_facts)
        qed
        then have "set h \<subseteq> set placeholder"
          by (auto simp: in_set_conv_nth)
        with out show False by simp
      qed
    qed
  qed
qed


lemma replace_hostname_clean:
  assumes nb: "CHR ''{'' \<notin> set h" "CHR ''}'' \<notin> set h"
    and out: "\<not> set h \<subseteq> set placeholder"
  shows "\<forall>j<length Q. \<not> prefix placeholder (drop j (Q @ B)) \<Longrightarrow>
         replace_hostname (Q @ B) h = Some (Q @ substitute_hostname h B)"
  using nb out
proof (induction h B arbitrary: Q rule: substitute_hostname.induct)
  case (1 h)
  have "find_str Q placeholder = None"
  proof (rule ccontr)
    assume "find_str Q placeholder \<noteq> None"
    then obtain n where n: "find_str Q placeholder = Some n" by auto
    from find_str_Some [OF n] have occ: "prefix placeholder (drop n Q)" and "n \<le> length Q"
      by auto
    with 1(1) have "n = length Q" by (cases "n < length Q") auto
    with occ show False by (simp add: placeholder_def)
  qed
  then show ?case
    by (subst replace_hostname_unfold) simp
next
  case (2 h c cs)
  show ?case
  proof (cases "prefix placeholder (c # cs)")
    case True
    then have split: "c # cs = placeholder @ drop 9 cs"
      by (auto simp: prefix_def placeholder_def)
    have "find_str (Q @ c # cs) placeholder = Some (length Q)"
      using True "2.prems"(1) by (intro find_str_first) simp_all
    then have "replace_hostname (Q @ c # cs) h = replace_hostname ((Q @ h) @ drop 9 cs) h"
      by (subst replace_hostname_unfold) (simp add: split placeholder_def)
    also have "\<dots> = Some ((Q @ h) @ substitute_hostname h (drop 9 cs))"
    proof (rule "2.IH"(1))
      show "prefix ''{hostname}'' (c # cs)"
        using True by (simp add: placeholder_def)
      show "\<forall>j<length (Q @ h). \<not> prefix placeholder (drop j ((Q @ h) @ drop 9 cs))"
        using no_new_occurrence [of Q "drop 9 cs" h] "2.prems" by (simp add: split)
    qed (use "2.prems" in simp_all)
    finally show ?thesis
      using True by (simp add: placeholder_def)
  next
    case False
    have "replace_hostname ((Q @ [c]) @ cs) h = Some ((Q @ [c]) @ substitute_hostname h cs)"
    proof (rule "2.IH"(2))
      show "\<not> prefix ''{hostname}'' (c # cs)"
        using False by (simp add: placeholder_def)
      show "\<forall>j<length (Q @ [c]). \<not> prefix placeholder (drop j ((Q @ [c]) @ cs))"
        using "2.prems"(1) False by (auto simp: less_Suc_eq)
    qed (use "2.prems" in simp_all)
    then show ?thesis
      using False by (auto simp: placeholder_def)
  qed
qed

lemma replace_hostname_substitutes:
  assumes "CHR ''{'' \<notin> set h" "CHR ''}'' \<notin> set h" "\<not> set h \<subseteq> set placeholder"
  shows "replace_hostname t h = Some (substitute_hostname h t)"
  using replace_hostname_clean [OF assms, of "[]" t] by simp

text \<open>
  Claim C10, as the code has it.  When one of the two braces does not occur in the
  hostname, the substitution loop ends, and no placeholder is left in its result.
  When the placeholder occurs in the hostname and in the template, the loop never
  ends.
\<close>

theorem substitution_loop:
  "(CHR ''{'' \<notin> set hostname \<or> CHR ''}'' \<notin> set hostname \<longrightarrow>
      (\<exists>r. replace_hostname template hostname = Some r \<and> find_str r ''{hostname}'' = None)) \<and>
   (find_str template ''{hostname}'' \<noteq> None \<and> find_str hostname ''{hostname}'' \<noteq> None \<longrightarrow>
      replace_hostname template hostname = None)"
proof (intro conjI impI)
  assume "CHR ''{'' \<notin> set hostname \<or> CHR ''}'' \<notin> set hostname"
  then obtain c where "c = CHR ''{'' \<or> c = CHR ''}''" "c \<notin> set hostname" by blast
  from replace_hostname_terminates_aux [OF this]
  show "\<exists>r. replace_hostname template hostname = Some r \<and> find_str r ''{hostname}'' = None"
    by (simp add: placeholder_def)
next
  assume "find_str template ''{hostname}'' \<noteq> None \<and> find_str hostname ''{hostname}'' \<noteq> None"
  then show "replace_hostname template hostname = None"
    using replace_hostname_diverges [of template hostname] by (simp add: placeholder_def)
qed

text \<open>The hostnames \<open>n0\<close> and \<open>{hostname}0\<close> in the template of the example.\<close>

theorem substitution_loop_witness:
  "CHR ''{'' \<notin> set ''n0'' \<and>
   replace_hostname ''/{hostname}/scratch/'' ''n0'' = Some ''/n0/scratch/'' \<and>
   (\<exists>r. replace_hostname ''/{hostname}/scratch/'' ''n0'' = Some r \<and> find_str r ''{hostname}'' = None) \<and>
   find_str ''/{hostname}/scratch/'' ''{hostname}'' \<noteq> None \<and>
   find_str ''{hostname}0'' ''{hostname}'' \<noteq> None \<and>
   replace_hostname ''/{hostname}/scratch/'' ''{hostname}0'' = None"
proof -
  have "replace_hostname ''/{hostname}/scratch/'' ''n0'' = Some ''/n0/scratch/''"
    by (subst replace_hostname_substitutes) (simp_all add: placeholder_def)
  then show ?thesis
    using substitution_loop [of "''n0''" "''/{hostname}/scratch/''"]
      substitution_loop [of "''{hostname}0''" "''/{hostname}/scratch/''"]
    by simp
qed

text \<open>
  The claim as stated fails twice.  The hostname made of the prefix \<open>name}name}\<close>,
  the index \<open>0\<close> and the suffix \<open>{host{host\<close> does not contain the placeholder, and
  the loop never ends on the template \<open>{host{hostname}\<close>: the first pass gives
  \<open>{hostname}name}0{host{host\<close>, the second
  \<open>name}name}0{host{hostname}0{host{host\<close>, in which the template stands again.
  And the hostname \<open>{hostname}0\<close> contains the placeholder, while the loop ends at
  once on a template without it.
\<close>

theorem substitution_loop_counterexample:
  "find_str ''name}name}0{host{host'' ''{hostname}'' = None \<and>
   replace_hostname ''{host{hostname}'' ''name}name}0{host{host'' = None \<and>
   find_str ''{hostname}0'' ''{hostname}'' \<noteq> None \<and>
   replace_hostname ''/scratch/'' ''{hostname}0'' = Some ''/scratch/''"
proof -
  have "replace_hostname ''/scratch/'' ''{hostname}0'' = Some ''/scratch/''"
    by (subst replace_hostname.simps) simp
  then show ?thesis
    using looping_example
    by (simp add: looping_hostname_def looping_template_def placeholder_def)
qed

subsection \<open>The filesystem pass\<close>

lemma digit_char_set: "d < 10 \<Longrightarrow> digit_char d \<in> set ''0123456789''"
proof -
  assume "d < 10"
  then have "d \<in> {0, 1, 2, 3, 4, 5, 6, 7, 8, 9}" by auto
  then show ?thesis by (auto simp: digit_char_def)
qed

lemma to_string_digits_only: "set (to_string n) \<subseteq> set ''0123456789''"
proof (induction n rule: to_string.induct)
  case (1 n)
  show ?case
  proof (cases "n < 10")
    case True
    then show ?thesis
      using digit_char_set [of n] by (subst to_string.simps) simp
  next
    case False
    then show ?thesis
      using 1 digit_char_set [of "n mod 10"] by (subst to_string.simps) simp
  qed
qed

lemma to_string_nonempty: "to_string n \<noteq> []"
  by (subst to_string.simps) simp

lemma hostname_braceless:
  assumes "CHR ''{'' \<notin> set (pfx @ sfx)" "CHR ''}'' \<notin> set (pfx @ sfx)"
  shows "CHR ''{'' \<notin> set (pfx @ to_string i @ sfx)"
    and "CHR ''}'' \<notin> set (pfx @ to_string i @ sfx)"
    and "\<not> set (pfx @ to_string i @ sfx) \<subseteq> set placeholder"
proof -
  have d: "set (to_string i) \<subseteq> set ''0123456789''" by (rule to_string_digits_only)
  show "CHR ''{'' \<notin> set (pfx @ to_string i @ sfx)" "CHR ''}'' \<notin> set (pfx @ to_string i @ sfx)"
    using assms d by auto
  obtain c where c: "c \<in> set (to_string i)"
    using to_string_nonempty [of i] by (cases "to_string i") auto
  with d have "c \<in> set ''0123456789''" by blast
  then have "c \<notin> set placeholder" by (auto simp: placeholder_def)
  with c show "\<not> set (pfx @ to_string i @ sfx) \<subseteq> set placeholder" by auto
qed

lemma mount_nodes_eq:
  assumes "\<forall>i \<in> set is. replace_hostname pattern (ci_prefix v @ to_string i @ ci_suffix v) = Some (m i)"
    and "fs < length (filesystems s)"
  shows "mount_nodes fs pattern sz v is s =
     Some (s\<lparr>filesystems := (filesystems s)
               [fs := (filesystems s ! fs)
                  \<lparr>fs_partitions := fs_partitions (filesystems s ! fs) @
                     map (\<lambda>i. \<lparr>p_mount_point = m i,
                                p_storage = registry_lookup (storage_map s)
                                  ((ci_prefix v @ to_string i @ ci_suffix v) @ ''_'' @ ci_storage_base_name v),
                                p_size = sz\<rparr>) is\<rparr>],
             storage_map := fold registry_touch
               (map (\<lambda>i. (ci_prefix v @ to_string i @ ci_suffix v) @ ''_'' @ ci_storage_base_name v) is)
               (storage_map s)\<rparr>)"
  using assms
proof (induction "is" arbitrary: s)
  case Nil
  then show ?case by simp
next
  case (Cons i "is")
  let ?sn = "\<lambda>i. (ci_prefix v @ to_string i @ ci_suffix v) @ ''_'' @ ci_storage_base_name v"
  let ?s1 = "mount_partition fs (m i) (registry_lookup (storage_map s) (?sn i)) sz
               (s\<lparr>storage_map := registry_touch (?sn i) (storage_map s)\<rparr>)"
  have step: "mount_nodes fs pattern sz v (i # is) s = mount_nodes fs pattern sz v is ?s1"
    using Cons.prems(1) by (simp add: map_index_eq Let_def)
  have "fs < length (filesystems ?s1)"
    using Cons.prems(2) by (simp add: mount_partition_def)
  from Cons.IH [OF _ this] Cons.prems(1)
  have "mount_nodes fs pattern sz v is ?s1 = Some (?s1\<lparr>filesystems := (filesystems ?s1)
               [fs := (filesystems ?s1 ! fs)
                  \<lparr>fs_partitions := fs_partitions (filesystems ?s1 ! fs) @
                     map (\<lambda>i. \<lparr>p_mount_point = m i,
                                p_storage = registry_lookup (storage_map ?s1) (?sn i),
                                p_size = sz\<rparr>) is\<rparr>],
             storage_map := fold registry_touch (map ?sn is) (storage_map ?s1)\<rparr>)"
    by simp
  then show ?case
    unfolding step using Cons.prems(2) by (simp add: mount_partition_def del: mount_nodes.simps)
qed

lemma json_at_contains: "json_at j k = Inr v \<Longrightarrow> json_contains j k"
  by (cases j) (auto split: option.splits)

lemma field_string_contains: "field_string j k = Inr v \<Longrightarrow> json_contains j k"
  by (auto simp: field_string_def bindE_def json_at_contains split: sum.splits)

lemma create_filesystem_cluster_mode:
  assumes name: "field_string fs_cfg ''name'' = Inr name"
    and template: "field_string fs_cfg ''mount_point'' = Inr template"
    and sz: "field_string fs_cfg ''size'' = Inr sz"
    and mode: "\<not> json_contains fs_cfg ''storage_system''"
    and cluster: "field_string fs_cfg ''cluster'' = Inr cluster_name"
    and found: "find_cluster cluster_name platform_config = Inr v"
    and braces: "CHR ''{'' \<notin> set (ci_prefix v @ ci_suffix v)"
      "CHR ''}'' \<notin> set (ci_prefix v @ ci_suffix v)"
  shows "\<exists>s'. create_filesystem platform_config fs_cfg s = Some (Inr s') \<and>
           filesystems s' = filesystems s @
             [\<lparr>fs_name = name, fs_max_open_files = 100000000,
               fs_partitions =
                 map (\<lambda>i. \<lparr>p_mount_point =
                              substitute_hostname (ci_prefix v @ to_string i @ ci_suffix v) template,
                            p_storage = registry_lookup (storage_map s)
                              ((ci_prefix v @ to_string i @ ci_suffix v) @ ''_'' @
                               ci_storage_base_name v),
                            p_size = sz\<rparr>)
                   [0..<nat (ci_count v)]\<rparr>] \<and>
           registered s' = registered s @
             [(registry_lookup (zone_map s) cluster_name, length (filesystems s))]"
proof -
  let ?hn = "\<lambda>i. ci_prefix v @ to_string i @ ci_suffix v"
  let ?fs0 = "\<lparr>fs_name = name, fs_max_open_files = 100000000, fs_partitions = []\<rparr>"
  let ?s1 = "s\<lparr>filesystems := filesystems s @ [?fs0]\<rparr>"
  let ?parts = "map (\<lambda>i. \<lparr>p_mount_point = substitute_hostname (?hn i) template,
                            p_storage = registry_lookup (storage_map s)
                              (?hn i @ ''_'' @ ci_storage_base_name v),
                            p_size = sz\<rparr>) [0..<nat (ci_count v)]"
  have subst: "\<forall>i \<in> set [0..<nat (ci_count v)].
      replace_hostname template (?hn i) = Some (substitute_hostname (?hn i) template)"
    using hostname_braceless [OF braces] by (simp add: replace_hostname_substitutes)
  have fs: "length (filesystems s) < length (filesystems ?s1)"
    by simp
  have mounted: "mount_nodes (length (filesystems s)) template sz v [0..<nat (ci_count v)] ?s1 =
      Some (s\<lparr>filesystems := filesystems s @ [?fs0\<lparr>fs_partitions := ?parts\<rparr>],
              storage_map := fold registry_touch
                (map (\<lambda>i. ?hn i @ ''_'' @ ci_storage_base_name v) [0..<nat (ci_count v)])
                (storage_map s)\<rparr>)"
    by (subst mount_nodes_eq [OF subst fs]) simp
  have "json_contains fs_cfg ''cluster''"
    using cluster by (rule field_string_contains)
  then show ?thesis
    using mode
    by (simp add: create_filesystem_def name template sz cluster found bindR_def
        FileSystem_create_def mounted map_index_eq register_file_system_def max_open_files_def
        del: mount_nodes.simps)
qed

lemma example_find_cluster:
  "find_cluster ''c0'' example_document =
     Inr \<lparr>ci_prefix = ''n'', ci_suffix = [], ci_storage_base_name = ''nvme'', ci_count = 3\<rparr>"
  by (simp add: find_cluster_def example_document_def example_facility_def example_cluster_def
      find_in_facility_def field_string_def field_int_def bindE_def to_int_def)

lemma example_filesystem_fields:
  "field_string example_filesystem ''name'' = Inr ''local_fs''"
  "field_string example_filesystem ''mount_point'' = Inr ''/{hostname}/scratch/''"
  "field_string example_filesystem ''size'' = Inr ''1TB''"
  "\<not> json_contains example_filesystem ''storage_system''"
  "field_string example_filesystem ''cluster'' = Inr ''c0''"
  by (simp_all add: example_filesystem_def field_string_def bindE_def)

lemma example_built_fields:
  "filesystems example_built = []" "registered example_built = []"
  "registry_lookup (zone_map example_built) ''c0'' = Some 1"
  "registry_lookup (storage_map example_built) ''n0_nvme'' =
     Some \<lparr>st_name = ''n0_nvme'', st_kind = OneDisk, st_disks = [0]\<rparr>"
  "registry_lookup (storage_map example_built) ''n1_nvme'' =
     Some \<lparr>st_name = ''n1_nvme'', st_kind = OneDisk, st_disks = [1]\<rparr>"
  "registry_lookup (storage_map example_built) ''n2_nvme'' =
     Some \<lparr>st_name = ''n2_nvme'', st_kind = OneDisk, st_disks = [2]\<rparr>"
  by (simp_all add: example_built_def build_cluster_def cluster_nodes_def
      example_facility_state_def initial_state_def example_cluster_params_def
      registry_lookup_def map_index_def node_storage_entry_def node_hostname_def
      OneDiskStorage_create_def numeral_3_eq_3 Let_def)

lemma example_document_sections:
  "json_index example_document ''facilities'' = Inr (JArr [example_facility], example_document)"
  "json_contains example_document ''filesystems''"
  "json_index example_document ''filesystems'' = Inr (JArr [example_filesystem], example_document)"
  by (simp_all add: example_document_def)

text \<open>The example document: partitions at \<open>/n0/scratch/\<close>, \<open>/n1/scratch/\<close>, \<open>/n2/scratch/\<close>.\<close>

lemma example_document_partitions:
  "\<exists>s'. build_platform example_document initial_state = Some (Inr s') \<and>
        filesystems s' =
          [\<lparr>fs_name = ''local_fs'', fs_max_open_files = 100000000,
            fs_partitions =
              [\<lparr>p_mount_point = ''/n0/scratch/'',
                p_storage = Some \<lparr>st_name = ''n0_nvme'', st_kind = OneDisk, st_disks = [0]\<rparr>,
                p_size = ''1TB''\<rparr>,
               \<lparr>p_mount_point = ''/n1/scratch/'',
                p_storage = Some \<lparr>st_name = ''n1_nvme'', st_kind = OneDisk, st_disks = [1]\<rparr>,
                p_size = ''1TB''\<rparr>,
               \<lparr>p_mount_point = ''/n2/scratch/'',
                p_storage = Some \<lparr>st_name = ''n2_nvme'', st_kind = OneDisk, st_disks = [2]\<rparr>,
                p_size = ''1TB''\<rparr>]\<rparr>] \<and>
        registered s' = [(Some 1, 0)]"
proof -
  have braces: "CHR ''{'' \<notin> set (''n'' @ [])" "CHR ''}'' \<notin> set (''n'' @ [])"
    by simp_all
  from create_filesystem_cluster_mode [OF example_filesystem_fields example_find_cluster,
      of example_built] braces
  obtain s' where s': "create_filesystem example_document example_filesystem example_built = Some (Inr s')"
    and fs: "filesystems s' =
      [\<lparr>fs_name = ''local_fs'', fs_max_open_files = 100000000,
        fs_partitions =
          [\<lparr>p_mount_point = ''/n0/scratch/'',
            p_storage = Some \<lparr>st_name = ''n0_nvme'', st_kind = OneDisk, st_disks = [0]\<rparr>,
            p_size = ''1TB''\<rparr>,
           \<lparr>p_mount_point = ''/n1/scratch/'',
            p_storage = Some \<lparr>st_name = ''n1_nvme'', st_kind = OneDisk, st_disks = [1]\<rparr>,
            p_size = ''1TB''\<rparr>,
           \<lparr>p_mount_point = ''/n2/scratch/'',
            p_storage = Some \<lparr>st_name = ''n2_nvme'', st_kind = OneDisk, st_disks = [2]\<rparr>,
            p_size = ''1TB''\<rparr>]\<rparr>]"
    and reg: "registered s' = [(Some 1, 0)]"
    by (auto simp: example_built_fields numeral_3_eq_3)
  have "create_filesystems (JArr [example_filesystem]) example_document example_built =
      Some (Inr s')"
    by (simp add: create_filesystems_def bindR_def s')
  then have "build_platform example_document initial_state = Some (Inr s')"
    by (simp add: build_platform_def example_document_sections bindR_def bindE_def
        example_facility_run)
  with fs reg show ?thesis by blast
qed


lemma example_braces_facility_run:
  "create_facility example_braces_facility initial_state = Inr example_braces_built"
  by (simp add: example_braces_facility_def create_facility_def field_string_def bindE_def
      create_cluster_zone_def example_braces_cluster_def field_int_def to_int_def
      node_storage_def add_netzone_def add_link_def set_latency_def add_router_def
      set_gateway_def seal_def cluster_node_def add_host_def set_core_count_def
      set_sharing_policy_def add_route_def initial_state_def example_braces_built_def
      to_string_digits Let_def)

lemma example_braces_find_cluster:
  "find_cluster ''c0'' example_braces_document =
     Inr \<lparr>ci_prefix = ''{hostname}'', ci_suffix = [], ci_storage_base_name = [], ci_count = 1\<rparr>"
  by (simp add: find_cluster_def example_braces_document_def example_braces_facility_def
      example_braces_cluster_def find_in_facility_def field_string_def field_int_def bindE_def
      to_int_def)

lemma example_braces_loop:
  "replace_hostname ''/{hostname}/scratch/'' ''{hostname}0'' = None"
  by (rule replace_hostname_diverges) (simp_all add: placeholder_def)

lemma example_braces_filesystem:
  "create_filesystem example_braces_document example_filesystem s = None"
  by (simp add: create_filesystem_def example_filesystem_fields bindR_def
      field_string_contains [OF example_filesystem_fields(5)] example_braces_find_cluster
      FileSystem_create_def example_braces_loop to_string_digits)

lemma example_braces_expected:
  "substitute_hostname ''{hostname}0'' ''/{hostname}/scratch/'' = ''/{hostname}0/scratch/''"
  by (simp add: placeholder_def)

text \<open>
  Claim C3.  The loop that replaces the placeholder searches the mount point from its
  start after every replacement, so it reads the hostname it has just put in.  On the
  document whose cluster \<open>c0\<close> has the hostname prefix \<open>{hostname}\<close> and one node, the
  facility is built, the search finds the cluster, and the template
  \<open>/{hostname}/scratch/\<close> with its one occurrence of the placeholder replaced by the
  hostname \<open>{hostname}0\<close> is \<open>/{hostname}0/scratch/\<close>; but the loop puts the
  placeholder back on every pass, no partition is mounted, no file system is
  registered, and the compile never returns.
\<close>

theorem cluster_filesystem_never_returns:
  "create_facility example_braces_facility initial_state = Inr example_braces_built \<and>
   find_cluster ''c0'' example_braces_document =
     Inr \<lparr>ci_prefix = ''{hostname}'', ci_suffix = [], ci_storage_base_name = [], ci_count = 1\<rparr> \<and>
   map h_name (hosts example_braces_built) = [''{hostname}0''] \<and>
   substitute_hostname ''{hostname}0'' ''/{hostname}/scratch/'' = ''/{hostname}0/scratch/'' \<and>
   replace_hostname ''/{hostname}/scratch/'' ''{hostname}0'' = None \<and>
   create_filesystem example_braces_document example_filesystem example_braces_built = None \<and>
   build_platform example_braces_document initial_state = None"
proof -
  have s: "create_facility example_braces_facility initial_state = Inr example_braces_built"
    by (rule example_braces_facility_run)
  have sections:
    "json_index example_braces_document ''facilities'' =
       Inr (JArr [example_braces_facility], example_braces_document)"
    "json_contains example_braces_document ''filesystems''"
    "json_index example_braces_document ''filesystems'' =
       Inr (JArr [example_filesystem], example_braces_document)"
    by (simp_all add: example_braces_document_def)
  have "build_platform example_braces_document initial_state = None"
    by (simp add: build_platform_def sections bindR_def bindE_def s create_filesystems_def
        example_braces_filesystem)
  moreover have "map h_name (hosts example_braces_built) = [''{hostname}0'']"
    by (simp add: example_braces_built_def)
  ultimately show ?thesis
    by (simp add: s example_braces_find_cluster example_braces_loop example_braces_filesystem
        example_braces_expected)
qed

lemma mount_partition_max:
  "map fs_max_open_files (filesystems (mount_partition fs mp st sz s)) =
     map fs_max_open_files (filesystems s)"
  by (simp add: mount_partition_def map_update_same)

lemma mount_nodes_max:
  "mount_nodes fs pattern sz v is s = Some s' \<Longrightarrow>
   map fs_max_open_files (filesystems s') = map fs_max_open_files (filesystems s)"
proof (induction "is" arbitrary: s)
  case Nil
  then show ?case by simp
next
  case (Cons i "is")
  then show ?case
    by (auto simp: Let_def mount_partition_max map_index_eq split: option.splits)
qed

lemma create_filesystem_max:
  assumes "create_filesystem platform_config fs_cfg s = Some (Inr s')"
  shows "map fs_max_open_files (filesystems s') =
           map fs_max_open_files (filesystems s) @ [100000000]"
  using assms
  by (auto simp: create_filesystem_def bindR_def FileSystem_create_def map_index_eq
      register_file_system_def mount_partition_max max_open_files_def Let_def
      dest!: mount_nodes_max split: sum.splits option.splits if_splits)

lemma foldR_create_filesystem_max:
  "foldR (create_filesystem platform_config) cfgs s = Some (Inr s') \<Longrightarrow>
   map fs_max_open_files (filesystems s') =
     map fs_max_open_files (filesystems s) @ replicate (length cfgs) 100000000"
proof (induction cfgs arbitrary: s)
  case Nil
  then show ?case by simp
next
  case (Cons cfg cfgs)
  then obtain s1 where s1: "create_filesystem platform_config cfg s = Some (Inr s1)"
    and rest: "foldR (create_filesystem platform_config) cfgs s1 = Some (Inr s')"
    by (auto simp: bindR_def split: option.splits sum.splits)
  from Cons.IH [OF rest] create_filesystem_max [OF s1] show ?case
    by (simp add: replicate_app_Cons_same)
qed

text \<open>
  Claim C9.  A filesystem pass that returns has created one file system per entry of
  its configuration, and every one of them has the limit 100000000 on its open files,
  whatever the entry and the document hold.
\<close>

theorem max_open_files_constant:
  assumes "create_filesystems filesystems_config platform_config s = Some (Inr s')"
  shows "length (filesystems s') = length (filesystems s) + length (json_items filesystems_config) \<and>
         (\<forall>fs \<in> set (drop (length (filesystems s)) (filesystems s')).
            fs_max_open_files fs = 100000000)"
proof -
  from assms have m: "map fs_max_open_files (filesystems s') =
      map fs_max_open_files (filesystems s) @
      replicate (length (json_items filesystems_config)) 100000000"
    unfolding create_filesystems_def by (rule foldR_create_filesystem_max)
  then have len: "length (filesystems s') =
      length (filesystems s) + length (json_items filesystems_config)"
    by (metis length_append length_map length_replicate)
  have "map fs_max_open_files (drop (length (filesystems s)) (filesystems s')) =
      replicate (length (json_items filesystems_config)) 100000000"
    using m by (simp add: drop_map [symmetric])
  then have "\<forall>fs \<in> set (drop (length (filesystems s)) (filesystems s')).
      fs_max_open_files fs = 100000000"
    by (metis (no_types, lifting) imageI in_set_replicate list.set_map)
  with len show ?thesis by simp
qed

theorem max_open_files_constant_witness:
  "\<exists>s'. create_filesystems (JArr [example_filesystem]) example_document example_built =
          Some (Inr s') \<and>
        map fs_max_open_files (filesystems s') = [100000000]"
proof -
  have braces: "CHR ''{'' \<notin> set (''n'' @ [])" "CHR ''}'' \<notin> set (''n'' @ [])"
    by simp_all
  from create_filesystem_cluster_mode [OF example_filesystem_fields example_find_cluster,
      of example_built] braces
  obtain s1 where "create_filesystem example_document example_filesystem example_built =
      Some (Inr s1)"
    by auto
  then have run: "create_filesystems (JArr [example_filesystem]) example_document example_built =
      Some (Inr s1)"
    by (simp add: create_filesystems_def bindR_def)
  from max_open_files_constant [OF run]
  have "length (filesystems s1) = 1" "\<forall>fs \<in> set (filesystems s1). fs_max_open_files fs = 100000000"
    by (simp_all add: example_built_fields)
  then have "map fs_max_open_files (filesystems s1) = [100000000]"
    by (cases "filesystems s1") auto
  with run show ?thesis by (intro exI [of _ s1] conjI)
qed


subsection \<open>What a pass keeps\<close>

lemma extends_refl [simp]: "extends s s"
  by (simp add: extends_def)

lemma extends_trans [trans]: "extends s t \<Longrightarrow> extends t u \<Longrightarrow> extends s u"
  unfolding extends_def by (meson order_trans prefix_order.trans)

lemma fold_extends:
  assumes "\<And>x s. extends s (f x s)"
  shows "extends s (fold f xs s)"
proof (induction xs arbitrary: s)
  case Nil
  show ?case by simp
next
  case (Cons x xs)
  show ?case
    using assms [of s x] Cons.IH [of "f x s"] by (auto intro: extends_trans)
qed

lemma zone_ident_seal [simp]:
  "map zone_ident (zones (seal z s)) = map zone_ident (zones s)"
  by (simp add: seal_def map_update_same zone_ident_def)

lemma extends_seal [simp]: "extends s (seal z s)"
  by (simp add: extends_def)

lemma dom_registry_touch: "dom (registry_touch k m) = insert k (dom m)"
  by (auto simp: registry_touch_apply dom_def)

lemma dom_fold_registry_touch: "dom (fold registry_touch ks m) = set ks \<union> dom m"
  by (induction ks arbitrary: m) (auto simp: dom_registry_touch)

lemma dom_node_storage_entry: "dom m \<subseteq> dom (node_storage_entry v i d m)"
  by (auto simp: node_storage_entry_def Let_def)

lemma dom_fold_node_storage_entry:
  "dom m \<subseteq> dom (fold (\<lambda>i. node_storage_entry v i (f i)) [0..<n] m)"
proof (induction n)
  case 0
  show ?case by simp
next
  case (Suc n)
  then show ?case
    using dom_node_storage_entry [of "fold (\<lambda>i. node_storage_entry v i (f i)) [0..<n] m" v n "f n"]
    by simp
qed

lemma extends_build_cluster: "extends s (build_cluster parent p s)"
  using dom_fold_node_storage_entry [of "storage_map s"]
  by (auto simp: extends_def build_cluster_def cluster_nodes_def)

lemma extends_build_storage_system: "extends s (build_storage_system parent p s)"
  by (auto simp: extends_def build_storage_system_def storage_entry_def)

lemma extends_build_inter_zone_link: "extends s (build_inter_zone_link datacenter p s)"
  by (auto simp: extends_def build_inter_zone_link_def split: prod.splits)

lemma extends_build_route: "extends s (build_route datacenter p s)"
  by (auto simp: extends_def build_route_def dom_registry_touch dom_fold_registry_touch
      split: prod.splits)

lemma extends_build_sections: "extends s (build_sections datacenter p s)"
proof -
  have "extends s (fold (build_storage_system datacenter) (fp_storage_systems p) s)"
    by (rule fold_extends) (rule extends_build_storage_system)
  also have "extends \<dots> (fold (build_cluster datacenter) (fp_clusters p) \<dots>)"
    by (rule fold_extends) (rule extends_build_cluster)
  also have "extends \<dots> (fold (build_inter_zone_link datacenter) (fp_links p) \<dots>)"
    by (rule fold_extends) (rule extends_build_inter_zone_link)
  also have "extends \<dots> (fold (build_route datacenter) (fp_routes p) \<dots>)"
    by (rule fold_extends) (rule extends_build_route)
  finally show ?thesis
    by (simp add: build_sections_def)
qed

lemma extends_add_facility_zone: "extends s (add_facility_zone p s)"
  by (auto simp: extends_def add_facility_zone_def)

lemma extends_build_facility: "extends s (build_facility p s)"
proof -
  note extends_add_facility_zone [of s p]
  also note extends_build_sections [of "add_facility_zone p s" "length (zones s)" p]
  also have "extends (build_sections (length (zones s)) p (add_facility_zone p s))
      (build_facility p s)"
    by (simp add: build_facility_def)
  finally show ?thesis .
qed

subsection \<open>The facility zone\<close>

lemma create_facility_Inr:
  assumes "create_facility dc s = Inr s'"
  obtains p where "read_facility dc = Inr p" and "s' = build_facility p s"
  using assms by (auto simp: create_facility_eq bindE_def split: sum.splits)

lemma prefix_map_nth:
  assumes "prefix (map f xs) (map f ys)" and "i < length xs"
  shows "i < length ys \<and> f (ys ! i) = f (xs ! i)"
proof -
  from assms(1) obtain zs where zs: "map f ys = map f xs @ zs"
    by (auto simp: prefix_def)
  then have "length ys = length xs + length zs"
    by (metis length_append length_map)
  with assms(2) have i: "i < length ys" by simp
  have "map f ys ! i = map f xs ! i"
    using assms(2) by (simp add: zs nth_append)
  with i assms(2) show ?thesis by simp
qed

lemma build_facility_zone:
  "length (zones s) < length (zones (build_facility p s))"
  "zone_ident (zones (build_facility p s) ! length (zones s)) = (fp_name p, fp_routing p, None)"
  "nz_sealed (zones (build_facility p s) ! length (zones s))"
proof -
  let ?z = "length (zones s)"
  let ?s2 = "add_facility_zone p s"
  let ?s6 = "build_sections ?z p ?s2"
  have "prefix (map zone_ident (zones ?s2)) (map zone_ident (zones ?s6))"
    using extends_build_sections [of ?s2 ?z p] by (simp add: extends_def)
  moreover have "?z < length (zones ?s2)"
    by (simp add: add_facility_zone_def)
  ultimately have z: "?z < length (zones ?s6)"
    and ident: "zone_ident (zones ?s6 ! ?z) = zone_ident (zones ?s2 ! ?z)"
    using prefix_map_nth by blast+
  show "length (zones s) < length (zones (build_facility p s))"
    using z by (simp add: build_facility_def)
  show "zone_ident (zones (build_facility p s) ! length (zones s)) = (fp_name p, fp_routing p, None)"
    using z ident by (simp add: build_facility_def seal_def zone_ident_def add_facility_zone_def)
  show "nz_sealed (zones (build_facility p s) ! length (zones s))"
    using z by (simp add: build_facility_def seal_def)
qed

lemma other_member:
  "field_string (JObj ((''routing'', v) # members)) ''name'' = field_string (JObj members) ''name''"
  "read_section (JObj ((''routing'', v) # members)) ''storage_systems'' r1 =
     read_section (JObj members) ''storage_systems'' r1"
  "read_section (JObj ((''routing'', v) # members)) ''clusters'' r2 =
     read_section (JObj members) ''clusters'' r2"
  "read_section (JObj ((''routing'', v) # members)) ''links'' r3 =
     read_section (JObj members) ''links'' r3"
  "read_section (JObj ((''routing'', v) # members)) ''routes'' r4 =
     read_section (JObj members) ''routes'' r4"
  "field_string (JObj ((''routing'', JStr x) # members)) ''routing'' = Inr x"
  by (simp_all add: field_string_def read_section_def bindE_def)

lemma read_facility_routing:
  assumes "field_string (JObj members) ''routing'' = Inr r" "r \<noteq> ''floyd''"
  shows "read_facility (JObj members) = read_facility (JObj ((''routing'', JStr ''full'') # members))"
  unfolding read_facility_def other_member
  using assms by (cases "field_string (JObj members) ''name''") (simp_all add: bindE_def)

lemma non_string: "\<forall>x. v \<noteq> JStr x \<Longrightarrow> get_string v = Inl TypeMismatch"
  by (cases v) simp_all

text \<open>
  Claim C4, as the code has it.  A facility entry whose routing field is a string
  other than \<open>full\<close> and \<open>floyd\<close> is compiled exactly as the same entry with the
  routing \<open>full\<close>: no error comes from the field, when the facility is built its
  zone is a child of the root zone with the routing \<open>full\<close>, sealed, and an entry
  with no section is built so without any condition.  The fallback is for strings
  only: the field is converted to a \<^verbatim>\<open>std::string\<close> before it is compared, and with
  a value that is not a string (\<^verbatim>\<open>null\<close>, a number) the compile of the facility fails
  with the type error of that conversion.
\<close>

theorem routing_fallback:
  "(field_string (JObj members) ''routing'' = Inr r \<and> r \<noteq> ''full'' \<and> r \<noteq> ''floyd'' \<longrightarrow>
      create_facility (JObj members) s =
        create_facility (JObj ((''routing'', JStr ''full'') # members)) s \<and>
      (\<forall>s'. create_facility (JObj members) s = Inr s' \<longrightarrow>
         length (zones s) < length (zones s') \<and>
         field_string (JObj members) ''name'' = Inr (nz_name (zones s' ! length (zones s))) \<and>
         nz_routing (zones s' ! length (zones s)) = FullZone \<and>
         nz_parent (zones s' ! length (zones s)) = None \<and>
         nz_sealed (zones s' ! length (zones s))) \<and>
      (field_string (JObj members) ''name'' = Inr name \<and>
       \<not> json_contains (JObj members) ''storage_systems'' \<and>
       \<not> json_contains (JObj members) ''clusters'' \<and>
       \<not> json_contains (JObj members) ''links'' \<and>
       \<not> json_contains (JObj members) ''routes'' \<longrightarrow>
         create_facility (JObj members) s =
           Inr (s\<lparr>zones := zones s @
                     [\<lparr>nz_name = name, nz_routing = FullZone, nz_parent = None,
                       nz_gateway = None, nz_sealed = True\<rparr>],
                  zone_map := (zone_map s)(name \<mapsto> Some (length (zones s)))\<rparr>))) \<and>
   (field_string (JObj members) ''name'' = Inr name \<and>
    json_at (JObj members) ''routing'' = Inr v \<and> (\<forall>x. v \<noteq> JStr x) \<longrightarrow>
      create_facility (JObj members) s = Inl TypeMismatch)"
proof (intro conjI impI allI)
  assume a: "field_string (JObj members) ''routing'' = Inr r \<and> r \<noteq> ''full'' \<and> r \<noteq> ''floyd''"
  then show "create_facility (JObj members) s =
      create_facility (JObj ((''routing'', JStr ''full'') # members)) s"
    by (simp add: create_facility_eq read_facility_routing)
  {
    fix s'
    assume "create_facility (JObj members) s = Inr s'"
    then obtain p where p: "read_facility (JObj members) = Inr p" and s': "s' = build_facility p s"
      by (rule create_facility_Inr)
    from p a have "field_string (JObj members) ''name'' = Inr (fp_name p)" "fp_routing p = FullZone"
      by (auto simp: read_facility_def bindE_def split: sum.splits if_splits)
    with build_facility_zone [where s = s and p = p]
    show "length (zones s) < length (zones s')"
      "field_string (JObj members) ''name'' = Inr (nz_name (zones s' ! length (zones s)))"
      "nz_routing (zones s' ! length (zones s)) = FullZone"
      "nz_parent (zones s' ! length (zones s)) = None"
      "nz_sealed (zones s' ! length (zones s))"
      by (simp_all add: s' zone_ident_def)
  }
  assume "field_string (JObj members) ''name'' = Inr name \<and>
       \<not> json_contains (JObj members) ''storage_systems'' \<and>
       \<not> json_contains (JObj members) ''clusters'' \<and>
       \<not> json_contains (JObj members) ''links'' \<and>
       \<not> json_contains (JObj members) ''routes''"
  with a show "create_facility (JObj members) s =
           Inr (s\<lparr>zones := zones s @
                     [\<lparr>nz_name = name, nz_routing = FullZone, nz_parent = None,
                       nz_gateway = None, nz_sealed = True\<rparr>],
                  zone_map := (zone_map s)(name \<mapsto> Some (length (zones s)))\<rparr>)"
    by (simp add: create_facility_def bindE_def add_netzone_def seal_def)
next
  assume "field_string (JObj members) ''name'' = Inr name \<and>
    json_at (JObj members) ''routing'' = Inr v \<and> (\<forall>x. v \<noteq> JStr x)"
  then show "create_facility (JObj members) s = Inl TypeMismatch"
    by (simp add: create_facility_def field_string_def bindE_def non_string)
qed


text \<open>A facility with the routing \<open>dijkstra\<close>, and one with the routing \<^verbatim>\<open>null\<close>.\<close>

theorem routing_fallback_witness:
  "field_string (JObj example_dijkstra_facility) ''routing'' = Inr ''dijkstra'' \<and>
   create_facility (JObj example_dijkstra_facility) initial_state =
     create_facility (JObj ((''routing'', JStr ''full'') # example_dijkstra_facility)) initial_state \<and>
   create_facility (JObj example_dijkstra_facility) initial_state =
     Inr (initial_state
            \<lparr>zones := [\<lparr>nz_name = ''dc'', nz_routing = FullZone, nz_parent = None,
                        nz_gateway = None, nz_sealed = True\<rparr>],
             zone_map := [''dc'' \<mapsto> Some 0]\<rparr>) \<and>
   json_at example_null_routed_facility ''routing'' = Inr JNull \<and>
   create_facility example_null_routed_facility initial_state = Inl TypeMismatch"
proof -
  have d: "field_string (JObj example_dijkstra_facility) ''routing'' = Inr ''dijkstra''"
    "field_string (JObj example_dijkstra_facility) ''name'' = Inr ''dc''"
    "\<not> json_contains (JObj example_dijkstra_facility) ''storage_systems''"
    "\<not> json_contains (JObj example_dijkstra_facility) ''clusters''"
    "\<not> json_contains (JObj example_dijkstra_facility) ''links''"
    "\<not> json_contains (JObj example_dijkstra_facility) ''routes''"
    by (simp_all add: example_dijkstra_facility_def field_string_def bindE_def)
  have n: "field_string (JObj [(''name'', JStr ''dc''), (''routing'', JNull)]) ''name'' = Inr ''dc''"
    "json_at (JObj [(''name'', JStr ''dc''), (''routing'', JNull)]) ''routing'' = Inr JNull"
    by (simp_all add: field_string_def bindE_def)
  have a1: "field_string (JObj example_dijkstra_facility) ''routing'' = Inr ''dijkstra'' \<and>
      ''dijkstra'' \<noteq> ''full'' \<and> ''dijkstra'' \<noteq> ''floyd''"
    using d by simp
  have a2: "field_string (JObj example_dijkstra_facility) ''name'' = Inr ''dc'' \<and>
       \<not> json_contains (JObj example_dijkstra_facility) ''storage_systems'' \<and>
       \<not> json_contains (JObj example_dijkstra_facility) ''clusters'' \<and>
       \<not> json_contains (JObj example_dijkstra_facility) ''links'' \<and>
       \<not> json_contains (JObj example_dijkstra_facility) ''routes''"
    using d by simp
  have a3: "field_string (JObj [(''name'', JStr ''dc''), (''routing'', JNull)]) ''name'' = Inr ''dc'' \<and>
      json_at (JObj [(''name'', JStr ''dc''), (''routing'', JNull)]) ''routing'' = Inr JNull \<and>
      (\<forall>x. JNull \<noteq> JStr x)"
    using n by simp
  note t1 = routing_fallback [of example_dijkstra_facility "''dijkstra''" initial_state "''dc''" JNull]
  note t2 = routing_fallback [of "[(''name'', JStr ''dc''), (''routing'', JNull)]" "''dijkstra''"
      initial_state "''dc''" JNull]
  note b = mp [OF t1 [THEN conjunct1] a1]
  have e1: "create_facility (JObj example_dijkstra_facility) initial_state =
     create_facility (JObj ((''routing'', JStr ''full'') # example_dijkstra_facility)) initial_state"
    using b by (rule conjunct1)
  have e2: "create_facility (JObj example_dijkstra_facility) initial_state =
     Inr (initial_state
            \<lparr>zones := zones initial_state @
                [\<lparr>nz_name = ''dc'', nz_routing = FullZone, nz_parent = None,
                  nz_gateway = None, nz_sealed = True\<rparr>],
             zone_map := (zone_map initial_state)(''dc'' \<mapsto> Some (length (zones initial_state)))\<rparr>)"
    using mp [OF b [THEN conjunct2, THEN conjunct2] a2] .
  have e3: "create_facility example_null_routed_facility initial_state = Inl TypeMismatch"
    unfolding example_null_routed_facility_def using mp [OF t2 [THEN conjunct2] a3] .
  have z: "zones initial_state = []" "zone_map initial_state = Map.empty"
    by (simp_all add: initial_state_def)
  show ?thesis
    using d(1) e1 e2 e3 n(2) by (simp add: example_null_routed_facility_def z)
qed

text \<open>
  The claim as stated fails for a routing that is not a string: with the routing
  \<^verbatim>\<open>null\<close>, a value other than \<open>full\<close> and \<open>floyd\<close>, no facility is compiled and
  the compile fails.
\<close>

theorem routing_fallback_counterexample:
  "field_string example_null_routed_facility ''name'' = Inr ''dc'' \<and>
   json_at example_null_routed_facility ''routing'' = Inr JNull \<and>
   create_facility example_null_routed_facility initial_state = Inl TypeMismatch"
  by (simp add: example_null_routed_facility_def create_facility_def field_string_def bindE_def)

subsection \<open>The compile as a plan\<close>

lemma mount_nodes_None:
  "\<exists>i \<in> set is. replace_hostname pattern (ci_prefix v @ to_string i @ ci_suffix v) = None \<Longrightarrow>
   mount_nodes fs pattern sz v is s = None"
proof (induction "is" arbitrary: s)
  case Nil
  then show ?case by simp
next
  case (Cons i "is")
  show ?case
  proof (cases "replace_hostname pattern (ci_prefix v @ to_string i @ ci_suffix v)")
    case None
    then show ?thesis by simp
  next
    case (Some m)
    with Cons.prems have "\<exists>i \<in> set is. replace_hostname pattern (ci_prefix v @ to_string i @ ci_suffix v) = None"
      by auto
    from Cons.IH [OF this] Some show ?thesis
      by (simp add: Let_def split: prod.splits)
  qed
qed

lemma create_filesystem_eq:
  "create_filesystem platform_config fs_cfg s = run_plan (filesystem_step platform_config fs_cfg) s"
proof (cases "read_filesystem platform_config fs_cfg")
  case (Inl e)
  then show ?thesis
    by (auto simp: run_plan_def filesystem_step_def create_filesystem_def read_filesystem_def
        bindR_def bindE_def split: sum.splits if_splits)
next
  case (Inr plan)
  show ?thesis
  proof (cases "fsp_mode plan")
    case (SingleStorage n)
    with Inr show ?thesis
      by (auto simp: run_plan_def filesystem_step_def create_filesystem_def read_filesystem_def
          bindR_def bindE_def build_filesystem_def fs_partitions_of_def FileSystem_create_def
          mount_partition_def register_file_system_def map_index_eq max_open_files_def Let_def
          split: sum.splits if_splits)
  next
    case NoMode
    with Inr show ?thesis
      by (auto simp: run_plan_def filesystem_step_def create_filesystem_def read_filesystem_def
          bindR_def bindE_def build_filesystem_def fs_partitions_of_def FileSystem_create_def
          max_open_files_def
          split: sum.splits if_splits)
  next
    case (ClusterMode c v)
    with Inr have fields: "field_string fs_cfg ''name'' = Inr (fsp_name plan)"
      "field_string fs_cfg ''mount_point'' = Inr (fsp_mount_point plan)"
      "field_string fs_cfg ''size'' = Inr (fsp_size plan)"
      "\<not> json_contains fs_cfg ''storage_system''" "json_contains fs_cfg ''cluster''"
      "field_string fs_cfg ''cluster'' = Inr c" "find_cluster c platform_config = Inr v"
      by (auto simp: read_filesystem_def bindE_def split: sum.splits if_splits)
    let ?s1 = "s\<lparr>filesystems := filesystems s @
        [\<lparr>fs_name = fsp_name plan, fs_max_open_files = 100000000, fs_partitions = []\<rparr>]\<rparr>"
    show ?thesis
    proof (cases "mounts_end (fsp_mount_point plan) v")
      case True
      then have ok: "\<forall>i \<in> set [0..<nat (ci_count v)].
          replace_hostname (fsp_mount_point plan) (ci_prefix v @ to_string i @ ci_suffix v) =
          Some (the (replace_hostname (fsp_mount_point plan) (ci_prefix v @ to_string i @ ci_suffix v)))"
        by (auto simp: mounts_end_def list_all_iff cluster_hostname_def)
      have fs: "length (filesystems s) < length (filesystems ?s1)" by simp
      have "mount_nodes (length (filesystems s)) (fsp_mount_point plan) (fsp_size plan) v
              [0..<nat (ci_count v)] ?s1 =
            Some (s\<lparr>filesystems := filesystems s @
                      [\<lparr>fs_name = fsp_name plan, fs_max_open_files = 100000000,
                        fs_partitions = fs_partitions_of plan s\<rparr>],
                    storage_map := fold registry_touch
                      (map (cluster_storage_name v) [0..<nat (ci_count v)]) (storage_map s)\<rparr>)"
        by (subst mount_nodes_eq [OF ok fs])
          (simp add: fs_partitions_of_def ClusterMode cluster_storage_name_def [abs_def]
            cluster_hostname_def [abs_def])
      then show ?thesis
        using True Inr ClusterMode
        by (simp add: run_plan_def filesystem_step_def create_filesystem_def fields bindR_def
            FileSystem_create_def max_open_files_def map_index_eq register_file_system_def
            build_filesystem_def del: mount_nodes.simps)
    next
      case False
      then have "\<exists>i \<in> set [0..<nat (ci_count v)].
          replace_hostname (fsp_mount_point plan) (ci_prefix v @ to_string i @ ci_suffix v) = None"
        by (auto simp: mounts_end_def list_all_iff cluster_hostname_def)
      from mount_nodes_None [OF this] show ?thesis
        using False Inr ClusterMode
        by (simp add: run_plan_def filesystem_step_def create_filesystem_def fields bindR_def
            FileSystem_create_def max_open_files_def del: mount_nodes.simps)
    qed
  qed
qed

lemma run_plan_simps [simp]:
  "run_plan None s = None"
  "run_plan (Some (Inl e)) s = Some (Inl e)"
  "run_plan (Some (Inr f)) s = Some (Inr (f s))"
  by (simp_all add: run_plan_def)

lemma foldR_steps:
  assumes "\<And>x s. g x s = run_plan (r x) s"
  shows "foldR g xs s = run_plan (steps (map r xs)) s"
proof (induction xs arbitrary: s)
  case Nil
  show ?case by simp
next
  case (Cons x xs)
  show ?case
  proof (cases "r x")
    case None
    then show ?thesis by (simp add: assms [of x s] bindR_def)
  next
    case (Some a)
    show ?thesis
    proof (cases a)
      case (Inl e)
      with Some show ?thesis by (simp add: assms [of x s] bindR_def)
    next
      case (Inr f)
      with Some have "foldR g (x # xs) s = run_plan (steps (map r xs)) (f s)"
        by (simp add: assms [of x s] bindR_def Cons.IH)
      also have "\<dots> = run_plan (steps (map r (x # xs))) s"
        using Some Inr
        by (cases "steps (map r xs)") (auto simp: bindR_def split: sum.splits)
      finally show ?thesis .
    qed
  qed
qed

lemma create_filesystems_eq:
  "create_filesystems filesystems_config platform_config s =
     run_plan (steps (map (filesystem_step platform_config) (json_items filesystems_config))) s"
  unfolding create_filesystems_def by (rule foldR_steps) (rule create_filesystem_eq)

lemma facilities_eq:
  "foldE create_facility xs s =
     bindE (mapE read_facility xs) (\<lambda>plans. Inr (fold build_facility plans s))"
  by (rule foldE_factor) (rule create_facility_eq)

lemma build_platform_eq: "build_platform config s = run_plan (platform_plan config) s"
proof (cases "json_index config ''facilities''")
  case (Inl e)
  then show ?thesis
    by (simp add: build_platform_def platform_plan_def bindR_def)
next
  case (Inr a)
  obtain facilities config1 where a: "a = (facilities, config1)" by (cases a)
  show ?thesis
  proof (cases "mapE read_facility (json_items facilities)")
    case (Inl e)
    with Inr a show ?thesis
      by (simp add: build_platform_def platform_plan_def bindR_def facilities_eq bindE_def)
  next
    case plans: (Inr plans)
    show ?thesis
    proof (cases "json_contains config1 ''filesystems''")
      case False
      with Inr a plans show ?thesis
        by (simp add: build_platform_def platform_plan_def bindR_def facilities_eq bindE_def)
    next
      case True
      show ?thesis
      proof (cases "json_index config1 ''filesystems''")
        case (Inl e)
        with Inr a plans True show ?thesis
          by (simp add: build_platform_def platform_plan_def bindR_def facilities_eq bindE_def)
      next
        case fsc: (Inr b)
        obtain fc config2 where b: "b = (fc, config2)" by (cases b)
        show ?thesis
          using Inr a plans True fsc b
          by (cases "steps (map (filesystem_step config2) (json_items fc))")
            (auto simp: build_platform_def platform_plan_def bindR_def facilities_eq bindE_def
              create_filesystems_eq split: sum.splits)
      qed
    qed
  qed
qed

lemma steps_induct:
  assumes id: "P (\<lambda>s. s)" and comp: "\<And>f g. P f \<Longrightarrow> P g \<Longrightarrow> P (\<lambda>s. g (f s))"
    and each: "\<And>m f. m \<in> set ms \<Longrightarrow> m = Some (Inr f) \<Longrightarrow> P f"
  shows "steps ms = Some (Inr h) \<Longrightarrow> P h"
  using each
proof (induction ms arbitrary: h)
  case Nil
  with id show ?case by (simp add: id_def)
next
  case (Cons m ms)
  from Cons.prems(1) obtain f g where m: "m = Some (Inr f)" and g: "steps ms = Some (Inr g)"
    and h: "h = g \<circ> f"
    by (auto simp: bindR_def split: option.splits sum.splits)
  have "P f" using Cons.prems(2) m by simp
  moreover have "P g" using Cons.IH [OF g] Cons.prems(2) by simp
  ultimately show ?case using comp h by (simp add: comp_def)
qed

lemma fold_induct:
  assumes id: "P (\<lambda>s. s)" and comp: "\<And>f g. P f \<Longrightarrow> P g \<Longrightarrow> P (\<lambda>s. g (f s))"
    and each: "\<And>x. P (b x)"
  shows "P (fold b xs)"
proof (induction xs)
  case Nil
  have "fold b [] = (\<lambda>s. s)" by (simp add: fun_eq_iff)
  with id show ?case by simp
next
  case (Cons x xs)
  have "fold b (x # xs) = (\<lambda>s. fold b xs (b x s))" by (simp add: fun_eq_iff)
  with comp [OF each Cons] show ?case by simp
qed

lemma filesystem_step_Inr:
  "filesystem_step platform_config fs_cfg = Some (Inr f) \<Longrightarrow> \<exists>plan. f = build_filesystem plan"
  by (auto simp: filesystem_step_def split: sum.splits fs_mode.splits if_splits)

lemma platform_plan_induct:
  assumes plan: "platform_plan config = Some (Inr h)"
    and id: "P (\<lambda>s. s)" and comp: "\<And>f g. P f \<Longrightarrow> P g \<Longrightarrow> P (\<lambda>s. g (f s))"
    and facility: "\<And>p. P (build_facility p)"
    and filesystem: "\<And>plan. P (build_filesystem plan)"
  shows "P h"
proof -
  have fac: "P (fold build_facility plans)" for plans
  proof (rule fold_induct [where P = P])
    show "P (\<lambda>s. s)" by (rule id)
    show "P (\<lambda>s. g (f s))" if "P f" "P g" for f g using that by (rule comp)
    show "P (build_facility x)" for x by (rule facility)
  qed
  have fs: "P f" if "steps (map (filesystem_step pc) cfgs) = Some (Inr f)" for f pc cfgs
    using that
  proof (rule steps_induct [where P = P, rotated -1])
    show "P (\<lambda>s. s)" by (rule id)
    show "P (\<lambda>s. g (f s))" if "P f" "P g" for f g using that by (rule comp)
  next
    fix m f
    assume "m \<in> set (map (filesystem_step pc) cfgs)" "m = Some (Inr f)"
    then obtain x where "filesystem_step pc x = Some (Inr f)" by auto
    then obtain plan where "f = build_filesystem plan"
      using filesystem_step_Inr by blast
    with filesystem show "P f" by simp
  qed
  from plan obtain fa c1 plans where c1: "json_index config ''facilities'' = Inr (fa, c1)"
    and plans: "mapE read_facility (json_items fa) = Inr plans"
    by (auto simp: platform_plan_def bindR_def split: sum.splits)
  show ?thesis
  proof (cases "json_contains c1 ''filesystems''")
    case False
    with plan c1 plans have "h = fold build_facility plans"
      by (simp add: platform_plan_def bindR_def)
    with fac show ?thesis by simp
  next
    case True
    with plan c1 plans obtain fc c2 f where
      f: "steps (map (filesystem_step c2) (json_items fc)) = Some (Inr f)"
      and h: "h = (\<lambda>s. f (fold build_facility plans s))"
      by (auto simp: platform_plan_def bindR_def comp_def split: sum.splits option.splits)
    have "P (\<lambda>s. f (fold build_facility plans s))"
      using fac [of plans] fs [OF f] by (rule comp)
    with h show ?thesis by simp
  qed
qed

section \<open>The maps across passes\<close>

lemma extends_build_filesystem: "extends s (build_filesystem plan s)"
  by (auto simp: extends_def build_filesystem_def dom_registry_touch dom_fold_registry_touch
      split: fs_mode.splits)

lemma extends_platform_plan:
  assumes "platform_plan config = Some (Inr h)"
  shows "extends s (h s)"
proof -
  have "\<forall>s. extends s (h s)"
    using assms
  proof (rule platform_plan_induct [where P = "\<lambda>f. \<forall>s. extends s (f s)"])
    show "\<forall>s. extends s s" by simp
    show "\<forall>s. extends s (g (f s))"
      if "\<forall>s. extends s (f s)" "\<forall>s. extends s (g s)" for f g :: "state \<Rightarrow> state"
      using that extends_trans by blast
    show "\<forall>s. extends s (build_facility p s)" for p by (simp add: extends_build_facility)
    show "\<forall>s. extends s (build_filesystem plan s)" for plan
      by (simp add: extends_build_filesystem)
  qed
  then show ?thesis by simp
qed

lemma extends_build_platform:
  assumes "build_platform config s = Some (Inr s')"
  shows "extends s s'"
proof -
  from assms obtain a where a: "platform_plan config = Some a"
    by (cases "platform_plan config") (simp_all add: build_platform_eq)
  with assms obtain h where "a = Inr h" "s' = h s"
    by (cases a) (simp_all add: build_platform_eq)
  with a show ?thesis by (simp add: extends_platform_plan)
qed

lemma load_platform_Inr:
  assumes "load_platform env s = Some (Inr s')"
  obtains content config where "env_open env (get_config_path env) = Some content"
    "env_parse env content = Some config" "build_platform config s = Some (Inr s')"
  using assms by (auto simp: load_platform_def Let_def split: option.splits)

lemma example_built_zone_map:
  "zone_map example_built = [''dc'' \<mapsto> Some 0, ''c0'' \<mapsto> Some 1]"
  "zones example_built =
     [\<lparr>nz_name = ''dc'', nz_routing = FullZone, nz_parent = None,
       nz_gateway = None, nz_sealed = True\<rparr>,
      \<lparr>nz_name = ''c0'', nz_routing = StarZone, nz_parent = Some 0,
       nz_gateway = Some 0, nz_sealed = True\<rparr>]"
  "link_map example_built = Map.empty"
  by (simp_all add: example_built_def build_cluster_def cluster_nodes_def
      example_facility_state_def initial_state_def example_cluster_params_def
      seal_def Let_def)

lemma example_environment_paths:
  "load_platform example_environment s = build_platform example_topology s"
  "load_platform example_later_environment s = build_platform example_later_document s"
  by (simp_all add: load_platform_def get_config_path_def example_environment_def
      example_later_environment_def)

lemma example_later_run:
  "build_platform example_later_document example_built = Some (Inr example_later_pass)"
  by (simp add: build_platform_def example_later_document_def example_later_facility_def
      bindR_def bindE_def create_facility_def field_string_def add_netzone_def
      create_routes_def create_route_def map_index_def add_route_def seal_def
      example_built_zone_map example_later_pass_def numeral_2_eq_2)

lemma example_later_fresh:
  "build_platform example_later_document initial_state = Some (Inr example_later_alone)"
  by (simp add: build_platform_def example_later_document_def example_later_facility_def
      bindR_def bindE_def create_facility_def field_string_def add_netzone_def
      create_routes_def create_route_def map_index_def add_route_def seal_def
      initial_state_def example_later_alone_def)


text \<open>
  Claim C8, as the code has it.  The three maps are globals of the shared object that
  nothing clears: a pass of \<^verbatim>\<open>load_platform\<close> starts from the maps as the process holds
  them, and when it returns every name that was in a map is still in it.
\<close>

theorem registries_persist:
  assumes "load_platform env s = Some (Inr s')"
  shows "dom (zone_map s) \<subseteq> dom (zone_map s') \<and>
         dom (link_map s) \<subseteq> dom (link_map s') \<and>
         dom (storage_map s) \<subseteq> dom (storage_map s')"
proof -
  from assms obtain content config where "build_platform config s = Some (Inr s')"
    by (rule load_platform_Inr)
  then have "extends s s'" by (rule extends_build_platform)
  then show ?thesis by (simp add: extends_def)
qed

text \<open>The later pass, in the process that compiled the example topology.\<close>

theorem registries_persist_witness:
  "load_platform example_later_environment example_built = Some (Inr example_later_pass) \<and>
   dom (zone_map example_built) = {''dc'', ''c0''} \<and>
   dom (zone_map example_built) \<subseteq> dom (zone_map example_later_pass) \<and>
   dom (link_map example_built) \<subseteq> dom (link_map example_later_pass) \<and>
   dom (storage_map example_built) \<subseteq> dom (storage_map example_later_pass)"
  using registries_persist [of example_later_environment example_built example_later_pass]
  by (auto simp: example_environment_paths example_later_run example_built_zone_map)

text \<open>
  The claim as stated fails: after the pass over the example topology the zones \<open>dc\<close>
  and \<open>c0\<close> are in the zone map, and a later pass over a document that declares
  neither finds them there and routes between them.  From empty maps the same
  document gives a route between null ends.
\<close>

theorem registry_scope_counterexample:
  "load_platform example_environment initial_state = Some (Inr example_built) \<and>
   zone_map example_built ''dc'' = Some (Some 0) \<and>
   zone_map example_built ''c0'' = Some (Some 1) \<and>
   load_platform example_later_environment example_built = Some (Inr example_later_pass) \<and>
   routes example_later_pass =
     routes example_built @
       [\<lparr>r_zone = 2, r_src = ZoneEnd (Some 1), r_dst = ZoneEnd (Some 0),
         r_links = [], r_symmetrical = True\<rparr>] \<and>
   load_platform example_later_environment initial_state = Some (Inr example_later_alone) \<and>
   routes example_later_alone =
     [\<lparr>r_zone = 0, r_src = ZoneEnd None, r_dst = ZoneEnd None,
       r_links = [], r_symmetrical = True\<rparr>]"
  by (simp add: example_environment_paths example_topology_run example_later_run
      example_later_fresh example_built_zone_map example_later_pass_def)
    (simp add: example_later_alone_def)


section \<open>Two compiles of one document\<close>

lemma shift_map_upd [simp]:
  "shift_map f (m(k \<mapsto> v)) = (shift_map f m)(k \<mapsto> map_option f v)"
  by (simp add: shift_map_def fun_eq_iff)

lemma shift_map_empty [simp]: "shift_map f Map.empty = Map.empty"
  by (simp add: shift_map_def)

lemma registry_lookup_shift [simp]:
  "registry_lookup (shift_map f m) k = map_option f (registry_lookup m k)"
  by (simp add: registry_lookup_def map_index_def shift_map_def split: option.splits)

lemma registry_touch_shift [simp]:
  "registry_touch k (shift_map f m) = shift_map f (registry_touch k m)"
  by (auto simp: registry_touch_def map_index_def shift_map_def fun_eq_iff split: option.splits)

lemma fold_registry_touch_shift [simp]:
  "fold registry_touch ks (shift_map f m) = shift_map f (fold registry_touch ks m)"
  by (induction ks arbitrary: m) simp_all

lemma fold_commute_graft:
  assumes "\<And>x t. f x (g t) = g (f' x t)"
  shows "fold f xs (g t) = g (fold f' xs t)"
  by (induction xs arbitrary: t) (simp_all add: assms)

lemma graft_lengths [simp]:
  "length (zones (graft b t)) = length (zones b) + length (zones t)"
  "length (hosts (graft b t)) = length (hosts b) + length (hosts t)"
  "length (disks (graft b t)) = length (disks b) + length (disks t)"
  "length (links (graft b t)) = length (links b) + length (links t)"
  "length (routers (graft b t)) = length (routers b) + length (routers t)"
  "length (routes (graft b t)) = length (routes b) + length (routes t)"
  "length (filesystems (graft b t)) = length (filesystems b) + length (filesystems t)"
  by (simp_all add: graft_def)

lemma graft_maps [simp]:
  "storage_map (graft b t) = shift_map (shift_storage b) (storage_map t)"
  "zone_map (graft b t) = shift_map (\<lambda>h. length (zones b) + h) (zone_map t)"
  "link_map (graft b t) = shift_map (\<lambda>h. length (links b) + h) (link_map t)"
  by (simp_all add: graft_def)

lemma graft_add_facility_zone:
  "add_facility_zone p (graft b t) = graft b (add_facility_zone p t)"
  by (simp add: add_facility_zone_def graft_def shift_zone_def)

lemma plus_assoc_fun: "(+) (a + b) = (\<lambda>x. a + (b + x :: nat))"
  by (simp add: fun_eq_iff)

lemma graft_build_storage_system:
  "build_storage_system (length (zones b) + parent) p (graft b t) =
     graft b (build_storage_system parent p t)"
  by (simp add: build_storage_system_def graft_def shift_zone_def shift_host_def
      storage_disks_def shift_disk_def storage_entry_def shift_storage_def
      JBODStorage_create_def OneDiskStorage_create_def comp_def plus_assoc_fun)

lemma graft_build_inter_zone_link:
  "build_inter_zone_link (length (zones b) + datacenter) p (graft b t) =
     graft b (build_inter_zone_link datacenter p t)"
  by (simp add: build_inter_zone_link_def graft_def shift_link_def split: prod.splits)

lemma graft_build_route:
  "build_route (length (zones b) + datacenter) p (graft b t) =
     graft b (build_route datacenter p t)"
  by (simp add: build_route_def graft_def shift_route_def comp_def split: prod.splits)

lemma shift_zone_sealed:
  "shift_zone b (z\<lparr>nz_sealed := True\<rparr>) = (shift_zone b z)\<lparr>nz_sealed := True\<rparr>"
  by (simp add: shift_zone_def)

lemma graft_seal: "seal (length (zones b) + z) (graft b t) = graft b (seal z t)"
proof (cases "z < length (zones t)")
  case True
  then show ?thesis
    by (simp add: seal_def graft_def list_update_append nth_append map_update shift_zone_sealed)
next
  case False
  then show ?thesis by (simp add: seal_def graft_def list_update_beyond)
qed


lemma node_storage_entry_shift:
  "node_storage_entry v i (length (disks b) + d) (shift_map (shift_storage b) m) =
     shift_map (shift_storage b) (node_storage_entry v i d m)"
  by (simp add: node_storage_entry_def Let_def shift_storage_def
      JBODStorage_create_def OneDiskStorage_create_def)

lemma fold_node_storage_entry_shift:
  "fold (\<lambda>i. node_storage_entry v i (length (disks b) + g i)) xs
       (shift_map (shift_storage b) m) =
     shift_map (shift_storage b) (fold (\<lambda>i. node_storage_entry v i (g i)) xs m)"
  by (induction xs arbitrary: m) (simp_all add: node_storage_entry_shift)

lemma shift_node_objects:
  "shift_host b (node_host c v i) = node_host (length (zones b) + c) v i"
  "map (shift_disk b) (node_disks v i h) = node_disks v i (length (hosts b) + h)"
  "map (shift_link b) (node_links c v i) = node_links (length (zones b) + c) v i"
  "map (shift_route b) (node_routes c bb h l) =
     node_routes (length (zones b) + c) (length (links b) + bb) (length (hosts b) + h)
       (length (links b) + l)"
  by (simp_all add: node_host_def shift_host_def node_disks_def shift_disk_def node_links_def
      shift_link_def node_routes_def shift_route_def)

lemma graft_cluster_nodes:
  "cluster_nodes (length (zones b) + c) (length (links b) + bb) v n (graft b t) =
     graft b (cluster_nodes c bb v n t)"
proof -
  have sm: "fold (\<lambda>i. node_storage_entry v i
                (length (disks b) + length (disks t) + (if cl_has_storage v then i else 0)))
              [0..<n] (shift_map (shift_storage b) (storage_map t)) =
            shift_map (shift_storage b)
              (fold (\<lambda>i. node_storage_entry v i
                 (length (disks t) + (if cl_has_storage v then i else 0))) [0..<n] (storage_map t))"
    using fold_node_storage_entry_shift
      [of v b "\<lambda>i. length (disks t) + (if cl_has_storage v then i else 0)" "[0..<n]" "storage_map t"]
    by (simp add: add.assoc)
  show ?thesis
    by (simp add: cluster_nodes_def sm)
      (simp add: graft_def map_concat comp_def shift_node_objects add.assoc)
qed

lemma graft_build_cluster:
  "build_cluster (length (zones b) + parent) p (graft b t) = graft b (build_cluster parent p t)"
proof -
  have 1: "(graft b t)\<lparr>zones := zones (graft b t) @
              [\<lparr>nz_name = cp_name p, nz_routing = StarZone,
                nz_parent = Some (length (zones b) + parent),
                nz_gateway = Some (length (routers b) + length (routers t)), nz_sealed = True\<rparr>],
           links := links (graft b t) @
              [\<lparr>l_name = cp_name p @ ''_backbone'', l_zone = length (zones b) + length (zones t),
                l_bandwidth = cp_backbone_bw p, l_latency = cp_backbone_lat p, l_policy = SHARED\<rparr>],
           routers := routers (graft b t) @
              [\<lparr>rt_name = cp_name p @ ''_router'', rt_zone = length (zones b) + length (zones t)\<rparr>],
           zone_map := (zone_map (graft b t))
              (cp_name p \<mapsto> Some (length (zones b) + length (zones t)))\<rparr> =
        graft b (t\<lparr>zones := zones t @
              [\<lparr>nz_name = cp_name p, nz_routing = StarZone, nz_parent = Some parent,
                nz_gateway = Some (length (routers t)), nz_sealed = True\<rparr>],
           links := links t @
              [\<lparr>l_name = cp_name p @ ''_backbone'', l_zone = length (zones t),
                l_bandwidth = cp_backbone_bw p, l_latency = cp_backbone_lat p, l_policy = SHARED\<rparr>],
           routers := routers t @ [\<lparr>rt_name = cp_name p @ ''_router'', rt_zone = length (zones t)\<rparr>],
           zone_map := (zone_map t)(cp_name p \<mapsto> Some (length (zones t)))\<rparr>)"
    by (simp add: graft_def shift_zone_def shift_link_def shift_router_def)
  have "build_cluster (length (zones b) + parent) p (graft b t) =
      cluster_nodes (length (zones b) + length (zones t)) (length (links b) + length (links t))
        (cp_locals p) (nat (cp_count p))
        (graft b (t\<lparr>zones := zones t @
              [\<lparr>nz_name = cp_name p, nz_routing = StarZone, nz_parent = Some parent,
                nz_gateway = Some (length (routers t)), nz_sealed = True\<rparr>],
           links := links t @
              [\<lparr>l_name = cp_name p @ ''_backbone'', l_zone = length (zones t),
                l_bandwidth = cp_backbone_bw p, l_latency = cp_backbone_lat p, l_policy = SHARED\<rparr>],
           routers := routers t @ [\<lparr>rt_name = cp_name p @ ''_router'', rt_zone = length (zones t)\<rparr>],
           zone_map := (zone_map t)(cp_name p \<mapsto> Some (length (zones t)))\<rparr>))"
    unfolding build_cluster_def graft_lengths 1 ..
  also have "\<dots> = graft b (build_cluster parent p t)"
    unfolding build_cluster_def by (rule graft_cluster_nodes)
  finally show ?thesis .
qed


lemma fold_graft:
  assumes "\<And>x t. f x (graft b t) = graft b (f' x t)"
  shows "fold f xs (graft b t) = graft b (fold f' xs t)"
  by (induction xs arbitrary: t) (simp_all add: assms)

lemma graft_build_sections:
  "build_sections (length (zones b) + datacenter) p (graft b t) =
     graft b (build_sections datacenter p t)"
  unfolding build_sections_def
  by (simp add: fold_graft [where f' = "build_storage_system datacenter"]
      fold_graft [where f' = "build_cluster datacenter"]
      fold_graft [where f' = "build_inter_zone_link datacenter"]
      fold_graft [where f' = "build_route datacenter"]
      graft_build_storage_system graft_build_cluster graft_build_inter_zone_link
      graft_build_route)

lemma graft_build_facility: "build_facility p (graft b t) = graft b (build_facility p t)"
  by (simp add: build_facility_def graft_add_facility_zone graft_build_sections graft_seal)

lemma shift_fs_partitions_of:
  "fs_partitions_of plan (graft b t) = map (shift_partition b) (fs_partitions_of plan t)"
  by (simp add: fs_partitions_of_def shift_partition_def comp_def split: fs_mode.splits)

lemma graft_build_filesystem:
  "build_filesystem plan (graft b t) = graft b (build_filesystem plan t)"
  by (simp add: build_filesystem_def shift_fs_partitions_of)
    (simp add: graft_def shift_filesystem_def shift_registered_def split: fs_mode.splits)

lemma graft_platform_plan:
  assumes "platform_plan config = Some (Inr h)"
  shows "h (graft b t) = graft b (h t)"
proof -
  have "\<forall>b t. h (graft b t) = graft b (h t)"
    using assms
  proof (rule platform_plan_induct [where P = "\<lambda>f. \<forall>b t. f (graft b t) = graft b (f t)"])
    show "\<forall>b t. graft b t = graft b t" by simp
    show "\<forall>b t. g (f (graft b t)) = graft b (g (f t))"
      if "\<forall>b t. f (graft b t) = graft b (f t)" "\<forall>b t. g (graft b t) = graft b (g t)"
      for f g :: "state \<Rightarrow> state"
      using that by simp
    show "\<forall>b t. build_facility p (graft b t) = graft b (build_facility p t)" for p
      by (simp add: graft_build_facility)
    show "\<forall>b t. build_filesystem plan (graft b t) = graft b (build_filesystem plan t)" for plan
      by (simp add: graft_build_filesystem)
  qed
  then show ?thesis by simp
qed

lemma graft_initial_state: "fresh b \<Longrightarrow> graft b initial_state = b"
  by (simp add: graft_def initial_state_def fresh_def)

lemma nth_opt_graft:
  "nth_opt (xs @ map f ys) (length xs + i) = map_option f (nth_opt ys i)"
  by (simp add: nth_opt_def)

lemma graft_lists:
  "zones (graft b t) = zones b @ map (shift_zone b) (zones t)"
  "hosts (graft b t) = hosts b @ map (shift_host b) (hosts t)"
  "disks (graft b t) = disks b @ map (shift_disk b) (disks t)"
  "links (graft b t) = links b @ map (shift_link b) (links t)"
  "routers (graft b t) = routers b @ map (shift_router b) (routers t)"
  by (simp_all add: graft_def)

lemma zone_attributes_graft:
  "zone_attributes_of (graft b t) (shift_zone b z) = zone_attributes_of t z"
  by (cases "nz_parent z"; cases "nz_gateway z")
    (simp_all add: zone_attributes_of_def graft_lists nth_opt_graft shift_zone_def
      shift_router_def option.map_comp comp_def)

lemma zone_view_graft: "zone_view (graft b t) = zone_view t"
proof
  fix n
  show "zone_view (graft b t) n = zone_view t n"
  proof (cases "zone_map t n")
    case None
    then show ?thesis by (simp add: zone_view_def shift_map_def)
  next
    case (Some z)
    then show ?thesis
      by (cases z)
        (simp_all add: zone_view_def shift_map_def graft_lists nth_opt_graft option.map_comp
          comp_def zone_attributes_graft)
  qed
qed

lemma link_attributes_graft:
  "link_attributes_of (graft b t) (shift_link b l) = link_attributes_of t l"
  by (simp add: link_attributes_of_def graft_lists nth_opt_graft shift_link_def shift_zone_def
      option.map_comp comp_def)

lemma link_view_graft: "link_view (graft b t) = link_view t"
proof
  fix n
  show "link_view (graft b t) n = link_view t n"
  proof (cases "link_map t n")
    case None
    then show ?thesis by (simp add: link_view_def shift_map_def)
  next
    case (Some l)
    then show ?thesis
      by (cases l)
        (simp_all add: link_view_def shift_map_def graft_lists nth_opt_graft option.map_comp
          comp_def link_attributes_graft)
  qed
qed

lemma disk_attributes_graft:
  "disk_attributes_of (graft b t) (shift_disk b d) = disk_attributes_of t d"
  by (simp add: disk_attributes_of_def graft_lists nth_opt_graft shift_disk_def shift_host_def
      option.map_comp comp_def)

lemma storage_attributes_graft:
  "storage_attributes_of (graft b t) (shift_storage b st) = storage_attributes_of t st"
  by (simp add: storage_attributes_of_def graft_lists nth_opt_graft shift_storage_def
      option.map_comp comp_def disk_attributes_graft)

lemma storage_view_graft: "storage_view (graft b t) = storage_view t"
  by (simp add: storage_view_def fun_eq_iff shift_map_def option.map_comp comp_def
      storage_attributes_graft)

lemma registry_view_graft: "registry_view (graft b t) = registry_view t"
  by (simp add: registry_view_def zone_view_graft link_view_graft storage_view_graft)

lemma outcome_fresh:
  assumes "fresh s"
  shows "outcome (build_platform config s) = outcome (build_platform config initial_state)"
proof (cases "platform_plan config")
  case None
  then show ?thesis by (simp add: build_platform_eq outcome_def)
next
  case (Some a)
  show ?thesis
  proof (cases a)
    case (Inl e)
    with Some show ?thesis by (simp add: build_platform_eq outcome_def)
  next
    case (Inr h)
    with Some have "h (graft s initial_state) = graft s (h initial_state)"
      by (simp add: graft_platform_plan)
    with assms have "registry_view (h s) = registry_view (h initial_state)"
      by (simp add: graft_initial_state registry_view_graft)
    with Some Inr show ?thesis by (simp add: build_platform_eq outcome_def)
  qed
qed


lemma build_platform_graft:
  assumes "fresh b" and "build_platform config initial_state = Some (Inr t)"
  shows "build_platform config b = Some (Inr (graft b t))"
proof -
  from assms(2) obtain a where a: "platform_plan config = Some a"
    by (cases "platform_plan config") (simp_all add: build_platform_eq)
  with assms(2) obtain h where h: "a = Inr h" "t = h initial_state"
    by (cases a) (auto simp: build_platform_eq)
  from a h have "h (graft b initial_state) = graft b (h initial_state)"
    by (simp add: graft_platform_plan)
  with assms(1) a h show ?thesis by (simp add: build_platform_eq graft_initial_state)
qed

lemma load_platform_cases:
  obtains e where "\<And>s. load_platform env s = Some (Inl e)"
  | config where "\<And>s. load_platform env s = build_platform config s"
  by (cases "env_open env (get_config_path env)";
      cases "env_parse env (the (env_open env (get_config_path env)))")
    (auto simp: load_platform_def Let_def)

lemma dom_views:
  "dom (zone_view s) = dom (zone_map s)"
  "dom (link_view s) = dom (link_map s)"
  "dom (storage_view s) = dom (storage_map s)"
  by (auto simp: zone_view_def link_view_def storage_view_def dom_def)

lemma outcome_load_platform:
  assumes "fresh s"
  shows "outcome (load_platform env s) = outcome (load_platform env initial_state)"
  by (rule load_platform_cases [of env]) (simp_all add: outcome_fresh [OF assms])

lemma outcome_Inr:
  assumes "outcome r1 = outcome r2" and "r1 = Some (Inr s1')"
  obtains s2' where "r2 = Some (Inr s2')" "registry_view s1' = registry_view s2'"
proof -
  from assms obtain a where a: "r2 = Some a" by (cases r2) (simp_all add: outcome_def)
  with assms obtain s2' where "a = Inr s2'" "registry_view s1' = registry_view s2'"
    by (cases a) (simp_all add: outcome_def)
  with a that show ?thesis by simp
qed

text \<open>
  Claim C7.  Two compiles of the same input, each in a process that has not compiled
  before, end in the same way whatever the two engines hold: both run forever, or both
  fail with the same error, or both return, and then the three registries hold the
  same names, and under each name objects with the same attributes.
\<close>

theorem compile_deterministic:
  assumes "fresh s1" and "fresh s2"
  shows "outcome (load_platform env s1) = outcome (load_platform env s2) \<and>
    (\<forall>s1'. load_platform env s1 = Some (Inr s1') \<longrightarrow>
       (\<exists>s2'. load_platform env s2 = Some (Inr s2') \<and>
          dom (zone_map s1') = dom (zone_map s2') \<and>
          dom (link_map s1') = dom (link_map s2') \<and>
          dom (storage_map s1') = dom (storage_map s2') \<and>
          zone_view s1' = zone_view s2' \<and>
          link_view s1' = link_view s2' \<and>
          storage_view s1' = storage_view s2'))"
proof (intro conjI allI impI)
  show eq: "outcome (load_platform env s1) = outcome (load_platform env s2)"
    using assms by (simp add: outcome_load_platform)
  fix s1'
  assume "load_platform env s1 = Some (Inr s1')"
  with eq obtain s2' where s2': "load_platform env s2 = Some (Inr s2')"
    and v: "registry_view s1' = registry_view s2'"
    by (rule outcome_Inr)
  from v have "zone_view s1' = zone_view s2'" "link_view s1' = link_view s2'"
    "storage_view s1' = storage_view s2'"
    by (simp_all add: registry_view_def)
  moreover from this have "dom (zone_map s1') = dom (zone_map s2')"
    "dom (link_map s1') = dom (link_map s2')" "dom (storage_map s1') = dom (storage_map s2')"
    using dom_views [of s1'] dom_views [of s2'] by simp_all
  ultimately show "\<exists>s2'. load_platform env s2 = Some (Inr s2') \<and>
          dom (zone_map s1') = dom (zone_map s2') \<and>
          dom (link_map s1') = dom (link_map s2') \<and>
          dom (storage_map s1') = dom (storage_map s2') \<and>
          zone_view s1' = zone_view s2' \<and>
          link_view s1' = link_view s2' \<and>
          storage_view s1' = storage_view s2'"
    using s2' by (intro exI [of _ s2'] conjI)
qed

lemma fresh_examples: "fresh initial_state" "fresh example_other_engine"
  by (simp_all add: fresh_def initial_state_def example_other_engine_def)

lemma example_other_run:
  "load_platform example_environment example_other_engine =
     Some (Inr (graft example_other_engine example_built))"
  by (simp add: example_environment_paths build_platform_graft fresh_examples
      example_topology_run)

lemma example_other_handles:
  "zone_map (graft example_other_engine example_built) ''c0'' = Some (Some 2)"
  "length (zones example_other_engine) = Suc 0"
  "zone_view example_built ''c0'' = Some (Some (''c0'', StarZone, True, Some (Some ''dc''), Some (Some ''c0_router'')))"
  by (simp_all add: example_built_zone_map shift_map_def example_other_engine_def
      initial_state_def zone_view_def nth_opt_def zone_attributes_of_def
      example_built_def build_cluster_def cluster_nodes_def
      example_facility_state_def example_cluster_params_def seal_def Let_def)

text \<open>
  The example topology compiled beside an empty engine and beside one that holds a
  zone and a host already: the cluster \<open>c0\<close> is the zone 1 of the first engine and
  the zone 2 of the second, with the same attributes.
\<close>

theorem compile_deterministic_witness:
  "fresh initial_state \<and> fresh example_other_engine \<and>
   load_platform example_environment initial_state = Some (Inr example_built) \<and>
   load_platform example_environment example_other_engine =
     Some (Inr (graft example_other_engine example_built)) \<and>
   zone_map example_built ''c0'' = Some (Some 1) \<and>
   zone_map (graft example_other_engine example_built) ''c0'' = Some (Some 2) \<and>
   zone_view example_built ''c0'' =
     Some (Some (''c0'', StarZone, True, Some (Some ''dc''), Some (Some ''c0_router''))) \<and>
   zone_view (graft example_other_engine example_built) = zone_view example_built \<and>
   link_view (graft example_other_engine example_built) = link_view example_built \<and>
   storage_view (graft example_other_engine example_built) = storage_view example_built \<and>
   outcome (load_platform example_environment initial_state) =
     outcome (load_platform example_environment example_other_engine)"
proof -
  note d = compile_deterministic [OF fresh_examples, of example_environment]
  have r: "load_platform example_environment initial_state = Some (Inr example_built)"
    by (simp add: example_environment_paths example_topology_run)
  from d r have v: "zone_view (graft example_other_engine example_built) = zone_view example_built"
    "link_view (graft example_other_engine example_built) = link_view example_built"
    "storage_view (graft example_other_engine example_built) = storage_view example_built"
    by (simp_all add: example_other_run)
  from d have "outcome (load_platform example_environment initial_state) =
     outcome (load_platform example_environment example_other_engine)"
    by simp
  with r v show ?thesis
    by (simp add: fresh_examples example_other_run example_other_handles example_built_zone_map)
qed


end
